theory Spec2Isabelle
  imports Main
begin

section \<open>Data model\<close>

text \<open>
  The consolidation engine of \<^verbatim>\<open>terra_data_util_update.py\<close> works on pandas data frames
  read from the Terra table store. A cell is a string, a number or the empty value (NaN);
  the operations used here (\<^verbatim>\<open>duplicated\<close>, \<^verbatim>\<open>isin\<close>) treat two empty values as equal, as
  HOL equality on \<open>Null\<close> does.
\<close>

datatype cell = Null | Num int | Str string

text \<open>
  A data frame is its column labels and its rows, each row holding one cell per column.
  Every frame of the engine comes from \<^verbatim>\<open>read_csv\<close> or from \<^verbatim>\<open>merge\<close>, so its row labels
  are unique and \<^verbatim>\<open>df.drop(df[mask].index)\<close> removes exactly the rows selected by the mask:
  rows are addressed by position.
\<close>

record dataframe =
  columns :: "string list"
  rows :: "cell list list"

text \<open>Values of the merge-parameter dictionaries.\<close>

datatype pyval = PyNone | PyBool bool | PyStr string | PyTuple "string list"

type_synonym params = "string \<rightharpoonup> pyval"

datatype error =
    FireCloudServiceException int
  | FireCloudServerError int
  | NetworkError
  | AssertionError string
  | KeyError string
  | ValueError
  | AttributeError
  | TypeError
  | MergeError

text \<open>What the logger records at level INFO and above, and what is written to stderr.\<close>

datatype event =
    ErrorMissingFinalIndex
  | InfoTableExists string "nat option" "nat option"
  | InfoRetrying nat
  | InfoStartUpload
  | InfoFinishedUpload
  | Stderr string
  | InfoTableIgnored string
  | InfoMerged string pyval pyval nat nat
  | WarnRemovedDuplicates nat string string "cell list"
  | WarnRowCountIncreased nat
  | InfoTableSize string nat nat
  | ErrorTruncation nat nat string nat nat
  | WarnSizeMismatch nat nat string nat nat

record table_info =
  count :: nat
  attributeNames :: "string list"

text \<open>
  The process state: the two class attributes of \<^verbatim>\<open>DataTableInfo\<close>, the log, and the chunks
  handed to \<^verbatim>\<open>fapi_upload_entities\<close> so far, in call order.
\<close>

record state =
  data_table_info :: "(string \<times> table_info) list option"
  data_table_names :: "string list option"
  logged :: "event list"
  writes :: "dataframe list"

text \<open>
  The collaborators outside the repository. An API call either raises or answers with a
  status code; a call that is retried is asked again with the next attempt number
  (from 1). The body of a table response is given as the frame \<^verbatim>\<open>read_csv\<close> parses from it.
  The listing may depend on the chunks written so far. \<open>merge\<close> is \<^verbatim>\<open>DataFrame.merge\<close>;
  \<open>exponent\<close> is the exponent the retry library gives \<^verbatim>\<open>wait_exponential\<close> for an attempt
  number.
\<close>

record env =
  get_entities_tsv :: "string \<Rightarrow> nat \<Rightarrow> error + int \<times> dataframe"
  upload_entities :: "dataframe \<Rightarrow> nat \<Rightarrow> error + int"
  list_entity_types :: "dataframe list \<Rightarrow> error + int \<times> (string \<times> table_info) list"
  merge :: "dataframe \<Rightarrow> dataframe \<Rightarrow> params \<Rightarrow> error + dataframe"
  exponent :: "nat \<Rightarrow> nat"

record merge_info =
  merge_parameters :: "params option"
  join_column :: "pyval option"
  join_type :: "pyval option"
  table_names :: "string list option"

record merge_spec =
  default_merge_parameters :: "params option"
  default_join_type :: "pyval option"
  merge_sequence :: "merge_info list option"
  final_index_source_column :: "string option"

section \<open>Data frame primitives\<close>

text \<open>\<^verbatim>\<open>duplicated(keep="first")\<close>: every occurrence after the first is marked.\<close>

fun duplicated_from :: "'a list \<Rightarrow> 'a list \<Rightarrow> bool list" where
  "duplicated_from seen [] = []"
| "duplicated_from seen (x # xs) = (x \<in> set seen) # duplicated_from (x # seen) xs"

definition duplicated :: "'a list \<Rightarrow> bool list" where
  "duplicated xs = duplicated_from [] xs"

definition select_by :: "bool list \<Rightarrow> 'a list \<Rightarrow> 'a list" where
  "select_by keep xs = map snd (filter fst (zip keep xs))"

text \<open>\<^verbatim>\<open>df.loc[:, mask]\<close>, \<^verbatim>\<open>df[mask]\<close> and \<^verbatim>\<open>df.drop(df[mask].index)\<close>.\<close>

definition loc_columns :: "dataframe \<Rightarrow> bool list \<Rightarrow> dataframe" where
  "loc_columns df keep =
     \<lparr>columns = select_by keep (columns df), rows = map (select_by keep) (rows df)\<rparr>"

definition select_rows :: "dataframe \<Rightarrow> bool list \<Rightarrow> dataframe" where
  "select_rows df sel = df\<lparr>rows := select_by sel (rows df)\<rparr>"

definition drop_rows :: "dataframe \<Rightarrow> bool list \<Rightarrow> dataframe" where
  "drop_rows df sel = df\<lparr>rows := select_by (map Not sel) (rows df)\<rparr>"

definition drop_duplicate_columns :: "dataframe \<Rightarrow> dataframe" where
  "drop_duplicate_columns df = loc_columns df (map Not (duplicated (columns df)))"

fun index_of :: "'a \<Rightarrow> 'a list \<Rightarrow> nat" where
  "index_of c [] = 0"
| "index_of c (x # xs) = (if x = c then 0 else Suc (index_of c xs))"

definition cell_at :: "cell list \<Rightarrow> nat \<Rightarrow> cell" where
  "cell_at r i = (if i < length r then r ! i else Null)"

text \<open>\<^verbatim>\<open>df[c]\<close> on a frame whose column labels are distinct: the values, or KeyError.\<close>

definition get_column :: "dataframe \<Rightarrow> string \<Rightarrow> error + cell list" where
  "get_column df c =
     (if c \<in> set (columns df)
      then Inr (map (\<lambda>r. cell_at r (index_of c (columns df))) (rows df))
      else Inl (KeyError c))"

text \<open>\<^verbatim>\<open>df.iloc[a:b]\<close> with Python's slice bounds: a negative bound counts from the end.\<close>

definition slice_bound :: "int \<Rightarrow> int \<Rightarrow> nat" where
  "slice_bound n i = nat (if i < 0 then max (i + n) 0 else min i n)"

definition iloc :: "dataframe \<Rightarrow> int \<Rightarrow> int \<Rightarrow> dataframe" where
  "iloc df a b =
     (let n = int (length (rows df)); lo = slice_bound n a; hi = slice_bound n b
      in df\<lparr>rows := take (hi - lo) (drop lo (rows df))\<rparr>)"

text \<open>\<^verbatim>\<open>df.insert(0, name, values)\<close>: refuses a label the frame already has.\<close>

definition insert_first :: "dataframe \<Rightarrow> string \<Rightarrow> cell list \<Rightarrow> error + dataframe" where
  "insert_first df name vals =
     (if name \<in> set (columns df) then Inl ValueError
      else Inr \<lparr>columns = name # columns df,
                rows = map (\<lambda>(v, r). v # r) (zip vals (rows df))\<rparr>)"

section \<open>Retrying calls\<close>

text \<open>
  The \<^verbatim>\<open>@retry\<close> decorator: call, and on an exception the predicate accepts, stop when the
  attempt number has reached the limit (the exception is re-raised, \<^verbatim>\<open>reraise=True\<close>),
  otherwise sleep and call again. The result comes with the sleeps made, in seconds.
\<close>

definition wait_exponential :: "nat \<Rightarrow> nat \<Rightarrow> nat \<Rightarrow> nat \<Rightarrow> nat" where
  "wait_exponential multiplier mn mx e = max (max 0 mn) (min (multiplier * 2 ^ e) mx)"

function retry_call ::
  "(error \<Rightarrow> bool) \<Rightarrow> nat \<Rightarrow> (nat \<Rightarrow> nat) \<Rightarrow> (nat \<Rightarrow> error + 'a) \<Rightarrow> nat
     \<Rightarrow> (error + 'a) \<times> nat list" where
  "retry_call retry_if stop_after wait f attempt_number =
     (case f attempt_number of
        Inr v \<Rightarrow> (Inr v, [])
      | Inl e \<Rightarrow>
          if \<not> retry_if e \<or> stop_after \<le> attempt_number then (Inl e, [])
          else (case retry_call retry_if stop_after wait f (Suc attempt_number) of
                  (r, sleeps) \<Rightarrow> (r, wait attempt_number # sleeps)))"
  by pat_completeness auto
termination
  by (relation "measure (\<lambda>(retry_if, stop_after, wait, f, n). stop_after - n)") auto

section \<open>Table fetch and column renaming\<close>

text \<open>
  \<^verbatim>\<open>get_terra_table_to_df\<close>: the decorator names no exception type, so every exception is
  retried; three attempts, \<^verbatim>\<open>wait_exponential(multiplier=1, min=2, max=10)\<close>. A status other
  than 200 raises \<^verbatim>\<open>FireCloudServiceException\<close>. Each sleep is announced at level INFO.
\<close>

definition fetch_attempt :: "env \<Rightarrow> string \<Rightarrow> nat \<Rightarrow> error + dataframe" where
  "fetch_attempt env table_name n =
     (case get_entities_tsv env table_name n of
        Inl e \<Rightarrow> Inl e
      | Inr (status_code, table_df) \<Rightarrow>
          if status_code \<noteq> 200 then Inl (FireCloudServiceException status_code)
          else Inr table_df)"

definition get_terra_table_to_df ::
  "env \<Rightarrow> string \<Rightarrow> state \<Rightarrow> (error + dataframe) \<times> state" where
  "get_terra_table_to_df env table_name st =
     (case retry_call (\<lambda>e. True) 3 (\<lambda>n. wait_exponential 1 2 10 (exponent env n))
             (fetch_attempt env table_name) 1 of
        (r, sleeps) \<Rightarrow> (r, st\<lparr>logged := logged st @ map InfoRetrying sleeps\<rparr>))"

text \<open>The set literal of the source; two of its lines lack the comma between them.\<close>

definition GEN3_TABLE_NAMES :: "string set" where
  "GEN3_TABLE_NAMES =
     {''aligned_reads_index'', ''aliquot'', ''blood_pressure_test'', ''cardiac_mri'',
      ''demographic'', ''electrocardiogram_test'', ''exposure'',
      ''germline_variation_index'', ''lab_result'', ''medical_history'', ''medication'',
      ''program'', ''project'', ''read_group'', ''read_group_qcreference_file'',
      ''reference_file_index'', ''sample'', ''simple_germline_variation'', ''study'',
      ''subject'', ''submitted_aligned_reads'', ''submitted_cnv_array'',
      ''submitted_snp_array'', ''submitted_unaligned_reads''}"

definition get_entity_id_column_name :: "string \<Rightarrow> string" where
  "get_entity_id_column_name entity_type = entity_type @ ''_entity_id''"

text \<open>\<^verbatim>\<open>df.rename(columns={current: new}, inplace=True)\<close>: every label equal to \<open>current\<close>.\<close>

definition rename_column :: "dataframe \<Rightarrow> string \<Rightarrow> string \<Rightarrow> dataframe" where
  "rename_column df current_column_name new_column_name =
     df\<lparr>columns :=
          map (\<lambda>c. if c = current_column_name then new_column_name else c) (columns df)\<rparr>"

definition rename_step :: "string \<Rightarrow> dataframe \<Rightarrow> string \<Rightarrow> dataframe" where
  "rename_step table_name table_df column =
     (if column \<in> GEN3_TABLE_NAMES
      then rename_column table_df column (column @ ''_entity_id'')
      else rename_column table_df column (table_name @ ''_'' @ column))"

text \<open>
  The renaming of \<^verbatim>\<open>get_gen3_terra_table_to_df\<close>: \<open>cols\<close> is the label list read before the
  first rename, and the loop goes over \<^verbatim>\<open>columns[1:]\<close>, renaming in the frame as it then is.
\<close>

definition gen3_rename :: "string \<Rightarrow> dataframe \<Rightarrow> dataframe" where
  "gen3_rename table_name table_df =
     (let cols = columns table_df;
          df1 = rename_column table_df (''entity:'' @ table_name @ ''_id'')
                  (table_name @ ''_entity_id'');
          df2 = foldl (rename_step table_name) df1 (drop 1 cols)
      in drop_duplicate_columns df2)"

definition get_gen3_terra_table_to_df ::
  "env \<Rightarrow> string \<Rightarrow> state \<Rightarrow> (error + dataframe) \<times> state" where
  "get_gen3_terra_table_to_df env table_name st =
     (case get_terra_table_to_df env table_name st of
        (Inl e, st') \<Rightarrow> (Inl e, st')
      | (Inr table_df, st') \<Rightarrow> (Inr (gen3_rename table_name table_df), st'))"

section \<open>The table registry\<close>

definition refresh :: "env \<Rightarrow> state \<Rightarrow> (error + unit) \<times> state" where
  "refresh env st =
     (case list_entity_types env (writes st) of
        Inl e \<Rightarrow> (Inl e, st)
      | Inr (status_code, info) \<Rightarrow>
          if status_code = 200
          then (Inr (), st\<lparr>data_table_info := Some info,
                            data_table_names := Some (map fst info)\<rparr>)
          else (Inl (FireCloudServiceException status_code),
                st\<lparr>data_table_info := None, data_table_names := None\<rparr>))"

text \<open>\<^verbatim>\<open>not x\<close> for a cached list or dictionary: unset or empty.\<close>

definition unset_or_empty :: "'a list option \<Rightarrow> bool" where
  "unset_or_empty c = (case c of None \<Rightarrow> True | Some xs \<Rightarrow> xs = [])"

definition get_table_names :: "env \<Rightarrow> bool \<Rightarrow> state \<Rightarrow> (error + string list) \<times> state" where
  "get_table_names env do_refresh st =
     (case (if unset_or_empty (data_table_names st) \<or> do_refresh then refresh env st
            else (Inr (), st)) of
        (Inl e, st') \<Rightarrow> (Inl e, st')
      | (Inr _, st') \<Rightarrow>
          (case data_table_names st' of
             None \<Rightarrow> (Inl AttributeError, st')
           | Some names \<Rightarrow> (Inr names, st')))"

text \<open>
  The triple \<^verbatim>\<open>(row_count, column_count, attributes)\<close>; \<open>None\<close> stands for the triple of
  three \<^verbatim>\<open>None\<close> values returned for a name the registry does not list.
\<close>

definition get_table_info ::
  "env \<Rightarrow> string \<Rightarrow> bool \<Rightarrow> state \<Rightarrow> (error + (nat \<times> nat \<times> string list) option) \<times> state" where
  "get_table_info env table_name do_refresh st =
     (case (if unset_or_empty (data_table_info st) \<or> do_refresh then refresh env st
            else (Inr (), st)) of
        (Inl e, st') \<Rightarrow> (Inl e, st')
      | (Inr _, st') \<Rightarrow>
          (case data_table_names st' of
             None \<Rightarrow> (Inl TypeError, st')
           | Some names \<Rightarrow>
               if table_name \<in> set names then
                 (case data_table_info st' of
                    None \<Rightarrow> (Inl TypeError, st')
                  | Some info \<Rightarrow>
                      (case map_of info table_name of
                         None \<Rightarrow> (Inl (KeyError table_name), st')
                       | Some ti \<Rightarrow>
                           (Inr (Some (count ti, length (attributeNames ti) + 1,
                                       attributeNames ti)), st')))
               else (Inr None, st')))"

section \<open>Deduplication\<close>

text \<open>
  \<^verbatim>\<open>_deduplicate_merge_data\<close> changes both frames in place; the model returns them. The
  warning lists the values of the dedup key of the removed rows.
\<close>

definition deduplicate_merge_data ::
  "dataframe option \<Rightarrow> dataframe \<Rightarrow> string \<Rightarrow> string \<Rightarrow> state
     \<Rightarrow> (error + dataframe option \<times> dataframe) \<times> state" where
  "deduplicate_merge_data merged_df current_df current_table_name current_dedup_key st =
     (case get_column current_df current_dedup_key of
        Inl e \<Rightarrow> (Inl e, st)
      | Inr key_values \<Rightarrow>
          (let current_dups = duplicated key_values;
               current_dups_values = select_by current_dups key_values
           in if length current_dups_values = 0 then (Inr (merged_df, current_df), st)
              else
                (let current_table_entity_id = get_entity_id_column_name current_table_name
                 in case get_column (select_rows current_df current_dups)
                           current_table_entity_id of
                      Inl e \<Rightarrow> (Inl e, st)
                    | Inr common_key_values_for_dupes \<Rightarrow>
                        (let current_df' = drop_rows current_df current_dups;
                             st' = st\<lparr>logged := logged st @
                                     [WarnRemovedDuplicates (length current_dups_values)
                                        current_table_name current_dedup_key
                                        current_dups_values]\<rparr>
                         in case merged_df of
                              None \<Rightarrow> (Inr (None, current_df'), st')
                            | Some m \<Rightarrow>
                                if current_table_entity_id \<in> set (columns m) then
                                  (case get_column m current_table_entity_id of
                                     Inl e \<Rightarrow> (Inl e, st')
                                   | Inr ids \<Rightarrow>
                                       (Inr (Some (drop_rows m
                                               (map (\<lambda>v. v \<in> set common_key_values_for_dupes)
                                                    ids)),
                                             current_df'), st'))
                                else (Inr (Some m, current_df'), st')))))"

section \<open>Merge parameters\<close>

definition standard_pandas_default_parameters :: params where
  "standard_pandas_default_parameters =
     [''how'' \<mapsto> PyStr ''inner'', ''on'' \<mapsto> PyNone, ''left_on'' \<mapsto> PyNone,
      ''right_on'' \<mapsto> PyNone, ''left_index'' \<mapsto> PyBool False,
      ''right_index'' \<mapsto> PyBool False, ''sort'' \<mapsto> PyBool False,
      ''suffixes'' \<mapsto> PyTuple [''_x'', ''_y''], ''copy'' \<mapsto> PyBool True,
      ''indicator'' \<mapsto> PyBool False, ''validate'' \<mapsto> PyNone]"

definition create_combined_merge_parameters :: "params \<Rightarrow> merge_info \<Rightarrow> params" where
  "create_combined_merge_parameters default_params info =
     (let c0 = standard_pandas_default_parameters ++ default_params;
          c1 = (case merge_parameters info of None \<Rightarrow> c0 | Some m \<Rightarrow> c0 ++ m);
          c2 = (case join_column info of None \<Rightarrow> c1 | Some j \<Rightarrow> c1(''on'' \<mapsto> j));
          c3 = (case join_type info of None \<Rightarrow> c2 | Some t \<Rightarrow> c2(''how'' \<mapsto> t))
      in c3)"

text \<open>Truth value and f-string rendering of a parameter value.\<close>

definition truthy :: "pyval \<Rightarrow> bool" where
  "truthy v = (case v of PyNone \<Rightarrow> False | PyBool b \<Rightarrow> b | PyStr s \<Rightarrow> s \<noteq> []
               | PyTuple xs \<Rightarrow> xs \<noteq> [])"

text \<open>
  \<^verbatim>\<open>repr\<close> of a string of characters with codes below 256: in single quotes, or in double
  quotes when the string holds a single quote and no double quote; the quote in use and the
  backslash are escaped, and a character that is not printable is written as an escape.
\<close>

definition hex_digit :: "nat \<Rightarrow> char" where
  "hex_digit n = ''0123456789abcdef'' ! n"

definition printable :: "char \<Rightarrow> bool" where
  "printable c = (let n = (of_char c :: nat) in (32 \<le> n \<and> n < 127) \<or> (161 \<le> n \<and> n \<noteq> 173))"

definition repr_char :: "char \<Rightarrow> char \<Rightarrow> string" where
  "repr_char quote c =
     (if c = quote \<or> c = CHR 0x5C then [CHR 0x5C, c]
      else if c = CHR 0x09 then [CHR 0x5C, CHR ''t'']
      else if c = CHR 0x0A then [CHR 0x5C, CHR ''n'']
      else if c = CHR 0x0D then [CHR 0x5C, CHR ''r'']
      else if printable c then [c]
      else [CHR 0x5C, CHR ''x'', hex_digit ((of_char c :: nat) div 16),
            hex_digit ((of_char c :: nat) mod 16)])"

definition py_repr :: "string \<Rightarrow> string" where
  "py_repr s =
     (let quote = (if CHR 0x27 \<in> set s \<and> CHR 0x22 \<notin> set s then CHR 0x22 else CHR 0x27)
      in [quote] @ concat (map (repr_char quote) s) @ [quote])"

fun tuple_items :: "string list \<Rightarrow> string" where
  "tuple_items [] = []"
| "tuple_items [x] = py_repr x"
| "tuple_items (x # y # ys) = py_repr x @ '', '' @ tuple_items (y # ys)"

definition py_str :: "pyval \<Rightarrow> string" where
  "py_str v = (case v of PyNone \<Rightarrow> ''None''
               | PyBool b \<Rightarrow> (if b then ''True'' else ''False'')
               | PyStr s \<Rightarrow> s
               | PyTuple xs \<Rightarrow>
                   ''('' @ tuple_items xs @ (if length xs = 1 then '','' else []) @ '')'')"

definition substitute_key :: "params \<Rightarrow> string \<Rightarrow> params" where
  "substitute_key mp key =
     (case mp key of
        None \<Rightarrow> mp
      | Some v \<Rightarrow>
          if truthy v then mp(key \<mapsto> PyStr (get_entity_id_column_name (py_str v))) else mp)"

definition substitute_entity_id_column_name :: "params \<Rightarrow> params" where
  "substitute_entity_id_column_name mp =
     foldl substitute_key mp [''on'', ''left_on'', ''right_on'']"

definition spec_default_merge_parameters :: "merge_spec \<Rightarrow> params" where
  "spec_default_merge_parameters spec =
     (let d = (case default_merge_parameters spec of
                 None \<Rightarrow> [''how'' \<mapsto> PyStr ''outer'']
               | Some m \<Rightarrow> m)
      in case default_join_type spec of None \<Rightarrow> d | Some t \<Rightarrow> d(''how'' \<mapsto> t))"

section \<open>The join engine\<close>

text \<open>
  The body of the \<^verbatim>\<open>for\<close> loop of \<^verbatim>\<open>consolidate_tables_to_df\<close> for one table name, and
  the loop. The debug message is formatted before the merge whatever the log level, so a
  dictionary without \<^verbatim>\<open>on\<close> or \<^verbatim>\<open>how\<close> raises there.
\<close>

definition join_table ::
  "env \<Rightarrow> string \<Rightarrow> params \<Rightarrow> dataframe \<Rightarrow> state \<Rightarrow> (error + dataframe) \<times> state" where
  "join_table env table_name mp merged_df st =
     (case get_table_names env False st of
        (Inl e, st1) \<Rightarrow> (Inl e, st1)
      | (Inr names, st1) \<Rightarrow>
          if table_name \<notin> set names
          then (Inr merged_df, st1\<lparr>logged := logged st1 @ [InfoTableIgnored table_name]\<rparr>)
          else
            (case get_gen3_terra_table_to_df env table_name st1 of
               (Inl e, st2) \<Rightarrow> (Inl e, st2)
             | (Inr current_df, st2) \<Rightarrow>
                 (case (if table_name = ''sample''
                        then deduplicate_merge_data (Some merged_df) current_df ''sample''
                               (get_entity_id_column_name ''subject'') st2
                        else (Inr (Some merged_df, current_df), st2)) of
                    (Inl e, st3) \<Rightarrow> (Inl e, st3)
                  | (Inr (merged_opt, current_df'), st3) \<Rightarrow>
                      (case mp ''on'' of
                         None \<Rightarrow> (Inl (KeyError ''on''), st3)
                       | Some on_value \<Rightarrow>
                           (case mp ''how'' of
                              None \<Rightarrow> (Inl (KeyError ''how''), st3)
                            | Some how_value \<Rightarrow>
                                (case merge env
                                        (case merged_opt of None \<Rightarrow> merged_df | Some m \<Rightarrow> m)
                                        current_df' mp of
                                   Inl e \<Rightarrow> (Inl e, st3)
                                 | Inr joined \<Rightarrow>
                                     (let merged_df'' = drop_duplicate_columns joined
                                      in (Inr merged_df'',
                                          st3\<lparr>logged := logged st3 @
                                             [InfoMerged table_name on_value how_value
                                                (length (rows merged_df''))
                                                (length (columns merged_df''))]\<rparr>))))))))"

fun join_tables ::
  "env \<Rightarrow> string list \<Rightarrow> params \<Rightarrow> dataframe \<Rightarrow> state \<Rightarrow> (error + dataframe) \<times> state" where
  "join_tables env [] mp merged_df st = (Inr merged_df, st)"
| "join_tables env (table_name # rest) mp merged_df st =
     (case join_table env table_name mp merged_df st of
        (Inl e, st') \<Rightarrow> (Inl e, st')
      | (Inr merged_df', st') \<Rightarrow> join_tables env rest mp merged_df' st')"

definition consolidate_tables_to_df ::
  "env \<Rightarrow> string list \<Rightarrow> params \<Rightarrow> dataframe option \<Rightarrow> state
     \<Rightarrow> (error + dataframe) \<times> state" where
  "consolidate_tables_to_df env names mp initial_df st =
     (case initial_df of
        None \<Rightarrow>
          (case names of
             table_name # rest \<Rightarrow>
               if \<not> 2 \<le> length names
               then (Inl (AssertionError ''At least two table names are required.''), st)
               else
                 (case get_gen3_terra_table_to_df env table_name st of
                    (Inl e, st1) \<Rightarrow> (Inl e, st1)
                  | (Inr first_df, st1) \<Rightarrow>
                      (case (if table_name = ''sample''
                             then deduplicate_merge_data None first_df ''sample''
                                    (get_entity_id_column_name ''subject'') st1
                             else (Inr (None, first_df), st1)) of
                         (Inl e, st2) \<Rightarrow> (Inl e, st2)
                       | (Inr (_, first_df'), st2) \<Rightarrow> join_tables env rest mp first_df' st2))
           | [] \<Rightarrow> (Inl (AssertionError ''At least two table names are required.''), st))
      | Some merged_df \<Rightarrow>
          if \<not> 1 \<le> length names
          then (Inl (AssertionError
                  ''At least one table names is required to merge with previous data.''), st)
          else join_tables env names mp merged_df st)"

text \<open>
  The loop of \<^verbatim>\<open>consolidate_to_df\<close> over the merge sequence; \<open>previous_row_count\<close> starts
  at \<open>-1\<close>.
\<close>

fun consolidate_steps ::
  "env \<Rightarrow> params \<Rightarrow> merge_info list \<Rightarrow> dataframe option \<Rightarrow> int \<Rightarrow> state
     \<Rightarrow> (error + dataframe option) \<times> state" where
  "consolidate_steps env default_params [] merged_df previous_row_count st =
     (Inr merged_df, st)"
| "consolidate_steps env default_params (info # rest) merged_df previous_row_count st =
     (let mp = substitute_entity_id_column_name
                 (create_combined_merge_parameters default_params info)
      in case table_names info of
           None \<Rightarrow> (Inl (KeyError ''table_names''), st)
         | Some names \<Rightarrow>
             (case consolidate_tables_to_df env names mp merged_df st of
                (Inl e, st1) \<Rightarrow> (Inl e, st1)
              | (Inr df, st1) \<Rightarrow>
                  (let n = int (length (rows df));
                       st2 = (if previous_row_count \<noteq> - 1 \<and> previous_row_count < n
                              then st1\<lparr>logged := logged st1 @
                                     [WarnRowCountIncreased (nat (n - previous_row_count))]\<rparr>
                              else st1)
                   in consolidate_steps env default_params rest (Some df) n st2)))"

definition consolidate_to_df ::
  "env \<Rightarrow> merge_spec \<Rightarrow> state \<Rightarrow> (error + dataframe option) \<times> state" where
  "consolidate_to_df env spec st =
     (case merge_sequence spec of
        None \<Rightarrow> (Inl (KeyError ''merge_sequence''), st)
      | Some steps \<Rightarrow>
          consolidate_steps env (spec_default_merge_parameters spec) steps None (- 1) st)"

section \<open>Upload\<close>

text \<open>
  \<^verbatim>\<open>fapi_upload_entities\<close>: retried on \<^verbatim>\<open>FireCloudServerError\<close> only, which
  \<^verbatim>\<open>_check_response_code\<close> raises for a status other than 200. The chunk is given as the
  frame whose tab-separated text is sent.
\<close>

definition is_server_error :: "error \<Rightarrow> bool" where
  "is_server_error e = (case e of FireCloudServerError _ \<Rightarrow> True | _ \<Rightarrow> False)"

definition upload_attempt :: "env \<Rightarrow> dataframe \<Rightarrow> nat \<Rightarrow> error + unit" where
  "upload_attempt env entity_tsv n =
     (case upload_entities env entity_tsv n of
        Inl e \<Rightarrow> Inl e
      | Inr status_code \<Rightarrow>
          if status_code \<noteq> 200 then Inl (FireCloudServerError status_code) else Inr ())"

definition fapi_upload_entities ::
  "env \<Rightarrow> dataframe \<Rightarrow> state \<Rightarrow> (error + unit) \<times> state" where
  "fapi_upload_entities env entity_tsv st =
     (case retry_call is_server_error 3 (\<lambda>n. wait_exponential 1 2 10 (exponent env n))
             (upload_attempt env entity_tsv) 1 of
        (r, sleeps) \<Rightarrow>
          (r, st\<lparr>logged := logged st @ map InfoRetrying sleeps,
                 writes := writes st @ [entity_tsv]\<rparr>))"

text \<open>
  The \<^verbatim>\<open>while\<close> loop of \<^verbatim>\<open>upload_entities_df\<close>. With a chunk size below 1 it does not
  end, so the loop is a partial function: \<open>None\<close> is not returning.
\<close>

partial_function (option) upload_loop ::
  "env \<Rightarrow> dataframe \<Rightarrow> int \<Rightarrow> int \<Rightarrow> state \<Rightarrow> ((error + unit) \<times> state) option" where
  "upload_loop env df chunk_size chunk_start st =
     (if chunk_start < int (length (rows df)) then
        (case fapi_upload_entities env
                (iloc df chunk_start (min (chunk_start + chunk_size) (int (length (rows df)))))
                st of
           (Inl e, st') \<Rightarrow> Some (Inl e, st')
         | (Inr _, st') \<Rightarrow>
             upload_loop env df chunk_size
               (min (chunk_start + chunk_size) (int (length (rows df))))
               (st'\<lparr>logged := logged st' @ [Stderr ''.'']\<rparr>))
      else Some (Inr (), st))"

definition upload_entities_df ::
  "env \<Rightarrow> dataframe \<Rightarrow> int \<Rightarrow> state \<Rightarrow> ((error + unit) \<times> state) option" where
  "upload_entities_df env df chunk_size st =
     (case upload_loop env df chunk_size 0
             (st\<lparr>logged := logged st @ [InfoStartUpload, Stderr ''Uploading '']\<rparr>) of
        None \<Rightarrow> None
      | Some (Inl e, st') \<Rightarrow> Some (Inl e, st')
      | Some (Inr _, st') \<Rightarrow>
          Some (Inr (), st'\<lparr>logged := logged st' @ [Stderr [CHR 0x0A], InfoFinishedUpload]\<rparr>))"

definition default_chunk_size :: int where
  "default_chunk_size = 500"

section \<open>Consolidation to a Terra table\<close>

text \<open>The comparison of the in-memory size with the size the store reports after upload.\<close>

definition report_sizes ::
  "string \<Rightarrow> nat \<Rightarrow> nat \<Rightarrow> (nat \<times> nat \<times> string list) option \<Rightarrow> state
     \<Rightarrow> (error + unit) \<times> state" where
  "report_sizes entity_name df_rows df_columns actual st =
     (case actual of
        None \<Rightarrow> (Inl TypeError, st)
      | Some (actual_rows, actual_columns, _) \<Rightarrow>
          if df_rows = actual_rows \<and> df_columns = actual_columns
          then (Inr (), st\<lparr>logged := logged st @
                              [InfoTableSize entity_name actual_rows actual_columns]\<rparr>)
          else if df_rows > actual_rows \<or> df_columns > actual_columns
          then (Inr (), st\<lparr>logged := logged st @
                              [ErrorTruncation df_rows df_columns entity_name
                                 actual_rows actual_columns]\<rparr>)
          else (Inr (), st\<lparr>logged := logged st @
                              [WarnSizeMismatch df_rows df_columns entity_name
                                 actual_rows actual_columns]\<rparr>))"

text \<open>The log entry for a table that already exists under the new name.\<close>

definition note_existing_table :: "env \<Rightarrow> string \<Rightarrow> state \<Rightarrow> (error + unit) \<times> state" where
  "note_existing_table env entity_name st =
     (case get_table_names env False st of
        (Inl e, st1) \<Rightarrow> (Inl e, st1)
      | (Inr names, st1) \<Rightarrow>
          if entity_name \<in> set names then
            (case get_table_info env entity_name False st1 of
               (Inl e, st2) \<Rightarrow> (Inl e, st2)
             | (Inr None, st2) \<Rightarrow>
                 (Inr (), st2\<lparr>logged := logged st2 @
                                [InfoTableExists entity_name None None]\<rparr>)
             | (Inr (Some (existing_rows, existing_columns, _)), st2) \<Rightarrow>
                 (Inr (), st2\<lparr>logged := logged st2 @
                                [InfoTableExists entity_name (Some existing_rows)
                                   (Some existing_columns)]\<rparr>))
          else (Inr (), st1))"

text \<open>
  The frame handed to the uploader: \<^verbatim>\<open>insert(0, "entity:<name>_id", df[entity_id_column])\<close>
  on the result of the merges, which is \<^verbatim>\<open>None\<close> for an empty merge sequence.
\<close>

definition add_entity_id_column ::
  "dataframe option \<Rightarrow> string \<Rightarrow> string \<Rightarrow> error + dataframe" where
  "add_entity_id_column consolidated_df entity_name entity_id_column =
     (case consolidated_df of
        None \<Rightarrow> Inl AttributeError
      | Some df \<Rightarrow>
          (case get_column df entity_id_column of
             Inl e \<Rightarrow> Inl e
           | Inr vals \<Rightarrow> insert_first df (''entity:'' @ entity_name @ ''_id'') vals))"

definition consolidate_to_terra_table ::
  "env \<Rightarrow> merge_spec \<Rightarrow> string \<Rightarrow> state \<Rightarrow> ((error + unit) \<times> state) option" where
  "consolidate_to_terra_table env spec entity_name st =
     (case (case final_index_source_column spec of
              None \<Rightarrow> None
            | Some c \<Rightarrow> if length c \<noteq> 0 then Some c else None) of
        None \<Rightarrow> Some (Inr (), st\<lparr>logged := logged st @ [ErrorMissingFinalIndex]\<rparr>)
      | Some entity_id_column \<Rightarrow>
          (case note_existing_table env entity_name st of
             (Inl e, st1) \<Rightarrow> Some (Inl e, st1)
           | (Inr _, st1) \<Rightarrow>
               (case consolidate_to_df env spec st1 of
                  (Inl e, st2) \<Rightarrow> Some (Inl e, st2)
                | (Inr consolidated_df, st2) \<Rightarrow>
                    (case add_entity_id_column consolidated_df entity_name entity_id_column of
                       Inl e \<Rightarrow> Some (Inl e, st2)
                     | Inr out_df \<Rightarrow>
                         (case upload_entities_df env out_df default_chunk_size st2 of
                            None \<Rightarrow> None
                          | Some (Inl e, st3) \<Rightarrow> Some (Inl e, st3)
                          | Some (Inr _, st3) \<Rightarrow>
                              (case get_table_info env entity_name True st3 of
                                 (Inl e, st4) \<Rightarrow> Some (Inl e, st4)
                               | (Inr actual, st4) \<Rightarrow>
                                   Some (report_sizes entity_name (length (rows out_df))
                                           (length (columns out_df)) actual st4)))))))"

section \<open>Reference notions for the statements\<close>

text \<open>
  The chunking the uploader is specified to perform: consecutive pieces of at most \<open>n\<close>
  rows, in order.
\<close>

function chunks_of :: "nat \<Rightarrow> 'a list \<Rightarrow> 'a list list" where
  "chunks_of n xs = (if n = 0 \<or> xs = [] then [] else take n xs # chunks_of n (drop n xs))"
  by pat_completeness auto
termination
  by (relation "measure (\<lambda>(n, xs). length xs)") auto

text \<open>The outcome of one chunk write, retries included.\<close>

definition chunk_write_result :: "env \<Rightarrow> dataframe \<Rightarrow> error + unit" where
  "chunk_write_result env chunk = fst (fapi_upload_entities env chunk
     \<lparr>data_table_info = None, data_table_names = None, logged = [], writes = []\<rparr>)"

text \<open>The frames the uploader is specified to write for \<open>df\<close>, in order.\<close>

definition expected_chunks :: "dataframe \<Rightarrow> int \<Rightarrow> dataframe list" where
  "expected_chunks df chunk_size =
     map (\<lambda>c. df\<lparr>rows := c\<rparr>) (chunks_of (nat chunk_size) (rows df))"

section \<open>A model of the library join, and a sample workspace\<close>

text \<open>
  \<^verbatim>\<open>DataFrame.merge\<close> for the calls with one key column named by \<^verbatim>\<open>on\<close> and
  \<^verbatim>\<open>how\<close> either \<^verbatim>\<open>inner\<close> or \<^verbatim>\<open>left\<close>: the rows of the left frame in order, each
  paired with its matches in the right frame in order; a left join keeps an unmatched left
  row with empty cells. Other labels the frames share get the suffixes \<^verbatim>\<open>_x\<close> and \<^verbatim>\<open>_y\<close>.
  It is no model of the other calls: for another \<^verbatim>\<open>how\<close>, or keys given otherwise, it
  answers \<open>MergeError\<close> where the library may well join; and a number stays the number it
  is where the library turns a column of integers that receives an empty cell into floats.
  The general results below hold for every \<open>merge\<close>; this one serves the sample runs, which
  are left joins on one key in which every left row has a match.
\<close>

definition without_at :: "nat \<Rightarrow> 'a list \<Rightarrow> 'a list" where
  "without_at i xs = take i xs @ drop (Suc i) xs"

definition merge_on_key :: "dataframe \<Rightarrow> dataframe \<Rightarrow> params \<Rightarrow> error + dataframe" where
  "merge_on_key left right mp =
     (case (mp ''on'', mp ''how'') of
        (Some (PyStr key), Some (PyStr how)) \<Rightarrow>
          if how \<noteq> ''inner'' \<and> how \<noteq> ''left'' then Inl MergeError
          else if key \<notin> set (columns left) \<or> key \<notin> set (columns right) then Inl (KeyError key)
          else
            (let i = index_of key (columns left);
                 j = index_of key (columns right);
                 rcols = without_at j (columns right);
                 lnames = map (\<lambda>c. if c \<noteq> key \<and> c \<in> set rcols then c @ ''_x'' else c)
                            (columns left);
                 rnames = map (\<lambda>c. if c \<in> set (columns left) then c @ ''_y'' else c) rcols;
                 blank = replicate (length rcols) Null;
                 matches = (\<lambda>l. map (without_at j)
                              (filter (\<lambda>r. cell_at r j = cell_at l i) (rows right)));
                 joined = concat (map (\<lambda>l.
                            if matches l = [] then (if how = ''left'' then [l @ blank] else [])
                            else map (\<lambda>m. l @ m) (matches l)) (rows left))
             in Inr \<lparr>columns = lnames @ rnames, rows = joined\<rparr>)
      | _ \<Rightarrow> Inl MergeError)"

text \<open>
  A workspace with a \<^verbatim>\<open>subject\<close> table of two subjects, a \<^verbatim>\<open>sample\<close> table of three
  samples, two of them of the first subject, and a \<^verbatim>\<open>lab_result\<close> table of three
  results, two of them of the first subject.
\<close>

definition subject_table :: dataframe where
  "subject_table =
     \<lparr>columns = [''entity:subject_id'', ''submitter_id''],
      rows = [[Str ''s1'', Str ''A''], [Str ''s2'', Str ''B'']]\<rparr>"

definition sample_table :: dataframe where
  "sample_table =
     \<lparr>columns = [''entity:sample_id'', ''subject'', ''tissue''],
      rows = [[Str ''m1'', Str ''s1'', Str ''blood''],
              [Str ''m2'', Str ''s1'', Str ''saliva''],
              [Str ''m3'', Str ''s2'', Str ''blood'']]\<rparr>"

definition lab_result_table :: dataframe where
  "lab_result_table =
     \<lparr>columns = [''entity:lab_result_id'', ''subject'', ''value''],
      rows = [[Str ''l1'', Str ''s1'', Num 5],
              [Str ''l2'', Str ''s1'', Num 6],
              [Str ''l3'', Str ''s2'', Num 7]]\<rparr>"

definition sample_listing :: "(string \<times> table_info) list" where
  "sample_listing =
     [(''subject'', \<lparr>count = 2, attributeNames = [''submitter_id'']\<rparr>),
      (''sample'', \<lparr>count = 3, attributeNames = [''subject'', ''tissue'']\<rparr>),
      (''lab_result'', \<lparr>count = 3, attributeNames = [''subject'', ''value'']\<rparr>)]"

text \<open>
  What the workspace lists for the chunks written to it so far: a table named by the id
  column of the chunks, \<^verbatim>\<open>entity:<name>_id\<close>, with one row for each distinct id and the
  other columns as attributes.
\<close>

definition listing_of_writes :: "dataframe list \<Rightarrow> (string \<times> table_info) list" where
  "listing_of_writes written =
     (case written of
        [] \<Rightarrow> []
      | chunk # _ \<Rightarrow>
          [(take (length (hd (columns chunk)) - 10) (drop 7 (hd (columns chunk))),
            \<lparr>count = length (remdups (map hd (concat (map rows written)))),
             attributeNames = tl (columns chunk)\<rparr>)])"

definition sample_env :: env where
  "sample_env =
     \<lparr>get_entities_tsv = (\<lambda>t n.
         if t = ''subject'' then Inr (200, subject_table)
         else if t = ''sample'' then Inr (200, sample_table)
         else if t = ''lab_result'' then Inr (200, lab_result_table)
         else Inr (404, \<lparr>columns = [], rows = []\<rparr>)),
      upload_entities = (\<lambda>chunk n. Inr 200),
      list_entity_types = (\<lambda>written.
         Inr (200, sample_listing @ listing_of_writes written)),
      merge = merge_on_key,
      exponent = (\<lambda>n. n)\<rparr>"

definition initial_state :: state where
  "initial_state =
     \<lparr>data_table_info = None, data_table_names = None, logged = [], writes = []\<rparr>"

text \<open>
  The entity types of the data model: the names the literal of \<^verbatim>\<open>GEN3_TABLE_NAMES\<close> lists,
  one to a line, \<^verbatim>\<open>read_group_qc\<close> and \<^verbatim>\<open>reference_file\<close> being two of them.
\<close>

definition known_entity_types :: "string set" where
  "known_entity_types =
     {''aligned_reads_index'', ''aliquot'', ''blood_pressure_test'', ''cardiac_mri'',
      ''demographic'', ''electrocardiogram_test'', ''exposure'',
      ''germline_variation_index'', ''lab_result'', ''medical_history'', ''medication'',
      ''program'', ''project'', ''read_group'', ''read_group_qc'', ''reference_file'',
      ''reference_file_index'', ''sample'', ''simple_germline_variation'', ''study'',
      ''subject'', ''submitted_aligned_reads'', ''submitted_cnv_array'',
      ''submitted_snp_array'', ''submitted_unaligned_reads''}"

text \<open>
  The renaming as the column namer is specified: each raw label on its own. The table's own
  id column, then a label that is the name of an entity type, then the table prefix.
\<close>

definition canonical_name :: "string \<Rightarrow> string \<Rightarrow> string" where
  "canonical_name table_name c =
     (if c = ''entity:'' @ table_name @ ''_id'' then table_name @ ''_entity_id''
      else if c \<in> known_entity_types then c @ ''_entity_id''
      else table_name @ ''_'' @ c)"

definition renamed_as_specified :: "string \<Rightarrow> dataframe \<Rightarrow> dataframe" where
  "renamed_as_specified table_name df =
     drop_duplicate_columns (df\<lparr>columns := map (canonical_name table_name) (columns df)\<rparr>)"

text \<open>
  No label of \<open>cs\<close> is the canonical name of a label renamed before it: of one in \<open>seen\<close>, or
  of an earlier one of \<open>cs\<close>.
\<close>

fun no_rename_chain :: "string \<Rightarrow> string list \<Rightarrow> string list \<Rightarrow> bool" where
  "no_rename_chain table_name seen [] = True"
| "no_rename_chain table_name seen (c # cs) =
     (c \<notin> canonical_name table_name ` set seen \<and> no_rename_chain table_name (c # seen) cs)"

text \<open>
  The labels on which the literal of the source and the entity types differ.
\<close>

definition joined_names :: "string set" where
  "joined_names = {''read_group_qc'', ''reference_file'', ''read_group_qcreference_file''}"

text \<open>
  A \<^verbatim>\<open>sample\<close> table with a column \<^verbatim>\<open>id\<close> and a column \<^verbatim>\<open>sample_id\<close>; a
  \<^verbatim>\<open>reference_file_index\<close> table with its link to the \<^verbatim>\<open>reference_file\<close> table; and a
  \<^verbatim>\<open>sample\<close> table whose second column is named as the table itself.
\<close>

definition chained_table :: dataframe where
  "chained_table =
     \<lparr>columns = [''entity:sample_id'', ''id'', ''sample_id''],
      rows = [[Str ''m1'', Num 7, Str ''x'']]\<rparr>"

definition reference_index_table :: dataframe where
  "reference_index_table =
     \<lparr>columns = [''entity:reference_file_index_id'', ''reference_file''],
      rows = [[Str ''i1'', Str ''f1'']]\<rparr>"

definition self_named_table :: dataframe where
  "self_named_table =
     \<lparr>columns = [''entity:sample_id'', ''sample'', ''tissue''],
      rows = [[Str ''m1'', Str ''m1'', Str ''blood'']]\<rparr>"

text \<open>
  A merge specification that names neither default parameters nor a default join type,
  with one step of two tables and no override; and the custom specification of the source
  reduced to its \<^verbatim>\<open>subject\<close> step, which overrides the join type.
\<close>

definition plain_step :: merge_info where
  "plain_step =
     \<lparr>merge_parameters = None, join_column = Some (PyStr ''subject''), join_type = None,
      table_names = Some [''subject'', ''sample'']\<rparr>"

definition plain_spec :: merge_spec where
  "plain_spec =
     \<lparr>default_merge_parameters = None, default_join_type = None,
      merge_sequence = Some [plain_step],
      final_index_source_column = Some ''subject_entity_id''\<rparr>"

definition left_step :: merge_info where
  "left_step =
     \<lparr>merge_parameters = None, join_column = Some (PyStr ''subject''),
      join_type = Some (PyStr ''left''), table_names = Some [''subject'', ''sample'']\<rparr>"

definition custom_spec :: merge_spec where
  "custom_spec =
     \<lparr>default_merge_parameters = None, default_join_type = Some (PyStr ''inner''),
      merge_sequence = Some [left_step],
      final_index_source_column = Some ''subject_submitter_id''\<rparr>"

text \<open>
  The \<^verbatim>\<open>sample\<close> table as fetched and renamed, and an accumulator that already holds the
  sample id of each of three aliquots.
\<close>

definition renamed_sample_table :: dataframe where
  "renamed_sample_table =
     \<lparr>columns = [''sample_entity_id'', ''subject_entity_id'', ''sample_tissue''],
      rows = [[Str ''m1'', Str ''s1'', Str ''blood''],
              [Str ''m2'', Str ''s1'', Str ''saliva''],
              [Str ''m3'', Str ''s2'', Str ''blood'']]\<rparr>"

definition aliquot_accumulator :: dataframe where
  "aliquot_accumulator =
     \<lparr>columns = [''aliquot_entity_id'', ''sample_entity_id''],
      rows = [[Str ''a1'', Str ''m1''], [Str ''a2'', Str ''m2''], [Str ''a3'', Str ''m3'']]\<rparr>"

text \<open>
  A workspace whose \<^verbatim>\<open>subject\<close> table answers 503 at the first attempt and 200 from the
  second on; the retry library counts the exponent from 0 here.
\<close>

definition flaky_env :: env where
  "flaky_env =
     \<lparr>get_entities_tsv = (\<lambda>t n.
         if t = ''subject'' then (if n = 1 then Inr (503, \<lparr>columns = [], rows = []\<rparr>)
                                  else Inr (200, subject_table))
         else Inr (404, \<lparr>columns = [], rows = []\<rparr>)),
      upload_entities = (\<lambda>chunk n. Inr 200),
      list_entity_types = (\<lambda>written. Inr (200, sample_listing)),
      merge = merge_on_key,
      exponent = (\<lambda>n. n - 1)\<rparr>"

text \<open>
  A specification without \<^verbatim>\<open>final_index_source_column\<close>, and one whose first step starts
  from a table the sample workspace does not have and whose second step names no table.
\<close>

definition no_index_spec :: merge_spec where
  "no_index_spec =
     \<lparr>default_merge_parameters = None, default_join_type = None,
      merge_sequence = Some [plain_step], final_index_source_column = None\<rparr>"

definition empty_step :: merge_info where
  "empty_step =
     \<lparr>merge_parameters = None, join_column = Some (PyStr ''study''), join_type = None,
      table_names = Some []\<rparr>"

definition absent_seed_step :: merge_info where
  "absent_seed_step =
     \<lparr>merge_parameters = None, join_column = Some (PyStr ''subject''), join_type = None,
      table_names = Some [''cardiac_mri'', ''subject'']\<rparr>"

definition broken_spec :: merge_spec where
  "broken_spec =
     \<lparr>default_merge_parameters = None, default_join_type = None,
      merge_sequence = Some [absent_seed_step, empty_step],
      final_index_source_column = Some ''subject_entity_id''\<rparr>"

text \<open>The two warnings of the engine, as predicates on log entries.\<close>

definition is_row_count_warning :: "event \<Rightarrow> bool" where
  "is_row_count_warning e = (case e of WarnRowCountIncreased _ \<Rightarrow> True | _ \<Rightarrow> False)"

definition is_duplicate_warning :: "event \<Rightarrow> bool" where
  "is_duplicate_warning e = (case e of WarnRemovedDuplicates _ _ _ _ \<Rightarrow> True | _ \<Rightarrow> False)"

text \<open>The merge parameters the step \<open>left_step\<close> resolves to under \<open>custom_spec\<close>.\<close>

definition subject_left_params :: params where
  "subject_left_params =
     substitute_entity_id_column_name
       (create_combined_merge_parameters (spec_default_merge_parameters custom_spec) left_step)"

text \<open>
  The \<^verbatim>\<open>subject\<close> and \<^verbatim>\<open>lab_result\<close> tables of the sample workspace as fetched and
  renamed, and their left join on the subject id.
\<close>

definition renamed_subject_table :: dataframe where
  "renamed_subject_table =
     \<lparr>columns = [''subject_entity_id'', ''subject_submitter_id''],
      rows = [[Str ''s1'', Str ''A''], [Str ''s2'', Str ''B'']]\<rparr>"

definition renamed_lab_result_table :: dataframe where
  "renamed_lab_result_table =
     \<lparr>columns = [''lab_result_entity_id'', ''subject_entity_id'', ''lab_result_value''],
      rows = [[Str ''l1'', Str ''s1'', Num 5],
              [Str ''l2'', Str ''s1'', Num 6],
              [Str ''l3'', Str ''s2'', Num 7]]\<rparr>"

definition subject_lab_results :: dataframe where
  "subject_lab_results =
     \<lparr>columns = [''subject_entity_id'', ''subject_submitter_id'', ''lab_result_entity_id'',
                 ''lab_result_value''],
      rows = [[Str ''s1'', Str ''A'', Str ''l1'', Num 5],
              [Str ''s1'', Str ''A'', Str ''l2'', Num 6],
              [Str ''s2'', Str ''B'', Str ''l3'', Num 7]]\<rparr>"

text \<open>
  The join of one table, the loop and the step as they would be with no deduplication at
  all: the accumulator and the fetched table go to the join as they are.
\<close>

definition join_table_plain ::
  "env \<Rightarrow> string \<Rightarrow> params \<Rightarrow> dataframe \<Rightarrow> state \<Rightarrow> (error + dataframe) \<times> state" where
  "join_table_plain env table_name mp merged_df st =
     (case get_table_names env False st of
        (Inl e, st1) \<Rightarrow> (Inl e, st1)
      | (Inr names, st1) \<Rightarrow>
          if table_name \<notin> set names
          then (Inr merged_df, st1\<lparr>logged := logged st1 @ [InfoTableIgnored table_name]\<rparr>)
          else
            (case get_gen3_terra_table_to_df env table_name st1 of
               (Inl e, st2) \<Rightarrow> (Inl e, st2)
             | (Inr current_df, st2) \<Rightarrow>
                 (case mp ''on'' of
                    None \<Rightarrow> (Inl (KeyError ''on''), st2)
                  | Some on_value \<Rightarrow>
                      (case mp ''how'' of
                         None \<Rightarrow> (Inl (KeyError ''how''), st2)
                       | Some how_value \<Rightarrow>
                           (case merge env merged_df current_df mp of
                              Inl e \<Rightarrow> (Inl e, st2)
                            | Inr joined \<Rightarrow>
                                (Inr (drop_duplicate_columns joined),
                                 st2\<lparr>logged := logged st2 @
                                    [InfoMerged table_name on_value how_value
                                       (length (rows (drop_duplicate_columns joined)))
                                       (length (columns (drop_duplicate_columns joined)))]\<rparr>))))))"

fun join_tables_plain ::
  "env \<Rightarrow> string list \<Rightarrow> params \<Rightarrow> dataframe \<Rightarrow> state \<Rightarrow> (error + dataframe) \<times> state" where
  "join_tables_plain env [] mp merged_df st = (Inr merged_df, st)"
| "join_tables_plain env (table_name # rest) mp merged_df st =
     (case join_table_plain env table_name mp merged_df st of
        (Inl e, st') \<Rightarrow> (Inl e, st')
      | (Inr merged_df', st') \<Rightarrow> join_tables_plain env rest mp merged_df' st')"

definition consolidate_tables_plain ::
  "env \<Rightarrow> string list \<Rightarrow> params \<Rightarrow> dataframe option \<Rightarrow> state
     \<Rightarrow> (error + dataframe) \<times> state" where
  "consolidate_tables_plain env names mp initial_df st =
     (case initial_df of
        None \<Rightarrow>
          (case names of
             table_name # rest \<Rightarrow>
               if \<not> 2 \<le> length names
               then (Inl (AssertionError ''At least two table names are required.''), st)
               else
                 (case get_gen3_terra_table_to_df env table_name st of
                    (Inl e, st1) \<Rightarrow> (Inl e, st1)
                  | (Inr first_df, st1) \<Rightarrow> join_tables_plain env rest mp first_df st1)
           | [] \<Rightarrow> (Inl (AssertionError ''At least two table names are required.''), st))
      | Some merged_df \<Rightarrow>
          if \<not> 1 \<le> length names
          then (Inl (AssertionError
                  ''At least one table names is required to merge with previous data.''), st)
          else join_tables_plain env names mp merged_df st)"

text \<open>
  The row-count warnings of a log, in order; the value of \<^verbatim>\<open>previous_row_count\<close> after the
  first \<open>k\<close> steps of a run of the loop of \<^verbatim>\<open>consolidate_to_df\<close> (the start value before any
  step, \<open>-1\<close> where the run has failed); and the warning due between two such values.
\<close>

fun row_count_warnings :: "event list \<Rightarrow> nat list" where
  "row_count_warnings [] = []"
| "row_count_warnings (e # es) =
     (case e of
        WarnRowCountIncreased n \<Rightarrow> n # row_count_warnings es
      | _ \<Rightarrow> row_count_warnings es)"

definition step_count ::
  "env \<Rightarrow> params \<Rightarrow> merge_info list \<Rightarrow> dataframe option \<Rightarrow> int \<Rightarrow> state \<Rightarrow> nat \<Rightarrow> int" where
  "step_count env d steps m p st k =
     (if k = 0 then p
      else (case fst (consolidate_steps env d (take k steps) m p st) of
              Inr (Some df) \<Rightarrow> int (length (rows df))
            | _ \<Rightarrow> - 1))"

definition growth_warning :: "int \<Rightarrow> int \<Rightarrow> nat list" where
  "growth_warning a b = (if a \<noteq> - 1 \<and> a < b then [nat (b - a)] else [])"

text \<open>
  Two specifications for the sample workspace: one step that joins the lab results to the
  subjects, and two steps that join first the samples and then the lab results.
\<close>

definition lab_step :: merge_info where
  "lab_step =
     \<lparr>merge_parameters = None, join_column = Some (PyStr ''subject''),
      join_type = Some (PyStr ''left''), table_names = Some [''subject'', ''lab_result'']\<rparr>"

definition growth_spec :: merge_spec where
  "growth_spec =
     \<lparr>default_merge_parameters = None, default_join_type = Some (PyStr ''inner''),
      merge_sequence = Some [lab_step],
      final_index_source_column = Some ''subject_entity_id''\<rparr>"

definition second_step :: merge_info where
  "second_step =
     \<lparr>merge_parameters = None, join_column = Some (PyStr ''subject''),
      join_type = Some (PyStr ''left''), table_names = Some [''lab_result'']\<rparr>"

definition two_step_spec :: merge_spec where
  "two_step_spec =
     \<lparr>default_merge_parameters = None, default_join_type = Some (PyStr ''inner''),
      merge_sequence = Some [left_step, second_step],
      final_index_source_column = Some ''subject_entity_id''\<rparr>"

definition subject_samples :: dataframe where
  "subject_samples =
     \<lparr>columns = [''subject_entity_id'', ''subject_submitter_id'', ''sample_entity_id'',
                 ''sample_tissue''],
      rows = [[Str ''s1'', Str ''A'', Str ''m1'', Str ''blood''],
              [Str ''s2'', Str ''B'', Str ''m3'', Str ''blood'']]\<rparr>"

definition subject_samples_lab_results :: dataframe where
  "subject_samples_lab_results =
     \<lparr>columns = [''subject_entity_id'', ''subject_submitter_id'', ''sample_entity_id'',
                 ''sample_tissue'', ''lab_result_entity_id'', ''lab_result_value''],
      rows = [[Str ''s1'', Str ''A'', Str ''m1'', Str ''blood'', Str ''l1'', Num 5],
              [Str ''s1'', Str ''A'', Str ''m1'', Str ''blood'', Str ''l2'', Num 6],
              [Str ''s2'', Str ''B'', Str ''m3'', Str ''blood'', Str ''l3'', Num 7]]\<rparr>"

text \<open>
  A specification that joins the lab results to the subjects and takes the ids of the new
  table from the ids of the lab results, and the frame its run uploads as table
  \<^verbatim>\<open>consolidated\<close>.
\<close>

definition lab_index_spec :: merge_spec where
  "lab_index_spec =
     \<lparr>default_merge_parameters = None, default_join_type = Some (PyStr ''inner''),
      merge_sequence = Some [lab_step],
      final_index_source_column = Some ''lab_result_entity_id''\<rparr>"

definition consolidated_table :: dataframe where
  "consolidated_table =
     \<lparr>columns = [''entity:consolidated_id'', ''subject_entity_id'', ''subject_submitter_id'',
                 ''lab_result_entity_id'', ''lab_result_value''],
      rows = [[Str ''l1'', Str ''s1'', Str ''A'', Str ''l1'', Num 5],
              [Str ''l2'', Str ''s1'', Str ''A'', Str ''l2'', Num 6],
              [Str ''l3'', Str ''s2'', Str ''B'', Str ''l3'', Num 7]]\<rparr>"

section \<open>Properties\<close>

declare chunks_of.simps [simp del]
declare retry_call.simps [simp del]

subsection \<open>Chunked upload\<close>

lemma fapi_fst: "fst (fapi_upload_entities env c st) = chunk_write_result env c"
  by (simp add: fapi_upload_entities_def chunk_write_result_def split: prod.splits)

lemma fapi_writes: "writes (snd (fapi_upload_entities env c st)) = writes st @ [c]"
  by (simp add: fapi_upload_entities_def split: prod.splits)

lemma chunks_of_concat: "0 < n \<Longrightarrow> concat (chunks_of n xs) = xs"
proof (induction n xs rule: chunks_of.induct)
  case (1 n xs)
  show ?case
  proof (cases "xs = []")
    case True
    then show ?thesis by (subst chunks_of.simps) simp
  next
    case False
    with 1 have "concat (chunks_of n (drop n xs)) = drop n xs" by simp
    with False 1(2) show ?thesis by (subst chunks_of.simps) simp
  qed
qed

lemma chunks_of_length: "c \<in> set (chunks_of n xs) \<Longrightarrow> 1 \<le> length c \<and> length c \<le> n"
proof (induction n xs rule: chunks_of.induct)
  case (1 n xs)
  show ?case
  proof (cases "n = 0 \<or> xs = []")
    case True
    with "1.prems" show ?thesis by (subst (asm) chunks_of.simps) simp
  next
    case False
    with "1.prems" have "c = take n xs \<or> c \<in> set (chunks_of n (drop n xs))"
      by (subst (asm) chunks_of.simps) simp
    then show ?thesis
    proof
      assume "c = take n xs"
      with False show ?thesis by (cases xs) (auto simp: Suc_le_eq)
    next
      assume "c \<in> set (chunks_of n (drop n xs))"
      with False "1.IH" show ?thesis by simp
    qed
  qed
qed

lemma iloc_chunk:
  assumes "0 \<le> s" "s < int (length (rows df))" "1 \<le> c"
  shows "iloc df s (min (s + c) (int (length (rows df)))) = df\<lparr>rows := take (nat c) (drop (nat s) (rows df))\<rparr>"
proof -
  have "nat (s + c) - nat s = nat c" using assms by linarith
  then show ?thesis
  using assms by (auto simp: iloc_def slice_bound_def Let_def min_def intro!:  arg_cong[where f="\<lambda>r. df\<lparr>rows := r\<rparr>"])
qed

lemma drop_next:
  assumes "0 \<le> s" "1 \<le> c"
  shows "drop (nat (min (s + c) (int (length xs)))) xs = drop (nat c) (drop (nat s) xs)"
proof (cases "s + c \<le> int (length xs)")
  case True
  then have "nat (min (s + c) (int (length xs))) = nat s + nat c" using assms by (simp add: min_def nat_add_distrib)
  then show ?thesis by (simp only: drop_drop add.commute)
next
  case False
  then have "length xs \<le> nat c + nat s" using assms by linarith
  with False show ?thesis by (simp add: min_def)
qed

lemma upload_loop_run:
  assumes "1 \<le> cs" "0 \<le> s"
  shows "\<exists>r st' k. upload_loop env df cs s st = Some (r, st')
           \<and> k \<le> length (chunks_of (nat cs) (drop (nat s) (rows df)))
           \<and> writes st' = writes st @ map (\<lambda>c. df\<lparr>rows := c\<rparr>) (take k (chunks_of (nat cs) (drop (nat s) (rows df))))
           \<and> (r = Inr () \<longrightarrow> k = length (chunks_of (nat cs) (drop (nat s) (rows df))))
           \<and> ((\<forall>c\<in>set (chunks_of (nat cs) (drop (nat s) (rows df))). chunk_write_result env (df\<lparr>rows := c\<rparr>) = Inr ()) \<longrightarrow> r = Inr ())"
  using assms(2)
proof (induction "nat (int (length (rows df)) - s)" arbitrary: s st rule: less_induct)
  case less
  let ?n = "int (length (rows df))"
  show ?case
  proof (cases "s < ?n")
    case False
    then have "drop (nat s) (rows df) = []" using less.prems by simp
    then have "chunks_of (nat cs) (drop (nat s) (rows df)) = []" by (subst chunks_of.simps) simp
    moreover have "upload_loop env df cs s st = Some (Inr (), st)"
      using False by (subst upload_loop.simps) simp
    ultimately show ?thesis by simp
  next
    case True
    let ?chunk = "df\<lparr>rows := take (nat cs) (drop (nat s) (rows df))\<rparr>"
    let ?s' = "min (s + cs) ?n"
    have il: "iloc df s ?s' = ?chunk" using iloc_chunk[OF less.prems True assms(1)] .
    have ne: "drop (nat s) (rows df) \<noteq> []" using True less.prems by simp
    have ch: "chunks_of (nat cs) (drop (nat s) (rows df)) =
       take (nat cs) (drop (nat s) (rows df)) # chunks_of (nat cs) (drop (nat ?s') (rows df))"
      using ne assms(1) by (subst chunks_of.simps) (simp add: drop_next[OF less.prems assms(1)])
    obtain r1 st1 where f: "fapi_upload_entities env ?chunk st = (r1, st1)" by (cases "fapi_upload_entities env ?chunk st")
    have r1: "r1 = chunk_write_result env ?chunk" using fapi_fst[of env ?chunk st] f by simp
    have w1: "writes st1 = writes st @ [?chunk]" using fapi_writes[of env ?chunk st] f by simp
    show ?thesis
    proof (cases r1)
      case (Inl e)
      have "upload_loop env df cs s st = Some (Inl e, st1)"
        using True f Inl by (subst upload_loop.simps) (simp add: il)
      moreover have "chunk_write_result env ?chunk \<noteq> Inr ()" using r1 Inl by (metis sum.distinct(1))
      ultimately have a: "upload_loop env df cs s st = Some (Inl e, st1)"
        and b: "chunk_write_result env ?chunk \<noteq> Inr ()" by simp_all
      have c: "writes st1 = writes st @ map (\<lambda>c. df\<lparr>rows := c\<rparr>) (take 1 (chunks_of (nat cs) (drop (nat s) (rows df))))"
        using assms(1) True less.prems by (simp add: ch w1)
      have d: "(1::nat) \<le> length (chunks_of (nat cs) (drop (nat s) (rows df)))"
        by (simp add: ch)
      have e: "\<not> (\<forall>c\<in>set (chunks_of (nat cs) (drop (nat s) (rows df))). chunk_write_result env (df\<lparr>rows := c\<rparr>) = Inr ())"
        using b by (simp add: ch)
      have g: "Inl e = Inr () \<longrightarrow> (1::nat) = length (chunks_of (nat cs) (drop (nat s) (rows df)))" by simp
      have h: "(\<forall>c\<in>set (chunks_of (nat cs) (drop (nat s) (rows df))). chunk_write_result env (df\<lparr>rows := c\<rparr>) = Inr ()) \<longrightarrow> Inl e = Inr ()"
      proof (rule impI)
        assume A: "\<forall>c\<in>set (chunks_of (nat cs) (drop (nat s) (rows df))). chunk_write_result env (df\<lparr>rows := c\<rparr>) = Inr ()"
        from e A show "Inl e = Inr ()" by (rule notE)
      qed
      show ?thesis
        apply (rule exI[of _ "Inl e"])
        apply (rule exI[of _ st1])
        apply (rule exI[of _ 1])
        apply (rule conjI[OF a conjI[OF d conjI[OF c conjI[OF g h]]]])
        done
    next
      case (Inr u)
      let ?st2 = "st1\<lparr>logged := logged st1 @ [Stderr ''.'']\<rparr>"
      have step: "upload_loop env df cs s st = upload_loop env df cs ?s' ?st2"
        using True f Inr by (subst upload_loop.simps) (simp add: il)
      have m: "nat (?n - ?s') < nat (?n - s)" using True assms(1) by (simp add: min_def)
      have s'0: "0 \<le> ?s'" using less.prems assms(1) by simp
      from less.hyps[OF m s'0, of ?st2] obtain r st' k where
        IH: "upload_loop env df cs ?s' ?st2 = Some (r, st')"
          "k \<le> length (chunks_of (nat cs) (drop (nat ?s') (rows df)))"
          "writes st' = writes ?st2 @ map (\<lambda>c. df\<lparr>rows := c\<rparr>) (take k (chunks_of (nat cs) (drop (nat ?s') (rows df))))"
          "r = Inr () \<longrightarrow> k = length (chunks_of (nat cs) (drop (nat ?s') (rows df)))"
          "(\<forall>c\<in>set (chunks_of (nat cs) (drop (nat ?s') (rows df))). chunk_write_result env (df\<lparr>rows := c\<rparr>) = Inr ()) \<longrightarrow> r = Inr ()"
        by blast
      have c: "writes st' = writes st @ map (\<lambda>c. df\<lparr>rows := c\<rparr>) (take (Suc k) (chunks_of (nat cs) (drop (nat s) (rows df))))"
        using IH(3) by (simp add: ch w1)
      have d: "Suc k \<le> length (chunks_of (nat cs) (drop (nat s) (rows df)))"
        using IH(2) by (simp add: ch)
      have e: "r = Inr () \<longrightarrow> Suc k = length (chunks_of (nat cs) (drop (nat s) (rows df)))"
        using IH(4) by (simp add: ch)
      have g: "(\<forall>c\<in>set (chunks_of (nat cs) (drop (nat s) (rows df))). chunk_write_result env (df\<lparr>rows := c\<rparr>) = Inr ()) \<longrightarrow> r = Inr ()"
        using IH(5) by (simp add: ch)
      have a: "upload_loop env df cs s st = Some (r, st')" using step IH(1) by simp
      show ?thesis
        apply (rule exI[of _ r])
        apply (rule exI[of _ st'])
        apply (rule exI[of _ "Suc k"])
        apply (rule conjI[OF a conjI[OF d conjI[OF c conjI[OF e g]]]])
        done
    qed
  qed
qed

lemma chunks_of_Nil: "chunks_of n [] = []"
  by (subst chunks_of.simps) simp

lemma chunks_1200:
  assumes "length xs = 1200"
  shows "map length (chunks_of 500 xs) = [500, 500, 200]"
proof -
  have ne: "xs \<noteq> []" using assms by auto
  have 1: "chunks_of 500 xs = take 500 xs # chunks_of 500 (drop 500 xs)"
    using ne by (subst chunks_of.simps) simp
  have ne2: "drop 500 xs \<noteq> []" using assms by auto
  have 2: "chunks_of 500 (drop 500 xs) = take 500 (drop 500 xs) # chunks_of 500 (drop 1000 xs)"
    using ne2 by (subst chunks_of.simps) simp
  have ne3: "drop 1000 xs \<noteq> []" using assms by auto
  have 3: "chunks_of 500 (drop 1000 xs) = [take 500 (drop 1000 xs)]"
    using ne3 assms by (subst chunks_of.simps) (simp add: chunks_of_Nil)
  show ?thesis using assms by (simp add: 1 2 3)
qed

lemma upload_entities_df_run:
  assumes "1 \<le> cs"
  shows "\<exists>r st' k. upload_entities_df env df cs st = Some (r, st')
           \<and> k \<le> length (expected_chunks df cs)
           \<and> writes st' = writes st @ take k (expected_chunks df cs)
           \<and> (r = Inr () \<longrightarrow> k = length (expected_chunks df cs))
           \<and> ((\<forall>c\<in>set (expected_chunks df cs). chunk_write_result env c = Inr ()) \<longrightarrow> r = Inr ())"
proof -
  let ?st0 = "st\<lparr>logged := logged st @ [InfoStartUpload, Stderr ''Uploading '']\<rparr>"
  from upload_loop_run[OF assms, of 0 env df ?st0] obtain r st' k where
    L: "upload_loop env df cs 0 ?st0 = Some (r, st')"
       "k \<le> length (chunks_of (nat cs) (rows df))"
       "writes st' = writes st @ map (\<lambda>c. df\<lparr>rows := c\<rparr>) (take k (chunks_of (nat cs) (rows df)))"
       "r = Inr () \<longrightarrow> k = length (chunks_of (nat cs) (rows df))"
       "(\<forall>c\<in>set (chunks_of (nat cs) (rows df)). chunk_write_result env (df\<lparr>rows := c\<rparr>) = Inr ()) \<longrightarrow> r = Inr ()"
    by auto
  have ok: "(\<forall>c\<in>set (expected_chunks df cs). chunk_write_result env c = Inr ()) \<longrightarrow> r = Inr ()"
    using L(5) by (simp add: expected_chunks_def)
  have w: "writes st' = writes st @ take k (expected_chunks df cs)"
    using L(3) by (simp add: expected_chunks_def take_map)
  have kl: "k \<le> length (expected_chunks df cs)" using L(2) by (simp add: expected_chunks_def)
  have kr: "r = Inr () \<longrightarrow> k = length (expected_chunks df cs)" using L(4) by (simp add: expected_chunks_def)
  show ?thesis
  proof (cases r)
    case (Inl e)
    then have "upload_entities_df env df cs st = Some (Inl e, st')"
      using L(1) by (simp add: upload_entities_df_def)
    with Inl w kl kr ok show ?thesis by auto
  next
    case (Inr u)
    let ?st'' = "st'\<lparr>logged := logged st' @ [Stderr [CHR 0x0A], InfoFinishedUpload]\<rparr>"
    have r: "r = Inr ()" using Inr by simp
    have a: "upload_entities_df env df cs st = Some (r, ?st'')"
      using L(1) r by (simp add: upload_entities_df_def)
    have w': "writes ?st'' = writes st @ take k (expected_chunks df cs)"
      using w by simp
    show ?thesis
      apply (rule exI[of _ r])
      apply (rule exI[of _ ?st''])
      apply (rule exI[of _ k])
      apply (rule conjI[OF a conjI[OF kl conjI[OF w' conjI[OF kr ok]]]])
      done
  qed
qed

lemma expected_chunks_concat:
  "1 \<le> cs \<Longrightarrow> concat (map rows (expected_chunks df cs)) = rows df"
  by (simp add: expected_chunks_def comp_def chunks_of_concat)

lemma expected_chunks_shape:
  assumes "c \<in> set (expected_chunks df cs)"
  shows "columns c = columns df \<and> 1 \<le> length (rows c) \<and> int (length (rows c)) \<le> cs"
proof -
  from assms obtain rs where rs: "rs \<in> set (chunks_of (nat cs) (rows df))" and c: "c = df\<lparr>rows := rs\<rparr>"
    by (auto simp: expected_chunks_def)
  from chunks_of_length[OF rs] have "1 \<le> length rs" "length rs \<le> nat cs" by simp_all
  then show ?thesis using c by auto
qed

lemma expected_chunks_1200:
  assumes "length (rows df) = 1200"
  shows "map (\<lambda>c. length (rows c)) (expected_chunks df 500) = [500, 500, 200]"
proof -
  have "map (\<lambda>c. length (rows c)) (expected_chunks df 500) = map length (chunks_of 500 (rows df))"
    by (simp add: expected_chunks_def comp_def)
  then show ?thesis using chunks_1200[OF assms] by simp
qed

lemma retry_call_success:
  "f n = Inr v \<Longrightarrow> retry_call retry_if stop_after wait f n = (Inr v, [])"
  by (subst retry_call.simps) simp

lemma chunk_write_ok:
  assumes "upload_entities env c 1 = Inr 200"
  shows "chunk_write_result env c = Inr ()"
proof -
  have "upload_attempt env c 1 = Inr ()" using assms by (simp add: upload_attempt_def)
  then show ?thesis
    by (simp add: chunk_write_result_def fapi_upload_entities_def retry_call_success)
qed

text \<open>
  C1. For a chunk size of at least 1, \<^verbatim>\<open>upload_entities_df\<close> returns, and the frames it
  hands to the store are, in order and once each, the first \<open>k\<close> of the contiguous chunks
  of at most \<open>chunk_size\<close> rows of the frame; all of them when the upload succeeds, which
  it does when every chunk write succeeds. The chunks are not empty, carry the frame's
  columns, and their rows concatenated are the rows of the frame. For 1200 rows and chunk
  size 500 the chunks have 500, 500 and 200 rows. The default chunk size is 500.
\<close>

theorem upload_entities_df_chunked:
  assumes "1 \<le> chunk_size"
  shows "\<exists>r st' k. upload_entities_df env df chunk_size st = Some (r, st')
      \<and> k \<le> length (expected_chunks df chunk_size)
      \<and> writes st' = writes st @ take k (expected_chunks df chunk_size)
      \<and> (r = Inr () \<longrightarrow> k = length (expected_chunks df chunk_size))
      \<and> ((\<forall>c\<in>set (expected_chunks df chunk_size). chunk_write_result env c = Inr ())
            \<longrightarrow> r = Inr ())
      \<and> concat (map rows (expected_chunks df chunk_size)) = rows df
      \<and> (\<forall>c\<in>set (expected_chunks df chunk_size).
            columns c = columns df \<and> 1 \<le> length (rows c) \<and> int (length (rows c)) \<le> chunk_size)
      \<and> (length (rows df) = 1200 \<and> chunk_size = 500
            \<longrightarrow> map (\<lambda>c. length (rows c)) (expected_chunks df chunk_size) = [500, 500, 200])
      \<and> default_chunk_size = 500"
proof -
  from upload_entities_df_run[OF assms, of env df st] obtain r st' k where
    R: "upload_entities_df env df chunk_size st = Some (r, st')"
       "k \<le> length (expected_chunks df chunk_size)"
       "writes st' = writes st @ take k (expected_chunks df chunk_size)"
       "r = Inr () \<longrightarrow> k = length (expected_chunks df chunk_size)"
       "(\<forall>c\<in>set (expected_chunks df chunk_size). chunk_write_result env c = Inr ()) \<longrightarrow> r = Inr ()"
    by blast
  have c: "concat (map rows (expected_chunks df chunk_size)) = rows df"
    using expected_chunks_concat[OF assms] .
  have s: "\<forall>c\<in>set (expected_chunks df chunk_size).
            columns c = columns df \<and> 1 \<le> length (rows c) \<and> int (length (rows c)) \<le> chunk_size"
    using expected_chunks_shape by blast
  have e: "length (rows df) = 1200 \<and> chunk_size = 500
            \<longrightarrow> map (\<lambda>c. length (rows c)) (expected_chunks df chunk_size) = [500, 500, 200]"
    using expected_chunks_1200 by blast
  have d: "default_chunk_size = 500" by (simp add: default_chunk_size_def)
  show ?thesis
    apply (rule exI[of _ r])
    apply (rule exI[of _ st'])
    apply (rule exI[of _ k])
    apply (rule conjI[OF R(1) conjI[OF R(2) conjI[OF R(3) conjI[OF R(4) conjI[OF R(5) conjI[OF c conjI[OF s conjI[OF e d]]]]]]]])
    done
qed

lemma sample_chunks:
  "expected_chunks sample_table 2 =
     [\<lparr>columns = [''entity:sample_id'', ''subject'', ''tissue''],
       rows = [[Str ''m1'', Str ''s1'', Str ''blood''], [Str ''m2'', Str ''s1'', Str ''saliva'']]\<rparr>,
      \<lparr>columns = [''entity:sample_id'', ''subject'', ''tissue''],
       rows = [[Str ''m3'', Str ''s2'', Str ''blood'']]\<rparr>]"
  by (simp add: expected_chunks_def sample_table_def chunks_of.simps)

theorem upload_entities_df_chunked_witness:
  "\<exists>st'. upload_entities_df sample_env sample_table 2 initial_state = Some (Inr (), st')
     \<and> writes st' =
         [\<lparr>columns = [''entity:sample_id'', ''subject'', ''tissue''],
           rows = [[Str ''m1'', Str ''s1'', Str ''blood''], [Str ''m2'', Str ''s1'', Str ''saliva'']]\<rparr>,
          \<lparr>columns = [''entity:sample_id'', ''subject'', ''tissue''],
           rows = [[Str ''m3'', Str ''s2'', Str ''blood'']]\<rparr>]"
proof -
  have h: "(1::int) \<le> 2" by simp
  from upload_entities_df_chunked[OF h, of sample_env sample_table initial_state]
  obtain r st' k where
    R: "upload_entities_df sample_env sample_table 2 initial_state = Some (r, st')"
       "writes st' = writes initial_state @ take k (expected_chunks sample_table 2)"
       "r = Inr () \<longrightarrow> k = length (expected_chunks sample_table 2)"
       "(\<forall>c\<in>set (expected_chunks sample_table 2). chunk_write_result sample_env c = Inr ()) \<longrightarrow> r = Inr ()"
    by blast
  have ok: "\<forall>c\<in>set (expected_chunks sample_table 2). chunk_write_result sample_env c = Inr ()"
    by (simp add: chunk_write_ok sample_env_def)
  with R(4) have r: "r = Inr ()" by blast
  with R(3) have k: "k = 2" by (simp add: sample_chunks)
  have "writes st' = expected_chunks sample_table 2"
    using R(2) k by (simp add: sample_chunks initial_state_def)
  with R(1) r show ?thesis by (simp add: sample_chunks)
qed

subsection \<open>Column renaming\<close>

lemma canonical_entity: "canonical_name t (''entity:'' @ t @ ''_id'') = t @ ''_entity_id''"
  by (simp add: canonical_name_def)

lemma literal_lists_entity_types:
  "c \<notin> joined_names \<Longrightarrow> c \<in> GEN3_TABLE_NAMES \<longleftrightarrow> c \<in> known_entity_types"
  by (simp add: joined_names_def GEN3_TABLE_NAMES_def known_entity_types_def)

lemma rename_step_set:
  assumes cols: "columns df = map (\<lambda>x. if x \<in> S then canonical_name t x else x) raw"
    and ent: "''entity:'' @ t @ ''_id'' \<in> S"
    and fresh: "c \<notin> canonical_name t ` S"
    and plain: "c \<notin> joined_names"
  shows "rename_step t df c =
           df\<lparr>columns := map (\<lambda>x. if x \<in> insert c S then canonical_name t x else x) raw\<rparr>"
proof -
  let ?new = "if c \<in> known_entity_types then c @ ''_entity_id'' else t @ ''_'' @ c"
  have step: "rename_step t df c = rename_column df c ?new"
    by (simp add: rename_step_def literal_lists_entity_types[OF plain])
  have pt: "\<And>x. (if (if x \<in> S then canonical_name t x else x) = c then ?new
                  else (if x \<in> S then canonical_name t x else x))
             = (if x \<in> insert c S then canonical_name t x else x)"
  proof -
    fix x
    show "(if (if x \<in> S then canonical_name t x else x) = c then ?new
                  else (if x \<in> S then canonical_name t x else x))
             = (if x \<in> insert c S then canonical_name t x else x)"
    proof (cases "x \<in> S")
      case True
      then have "canonical_name t x \<noteq> c" using fresh by auto
      with True show ?thesis by simp
    next
      case False
      show ?thesis
      proof (cases "x = c")
        case True
        with False ent have "c \<noteq> ''entity:'' @ t @ ''_id''" by auto
        then have "canonical_name t c = ?new" by (simp add: canonical_name_def)
        with True False show ?thesis by simp
      next
        case ne: False
        with False show ?thesis by simp
      qed
    qed
  qed
  have "columns (rename_column df c ?new) =
          map (\<lambda>x. if x \<in> insert c S then canonical_name t x else x) raw"
    unfolding rename_column_def cols by (simp add: comp_def pt)
  then show ?thesis unfolding step by (simp add: rename_column_def)
qed

lemma foldl_rename_step:
  assumes "columns df = map (\<lambda>x. if x \<in> set seen then canonical_name t x else x) raw"
    and "''entity:'' @ t @ ''_id'' \<in> set seen"
    and "no_rename_chain t seen cs"
    and "set cs \<inter> joined_names = {}"
  shows "foldl (rename_step t) df cs =
           df\<lparr>columns := map (\<lambda>x. if x \<in> set seen \<union> set cs then canonical_name t x else x) raw\<rparr>"
  using assms
proof (induction cs arbitrary: df seen)
  case Nil
  then show ?case by simp
next
  case (Cons c cs)
  let ?df' = "df\<lparr>columns := map (\<lambda>x. if x \<in> insert c (set seen) then canonical_name t x else x) raw\<rparr>"
  have fresh: "c \<notin> canonical_name t ` set seen" and rest: "no_rename_chain t (c # seen) cs"
    using Cons.prems(3) by simp_all
  have plain: "c \<notin> joined_names" and plain_rest: "set cs \<inter> joined_names = {}"
    using Cons.prems(4) by simp_all
  have st: "rename_step t df c = ?df'"
    using rename_step_set[OF Cons.prems(1) Cons.prems(2) fresh plain] .
  have "foldl (rename_step t) ?df' cs =
          ?df'\<lparr>columns := map (\<lambda>x. if x \<in> set (c # seen) \<union> set cs then canonical_name t x else x) raw\<rparr>"
    by (rule Cons.IH) (use Cons.prems(2) rest plain_rest in simp_all)
  then show ?case by (simp add: st Un_commute insert_commute)
qed

lemma gen3_rename_as_specified:
  assumes cols: "columns df = (''entity:'' @ t @ ''_id'') # rest"
    and chain: "no_rename_chain t [''entity:'' @ t @ ''_id''] rest"
    and plain: "set rest \<inter> joined_names = {}"
  shows "gen3_rename t df = renamed_as_specified t df"
proof -
  let ?e = "''entity:'' @ t @ ''_id''"
  let ?df1 = "rename_column df ?e (t @ ''_entity_id'')"
  have c1: "columns ?df1 = map (\<lambda>x. if x \<in> set [?e] then canonical_name t x else x) (columns df)"
    by (simp add: rename_column_def canonical_entity del: map_eq_conv) (simp add: canonical_name_def)
  have "foldl (rename_step t) ?df1 rest =
          ?df1\<lparr>columns := map (\<lambda>x. if x \<in> set [?e] \<union> set rest then canonical_name t x else x) (columns df)\<rparr>"
    by (rule foldl_rename_step[OF c1 _ chain plain]) simp
  also have "map (\<lambda>x. if x \<in> set [?e] \<union> set rest then canonical_name t x else x) (columns df)
               = map (canonical_name t) (columns df)"
    by (simp add: cols)
  finally have "foldl (rename_step t) ?df1 rest = df\<lparr>columns := map (canonical_name t) (columns df)\<rparr>"
    by (simp add: rename_column_def)
  then show ?thesis
    by (simp add: gen3_rename_def renamed_as_specified_def Let_def cols)
qed

lemma select_first_occurrences:
  "set (select_by (map Not (duplicated_from seen xs)) xs) = set xs - set seen
   \<and> distinct (select_by (map Not (duplicated_from seen xs)) xs)"
proof (induction xs arbitrary: seen)
  case Nil
  then show ?case by (simp add: select_by_def)
next
  case (Cons x xs)
  have IH: "set (select_by (map Not (duplicated_from (x # seen) xs)) xs) = set xs - set (x # seen)"
    "distinct (select_by (map Not (duplicated_from (x # seen) xs)) xs)"
    using Cons.IH[of "x # seen"] by simp_all
  show ?case
  proof (cases "x \<in> set seen")
    case True
    have "select_by (map Not (duplicated_from seen (x # xs))) (x # xs)
            = select_by (map Not (duplicated_from (x # seen) xs)) xs"
      using True by (simp add: select_by_def)
    then show ?thesis using IH True by auto
  next
    case False
    have "select_by (map Not (duplicated_from seen (x # xs))) (x # xs)
            = x # select_by (map Not (duplicated_from (x # seen) xs)) xs"
      using False by (simp add: select_by_def)
    then show ?thesis using IH False by auto
  qed
qed

lemma columns_drop_duplicate_columns:
  "distinct (columns (drop_duplicate_columns df))"
  "set (columns (drop_duplicate_columns df)) = set (columns df)"
  using select_first_occurrences[of "[]" "columns df"]
  by (simp_all add: drop_duplicate_columns_def loc_columns_def duplicated_def)

lemma distinct_gen3_rename: "distinct (columns (gen3_rename t df))"
  by (simp add: gen3_rename_def Let_def columns_drop_duplicate_columns)

lemma in_GEN3_sample: "''sample'' \<in> GEN3_TABLE_NAMES"
  by (simp add: GEN3_TABLE_NAMES_def)

lemma notin_GEN3_tissue: "''tissue'' \<notin> GEN3_TABLE_NAMES"
  by (simp add: GEN3_TABLE_NAMES_def)

lemma notin_GEN3_id: "''id'' \<notin> GEN3_TABLE_NAMES" "''sample_id'' \<notin> GEN3_TABLE_NAMES"
  by (simp_all add: GEN3_TABLE_NAMES_def)

lemma notin_known_id: "''id'' \<notin> known_entity_types" "''sample_id'' \<notin> known_entity_types"
  by (simp_all add: known_entity_types_def)

lemma reference_file_names:
  "''reference_file'' \<notin> GEN3_TABLE_NAMES" "''reference_file'' \<in> known_entity_types"
  by (simp_all add: GEN3_TABLE_NAMES_def known_entity_types_def)

text \<open>
  Away from the two defects the loop does rename as specified: for a table \<open>t\<close> whose raw
  labels start with \<^verbatim>\<open>entity:<t>_id\<close>, with no label after the first that is the canonical
  name of a label renamed before it and none of the labels of the joined line of the
  literal, every column gets its canonical name and the first column of each resulting label
  is kept.
\<close>

lemma gen3_rename_canonical_elsewhere:
  assumes "columns df = (''entity:'' @ t @ ''_id'') # rest"
    and "no_rename_chain t [''entity:'' @ t @ ''_id''] rest"
    and "set rest \<inter> joined_names = {}"
  shows "gen3_rename t df =
           drop_duplicate_columns (df\<lparr>columns := map (canonical_name t) (columns df)\<rparr>)"
    and "distinct (columns (gen3_rename t df))"
    and "set (columns (gen3_rename t df)) = canonical_name t ` set (columns df)"
proof -
  have eq: "gen3_rename t df = renamed_as_specified t df"
    using gen3_rename_as_specified[OF assms] .
  show "gen3_rename t df =
           drop_duplicate_columns (df\<lparr>columns := map (canonical_name t) (columns df)\<rparr>)"
    using eq by (simp add: renamed_as_specified_def)
  show "distinct (columns (gen3_rename t df))"
    by (rule distinct_gen3_rename)
  show "set (columns (gen3_rename t df)) = canonical_name t ` set (columns df)"
    unfolding eq renamed_as_specified_def by (simp add: columns_drop_duplicate_columns)
qed

lemma gen3_rename_self_named:
  "gen3_rename ''sample'' self_named_table =
     \<lparr>columns = [''sample_entity_id'', ''sample_tissue''],
      rows = [[Str ''m1'', Str ''blood'']]\<rparr>"
  by (simp add: gen3_rename_def self_named_table_def Let_def
      rename_column_def rename_step_def in_GEN3_sample notin_GEN3_tissue
      drop_duplicate_columns_def loc_columns_def duplicated_def select_by_def)

text \<open>
  C2. The renaming of \<^verbatim>\<open>get_gen3_terra_table_to_df\<close> is not the specified one on two tables
  the store can hold. On a \<^verbatim>\<open>sample\<close> table with the columns \<^verbatim>\<open>entity:sample_id\<close>, \<^verbatim>\<open>id\<close>
  and \<^verbatim>\<open>sample_id\<close>, the column \<^verbatim>\<open>id\<close> becomes \<^verbatim>\<open>sample_id\<close> and is renamed once more,
  together with the raw column \<^verbatim>\<open>sample_id\<close>, when the loop reaches that label; the two
  columns then share the label \<^verbatim>\<open>sample_sample_id\<close> and the second one, with its data, is
  dropped, where the specified renaming gives \<^verbatim>\<open>sample_id\<close> and \<^verbatim>\<open>sample_sample_id\<close> and
  keeps both. On a \<^verbatim>\<open>reference_file_index\<close> table the link column \<^verbatim>\<open>reference_file\<close>, the
  name of an entity type, is prefixed as an ordinary column instead of becoming
  \<^verbatim>\<open>reference_file_entity_id\<close>, because the literal of \<^verbatim>\<open>GEN3_TABLE_NAMES\<close> joins that name
  to the one before it.
\<close>

theorem gen3_rename_divergence:
  "gen3_rename ''sample'' chained_table =
     \<lparr>columns = [''sample_entity_id'', ''sample_sample_id''], rows = [[Str ''m1'', Num 7]]\<rparr>
   \<and> renamed_as_specified ''sample'' chained_table =
     \<lparr>columns = [''sample_entity_id'', ''sample_id'', ''sample_sample_id''],
      rows = [[Str ''m1'', Num 7, Str ''x'']]\<rparr>
   \<and> gen3_rename ''reference_file_index'' reference_index_table =
     \<lparr>columns = [''reference_file_index_entity_id'', ''reference_file_index_reference_file''],
      rows = [[Str ''i1'', Str ''f1'']]\<rparr>
   \<and> renamed_as_specified ''reference_file_index'' reference_index_table =
     \<lparr>columns = [''reference_file_index_entity_id'', ''reference_file_entity_id''],
      rows = [[Str ''i1'', Str ''f1'']]\<rparr>"
  by (simp add: gen3_rename_def renamed_as_specified_def chained_table_def
      reference_index_table_def Let_def
      rename_column_def rename_step_def canonical_name_def notin_GEN3_id notin_known_id
      reference_file_names
      drop_duplicate_columns_def loc_columns_def duplicated_def select_by_def)

subsection \<open>Merge parameters\<close>

lemma substitute_keeps_how: "substitute_entity_id_column_name mp ''how'' = mp ''how''"
  by (simp add: substitute_entity_id_column_name_def substitute_key_def split: option.splits)

lemma combined_how:
  "create_combined_merge_parameters d info ''how'' =
     (case join_type info of
        Some t \<Rightarrow> Some t
      | None \<Rightarrow>
          (case (case merge_parameters info of None \<Rightarrow> None | Some m \<Rightarrow> m ''how'') of
             Some h \<Rightarrow> Some h
           | None \<Rightarrow> (case d ''how'' of Some h \<Rightarrow> Some h | None \<Rightarrow> Some (PyStr ''inner''))))"
  by (simp add: create_combined_merge_parameters_def Let_def map_add_def
      standard_pandas_default_parameters_def split: option.splits)

lemma spec_default_how:
  "spec_default_merge_parameters spec ''how'' =
     (case default_join_type spec of
        Some t \<Rightarrow> Some t
      | None \<Rightarrow>
          (case default_merge_parameters spec of
             None \<Rightarrow> Some (PyStr ''outer'')
           | Some m \<Rightarrow> m ''how''))"
  by (simp add: spec_default_merge_parameters_def Let_def split: option.splits)

text \<open>
  C3 (as amended). The join type a step's merges are called with is the step's
  \<^verbatim>\<open>join_type\<close> if present, else the \<^verbatim>\<open>how\<close> of the step's \<^verbatim>\<open>merge_parameters\<close> if present,
  else the specification's \<^verbatim>\<open>default_join_type\<close> if present, else the \<^verbatim>\<open>how\<close> of the
  specification's \<^verbatim>\<open>default_merge_parameters\<close>, which are \<^verbatim>\<open>how="outer"\<close> when the
  specification has none, else the library default \<^verbatim>\<open>inner\<close>. For a specification with no
  default join type, no default parameters and no override in the step it is \<^verbatim>\<open>outer\<close>.
\<close>

theorem resolved_join_type:
  "substitute_entity_id_column_name
     (create_combined_merge_parameters (spec_default_merge_parameters spec) info) ''how'' =
   Some (case join_type info of
           Some t \<Rightarrow> t
         | None \<Rightarrow>
             (case (case merge_parameters info of None \<Rightarrow> None | Some m \<Rightarrow> m ''how'') of
                Some h \<Rightarrow> h
              | None \<Rightarrow>
                  (case default_join_type spec of
                     Some d \<Rightarrow> d
                   | None \<Rightarrow>
                       (case default_merge_parameters spec of
                          None \<Rightarrow> PyStr ''outer''
                        | Some dm \<Rightarrow>
                            (case dm ''how'' of Some h \<Rightarrow> h | None \<Rightarrow> PyStr ''inner'')))))
   \<and> (default_merge_parameters spec = None \<and> default_join_type spec = None
        \<and> merge_parameters info = None \<and> join_type info = None
      \<longrightarrow> substitute_entity_id_column_name
            (create_combined_merge_parameters (spec_default_merge_parameters spec) info) ''how''
          = Some (PyStr ''outer''))"
  by (simp add: substitute_keeps_how combined_how spec_default_how split: option.splits)

theorem resolved_join_type_witness:
  "substitute_entity_id_column_name
     (create_combined_merge_parameters (spec_default_merge_parameters custom_spec) left_step) ''how''
   = Some (PyStr ''left'')
   \<and> default_merge_parameters plain_spec = None \<and> default_join_type plain_spec = None
   \<and> merge_parameters plain_step = None \<and> join_type plain_step = None
   \<and> substitute_entity_id_column_name
       (create_combined_merge_parameters (spec_default_merge_parameters plain_spec) plain_step) ''how''
     = Some (PyStr ''outer'')"
proof -
  have h: "default_merge_parameters plain_spec = None \<and> default_join_type plain_spec = None
    \<and> merge_parameters plain_step = None \<and> join_type plain_step = None"
    by (simp add: plain_spec_def plain_step_def)
  have a: "substitute_entity_id_column_name
       (create_combined_merge_parameters (spec_default_merge_parameters plain_spec) plain_step) ''how''
     = Some (PyStr ''outer'')"
    using resolved_join_type[of plain_spec plain_step] h by blast
  have b: "substitute_entity_id_column_name
     (create_combined_merge_parameters (spec_default_merge_parameters custom_spec) left_step) ''how''
   = Some (PyStr ''left'')"
    using resolved_join_type[of custom_spec left_step]
    by (simp add: custom_spec_def left_step_def)
  show ?thesis using a b h by simp
qed

text \<open>
  The claim as stated fails for the plain specification: the resolved join type is
  \<^verbatim>\<open>outer\<close>, not \<^verbatim>\<open>inner\<close>.
\<close>

theorem resolved_join_type_counterexample:
  "substitute_entity_id_column_name
     (create_combined_merge_parameters (spec_default_merge_parameters plain_spec) plain_step) ''how''
   = Some (PyStr ''outer'')
   \<and> Some (PyStr ''outer'') \<noteq> Some (PyStr ''inner'')"
  by (simp add: substitute_keeps_how combined_how spec_default_how plain_spec_def plain_step_def)

subsection \<open>Deduplication\<close>

lemma select_by_map: "select_by (map g xs) xs = filter g xs"
  by (induction xs) (simp_all add: select_by_def)

lemma select_by_map_Not: "select_by (map Not (map g xs)) xs = filter (\<lambda>x. \<not> g x) xs"
  using select_by_map[of "\<lambda>x. \<not> g x" xs] by (simp add: comp_def)

lemma map_select_by: "map f (select_by ms xs) = select_by ms (map f xs)"
proof (induction xs arbitrary: ms)
  case Nil
  then show ?case by (simp add: select_by_def)
next
  case (Cons x xs)
  then show ?case by (cases ms) (auto simp: select_by_def)
qed

lemma length_duplicated_from: "length (duplicated_from seen xs) = length xs"
  by (induction xs arbitrary: seen) simp_all

lemma select_by_none:
  assumes "select_by ms ys = []" "length ms = length ys" "length xs = length ys"
  shows "select_by ms xs = [] \<and> select_by (map Not ms) xs = xs"
  using assms(2) assms(3)[symmetric] assms(1)
proof (induction ms ys xs rule: list_induct3)
  case Nil
  then show ?case by (simp add: select_by_def)
next
  case (Cons m ms y ys x xs)
  then show ?case by (cases m) (auto simp: select_by_def)
qed

lemma get_column_Inr:
  "get_column df c = Inr vs \<Longrightarrow>
     c \<in> set (columns df) \<and> vs = map (\<lambda>r. cell_at r (index_of c (columns df))) (rows df)"
  by (auto simp: get_column_def split: if_splits)


text \<open>
  C4. When \<^verbatim>\<open>_deduplicate_merge_data\<close> returns for an accumulator that has the candidate
  table's entity-id column, the candidate has lost exactly the rows that repeat an earlier
  value of the dedup key (its key values are then distinct), and the accumulator has lost
  exactly the rows whose entity-id value is that of a removed row: no row of the
  accumulator holds the entity id of a removed row.
\<close>

theorem deduplicate_removes_orphans:
  assumes run: "deduplicate_merge_data (Some merged) current tname key st
                  = (Inr (merged_opt', current'), st')"
    and col: "get_entity_id_column_name tname \<in> set (columns merged)"
  shows "\<exists>kv merged'.
           get_column current key = Inr kv
         \<and> merged_opt' = Some merged'
         \<and> current' = drop_rows current (duplicated kv)
         \<and> (\<exists>kv'. get_column current' key = Inr kv' \<and> distinct kv' \<and> set kv' = set kv)
         \<and> columns merged' = columns merged
         \<and> rows merged' =
             filter (\<lambda>m. cell_at m (index_of (get_entity_id_column_name tname) (columns merged))
                        \<notin> (\<lambda>r. cell_at r (index_of (get_entity_id_column_name tname)
                                                (columns current)))
                            ` set (rows (select_rows current (duplicated kv))))
                    (rows merged)
         \<and> (\<forall>r\<in>set (rows (select_rows current (duplicated kv))).
              \<forall>m\<in>set (rows merged').
                cell_at m (index_of (get_entity_id_column_name tname) (columns merged'))
                  \<noteq> cell_at r (index_of (get_entity_id_column_name tname) (columns current)))"
proof -
  let ?id = "get_entity_id_column_name tname"
  let ?i = "index_of ?id (columns merged)"
  let ?j = "index_of ?id (columns current)"
  obtain kv where kv: "get_column current key = Inr kv"
    using run by (cases "get_column current key") (simp_all add: deduplicate_merge_data_def)
  have kvm: "key \<in> set (columns current)"
    "kv = map (\<lambda>r. cell_at r (index_of key (columns current))) (rows current)"
    using get_column_Inr[OF kv] by simp_all
  let ?dups = "duplicated kv"
  let ?removed = "select_rows current ?dups"
  let ?P = "\<lambda>m. cell_at m ?i \<notin> (\<lambda>r. cell_at r ?j) ` set (rows ?removed)"
  have len: "length ?dups = length kv" by (simp add: duplicated_def length_duplicated_from)
  have kept: "\<exists>kv'. get_column (drop_rows current ?dups) key = Inr kv' \<and> distinct kv' \<and> set kv' = set kv"
  proof -
    have "get_column (drop_rows current ?dups) key
            = Inr (select_by (map Not ?dups) kv)"
      using kvm by (simp add: get_column_def drop_rows_def map_select_by)
    moreover have "distinct (select_by (map Not ?dups) kv)" "set (select_by (map Not ?dups) kv) = set kv"
      using select_first_occurrences[of "[]" kv] by (simp_all add: duplicated_def)
    ultimately show ?thesis by blast
  qed
  have main: "\<exists>merged'. merged_opt' = Some merged' \<and> current' = drop_rows current ?dups
                \<and> columns merged' = columns merged \<and> rows merged' = filter ?P (rows merged)"
  proof (cases "select_by ?dups kv = []")
    case True
    have res: "merged_opt' = Some merged" "current' = current"
      using run kv True by (simp_all add: deduplicate_merge_data_def Let_def)
    have lr: "length (rows current) = length kv" using kvm(2) by simp
    from select_by_none[OF True len lr]
    have none: "select_by ?dups (rows current) = []" "select_by (map Not ?dups) (rows current) = rows current"
      by simp_all
    have "drop_rows current ?dups = current" by (simp add: drop_rows_def none)
    moreover have "filter ?P (rows merged) = rows merged"
      by (simp add: select_rows_def none)
    ultimately show ?thesis using res by simp
  next
    case False
    obtain ids where ids: "get_column ?removed ?id = Inr ids"
      using run kv False
      by (cases "get_column ?removed ?id") (simp_all add: deduplicate_merge_data_def Let_def)
    have idsm: "ids = map (\<lambda>r. cell_at r ?j) (rows ?removed)"
      using get_column_Inr[OF ids] by (simp add: select_rows_def)
    have gm: "get_column merged ?id = Inr (map (\<lambda>r. cell_at r ?i) (rows merged))"
      using col by (simp add: get_column_def)
    have res: "merged_opt' = Some (drop_rows merged (map (\<lambda>v. v \<in> set ids) (map (\<lambda>r. cell_at r ?i) (rows merged))))"
      "current' = drop_rows current ?dups"
      using run kv False ids gm col by (simp_all add: deduplicate_merge_data_def Let_def)
    have "rows (drop_rows merged (map (\<lambda>v. v \<in> set ids) (map (\<lambda>r. cell_at r ?i) (rows merged))))
            = filter ?P (rows merged)"
      using select_by_map_Not[of "\<lambda>r. cell_at r ?i \<in> set ids" "rows merged"]
      by (simp add: drop_rows_def comp_def idsm)
    then show ?thesis using res by (simp add: drop_rows_def)
  qed
  then obtain merged' where m: "merged_opt' = Some merged'" "current' = drop_rows current ?dups"
    "columns merged' = columns merged" "rows merged' = filter ?P (rows merged)" by blast
  have orph: "\<forall>r\<in>set (rows ?removed). \<forall>m\<in>set (rows merged').
                cell_at m (index_of ?id (columns merged')) \<noteq> cell_at r ?j"
    using m(3,4) by auto
  have k2: "\<exists>kv'. get_column current' key = Inr kv' \<and> distinct kv' \<and> set kv' = set kv"
    using kept m(2) by simp
  show ?thesis
    apply (rule exI[of _ kv])
    apply (rule exI[of _ merged'])
    apply (rule conjI[OF kv conjI[OF m(1) conjI[OF m(2) conjI[OF k2 conjI[OF m(3) conjI[OF m(4) orph]]]]]])
    done
qed


lemma dedup_sample_run:
  "deduplicate_merge_data (Some aliquot_accumulator) renamed_sample_table ''sample''
      ''subject_entity_id'' initial_state
   = (Inr (Some \<lparr>columns = [''aliquot_entity_id'', ''sample_entity_id''],
                  rows = [[Str ''a1'', Str ''m1''], [Str ''a3'', Str ''m3'']]\<rparr>,
           \<lparr>columns = [''sample_entity_id'', ''subject_entity_id'', ''sample_tissue''],
            rows = [[Str ''m1'', Str ''s1'', Str ''blood''],
                    [Str ''m3'', Str ''s2'', Str ''blood'']]\<rparr>),
      \<lparr>data_table_info = None, data_table_names = None,
       logged = [WarnRemovedDuplicates 1 ''sample'' ''subject_entity_id'' [Str ''s1'']],
       writes = []\<rparr>)"
  by (simp add: deduplicate_merge_data_def get_column_def renamed_sample_table_def
      aliquot_accumulator_def initial_state_def cell_at_def duplicated_def select_by_def
      select_rows_def drop_rows_def get_entity_id_column_name_def Let_def)

theorem deduplicate_removes_orphans_witness:
  "deduplicate_merge_data (Some aliquot_accumulator) renamed_sample_table ''sample''
      ''subject_entity_id'' initial_state
   = (Inr (Some \<lparr>columns = [''aliquot_entity_id'', ''sample_entity_id''],
                  rows = [[Str ''a1'', Str ''m1''], [Str ''a3'', Str ''m3'']]\<rparr>,
           \<lparr>columns = [''sample_entity_id'', ''subject_entity_id'', ''sample_tissue''],
            rows = [[Str ''m1'', Str ''s1'', Str ''blood''],
                    [Str ''m3'', Str ''s2'', Str ''blood'']]\<rparr>),
      \<lparr>data_table_info = None, data_table_names = None,
       logged = [WarnRemovedDuplicates 1 ''sample'' ''subject_entity_id'' [Str ''s1'']],
       writes = []\<rparr>)
   \<and> get_entity_id_column_name ''sample'' \<in> set (columns aliquot_accumulator)
   \<and> rows (select_rows renamed_sample_table (duplicated [Str ''s1'', Str ''s1'', Str ''s2'']))
       = [[Str ''m2'', Str ''s1'', Str ''saliva'']]
   \<and> Str ''m2'' \<notin> (\<lambda>m. cell_at m 1) `
         set [[Str ''a1'', Str ''m1''], [Str ''a3'', Str ''m3'']]"
proof -
  have col: "get_entity_id_column_name ''sample'' \<in> set (columns aliquot_accumulator)"
    by (simp add: get_entity_id_column_name_def aliquot_accumulator_def)
  from deduplicate_removes_orphans[OF dedup_sample_run col]
  obtain kv merged' where
    kv: "get_column renamed_sample_table ''subject_entity_id'' = Inr kv"
    and m: "Some \<lparr>columns = [''aliquot_entity_id'', ''sample_entity_id''],
                  rows = [[Str ''a1'', Str ''m1''], [Str ''a3'', Str ''m3'']]\<rparr> = Some merged'"
    and orph: "\<forall>r\<in>set (rows (select_rows renamed_sample_table (duplicated kv))).
              \<forall>m\<in>set (rows merged').
                cell_at m (index_of (get_entity_id_column_name ''sample'') (columns merged'))
                  \<noteq> cell_at r (index_of (get_entity_id_column_name ''sample'')
                                  (columns renamed_sample_table))"
    by blast
  have kv': "kv = [Str ''s1'', Str ''s1'', Str ''s2'']"
    using kv by (simp add: get_column_def renamed_sample_table_def cell_at_def)
  have removed: "rows (select_rows renamed_sample_table (duplicated [Str ''s1'', Str ''s1'', Str ''s2'']))
       = [[Str ''m2'', Str ''s1'', Str ''saliva'']]"
    by (simp add: select_rows_def renamed_sample_table_def duplicated_def select_by_def)
  have "\<forall>m\<in>set (rows merged'). cell_at m 1 \<noteq> Str ''m2''"
    using orph m[symmetric] removed
    by (simp add: kv' get_entity_id_column_name_def renamed_sample_table_def cell_at_def)
  then have "Str ''m2'' \<notin> (\<lambda>m. cell_at m 1) ` set (rows merged')" by auto
  then have last: "Str ''m2'' \<notin> (\<lambda>m. cell_at m 1) `
         set [[Str ''a1'', Str ''m1''], [Str ''a3'', Str ''m3'']]"
    using m[symmetric] by simp
  show ?thesis using dedup_sample_run col removed last by blast
qed

subsection \<open>Table fetch with retries\<close>

lemma wait_bounds: "2 \<le> wait_exponential 1 2 10 e \<and> wait_exponential 1 2 10 e \<le> 10"
  by (simp add: wait_exponential_def)

lemma wait_first: "wait_exponential 1 2 10 0 = 2" "wait_exponential 1 2 10 1 = 2"
  by (simp_all add: wait_exponential_def)

lemma retry_call_last:
  "retry_call retry_if 3 wait f 3 = (case f 3 of Inr v \<Rightarrow> (Inr v, []) | Inl e \<Rightarrow> (Inl e, []))"
  by (subst retry_call.simps) (simp split: sum.splits)

lemma retry_call_all_second:
  "retry_call (\<lambda>e. True) 3 wait f 2 =
     (case f 2 of
        Inr v \<Rightarrow> (Inr v, [])
      | Inl e \<Rightarrow> (case f 3 of Inr v \<Rightarrow> (Inr v, [wait 2]) | Inl e' \<Rightarrow> (Inl e', [wait 2])))"
  by (subst retry_call.simps) (simp add: retry_call_last split: sum.splits)

lemma retry_call_all_first:
  "retry_call (\<lambda>e. True) 3 wait f 1 =
     (case f 1 of
        Inr v \<Rightarrow> (Inr v, [])
      | Inl e1 \<Rightarrow>
          (case f 2 of
             Inr v \<Rightarrow> (Inr v, [wait 1])
           | Inl e2 \<Rightarrow>
               (case f 3 of
                  Inr v \<Rightarrow> (Inr v, [wait 1, wait 2])
                | Inl e3 \<Rightarrow> (Inl e3, [wait 1, wait 2]))))"
proof -
  have s: "Suc 1 = 2" by simp
  have n: "\<not> (3::nat) \<le> 1" by simp
  note r = retry_call.simps[of "\<lambda>e. True" 3 wait f 1, unfolded s retry_call_all_second]
  show ?thesis
    by (subst r) (simp only: n split: sum.splits, simp)
qed

text \<open>
  C7 (as amended). \<^verbatim>\<open>get_terra_table_to_df\<close> makes at most three attempts. It returns the
  first attempt that succeeds; a failing attempt, whatever its failure (an answer with a
  status other than 200, such as the one for a table the store does not have, raises
  \<^verbatim>\<open>FireCloudServiceException\<close>), is followed by a sleep and the next attempt; when the third
  attempt fails, its failure is the result, unchanged. Every sleep lasts between 2 and 10
  seconds, and the schedule starts at 2 seconds whether the library counts the exponent
  from 0 or from 1.
\<close>

theorem get_terra_table_to_df_retries:
  "get_terra_table_to_df env t st =
     (case fetch_attempt env t 1 of
        Inr df \<Rightarrow> (Inr df, st\<lparr>logged := logged st\<rparr>)
      | Inl e1 \<Rightarrow>
          (case fetch_attempt env t 2 of
             Inr df \<Rightarrow>
               (Inr df, st\<lparr>logged := logged st @
                  [InfoRetrying (wait_exponential 1 2 10 (exponent env 1))]\<rparr>)
           | Inl e2 \<Rightarrow>
               (case fetch_attempt env t 3 of
                  Inr df \<Rightarrow>
                    (Inr df, st\<lparr>logged := logged st @
                       [InfoRetrying (wait_exponential 1 2 10 (exponent env 1)),
                        InfoRetrying (wait_exponential 1 2 10 (exponent env 2))]\<rparr>)
                | Inl e3 \<Rightarrow>
                    (Inl e3, st\<lparr>logged := logged st @
                       [InfoRetrying (wait_exponential 1 2 10 (exponent env 1)),
                        InfoRetrying (wait_exponential 1 2 10 (exponent env 2))]\<rparr>))))
   \<and> (\<forall>n. 2 \<le> wait_exponential 1 2 10 (exponent env n)
          \<and> wait_exponential 1 2 10 (exponent env n) \<le> 10)
   \<and> wait_exponential 1 2 10 0 = 2 \<and> wait_exponential 1 2 10 1 = 2
   \<and> (\<forall>n code body. get_entities_tsv env t n = Inr (code, body) \<and> code \<noteq> 200
         \<longrightarrow> fetch_attempt env t n = Inl (FireCloudServiceException code))"
proof -
  have a: "get_terra_table_to_df env t st =
     (case fetch_attempt env t 1 of
        Inr df \<Rightarrow> (Inr df, st\<lparr>logged := logged st\<rparr>)
      | Inl e1 \<Rightarrow>
          (case fetch_attempt env t 2 of
             Inr df \<Rightarrow>
               (Inr df, st\<lparr>logged := logged st @
                  [InfoRetrying (wait_exponential 1 2 10 (exponent env 1))]\<rparr>)
           | Inl e2 \<Rightarrow>
               (case fetch_attempt env t 3 of
                  Inr df \<Rightarrow>
                    (Inr df, st\<lparr>logged := logged st @
                       [InfoRetrying (wait_exponential 1 2 10 (exponent env 1)),
                        InfoRetrying (wait_exponential 1 2 10 (exponent env 2))]\<rparr>)
                | Inl e3 \<Rightarrow>
                    (Inl e3, st\<lparr>logged := logged st @
                       [InfoRetrying (wait_exponential 1 2 10 (exponent env 1)),
                        InfoRetrying (wait_exponential 1 2 10 (exponent env 2))]\<rparr>))))"
    unfolding get_terra_table_to_df_def retry_call_all_first by (simp split: sum.splits)
  have b: "\<forall>n. 2 \<le> wait_exponential 1 2 10 (exponent env n)
          \<and> wait_exponential 1 2 10 (exponent env n) \<le> 10"
    using wait_bounds by blast
  have c: "\<forall>n code body. get_entities_tsv env t n = Inr (code, body) \<and> code \<noteq> 200
         \<longrightarrow> fetch_attempt env t n = Inl (FireCloudServiceException code)"
    by (simp add: fetch_attempt_def)
  show ?thesis using a b c wait_first by blast
qed

theorem get_terra_table_to_df_retries_witness:
  "get_terra_table_to_df flaky_env ''subject'' initial_state =
     (Inr subject_table, initial_state\<lparr>logged := [InfoRetrying 2]\<rparr>)
   \<and> get_entities_tsv flaky_env ''subject'' 1 = Inr (503, \<lparr>columns = [], rows = []\<rparr>)
   \<and> fetch_attempt flaky_env ''subject'' 1 = Inl (FireCloudServiceException 503)"
proof -
  note inst = get_terra_table_to_df_retries[of flaky_env "''subject''" initial_state]
  have g: "get_entities_tsv flaky_env ''subject'' 1 = Inr (503, \<lparr>columns = [], rows = []\<rparr>)"
    by (simp add: flaky_env_def)
  have c: "\<forall>n code body. get_entities_tsv flaky_env ''subject'' n = Inr (code, body) \<and> code \<noteq> 200
         \<longrightarrow> fetch_attempt flaky_env ''subject'' n = Inl (FireCloudServiceException code)"
    using inst by blast
  have f1: "fetch_attempt flaky_env ''subject'' 1 = Inl (FireCloudServiceException 503)"
    using c g by simp
  have f2: "fetch_attempt flaky_env ''subject'' 2 = Inr subject_table"
    by (simp add: fetch_attempt_def flaky_env_def)
  have e: "wait_exponential 1 2 10 (exponent flaky_env 1) = 2"
    by (simp add: flaky_env_def wait_exponential_def)
  have a: "get_terra_table_to_df flaky_env ''subject'' initial_state =
     (case fetch_attempt flaky_env ''subject'' 1 of
        Inr df \<Rightarrow> (Inr df, initial_state\<lparr>logged := logged initial_state\<rparr>)
      | Inl e1 \<Rightarrow>
          (case fetch_attempt flaky_env ''subject'' 2 of
             Inr df \<Rightarrow>
               (Inr df, initial_state\<lparr>logged := logged initial_state @
                  [InfoRetrying (wait_exponential 1 2 10 (exponent flaky_env 1))]\<rparr>)
           | Inl e2 \<Rightarrow>
               (case fetch_attempt flaky_env ''subject'' 3 of
                  Inr df \<Rightarrow>
                    (Inr df, initial_state\<lparr>logged := logged initial_state @
                       [InfoRetrying (wait_exponential 1 2 10 (exponent flaky_env 1)),
                        InfoRetrying (wait_exponential 1 2 10 (exponent flaky_env 2))]\<rparr>)
                | Inl e3 \<Rightarrow>
                    (Inl e3, initial_state\<lparr>logged := logged initial_state @
                       [InfoRetrying (wait_exponential 1 2 10 (exponent flaky_env 1)),
                        InfoRetrying (wait_exponential 1 2 10 (exponent flaky_env 2))]\<rparr>))))"
    using inst by blast
  have "get_terra_table_to_df flaky_env ''subject'' initial_state =
     (Inr subject_table, initial_state\<lparr>logged := [InfoRetrying 2]\<rparr>)"
    unfolding a f1 f2 e by (simp add: initial_state_def)
  then show ?thesis using g f1 by simp
qed

text \<open>
  The claim as stated fails for a table the store does not have: the 404 answer is retried
  like any other failure, twice, before it is re-raised.
\<close>

theorem table_not_found_retried_counterexample:
  "get_terra_table_to_df sample_env ''cardiac_mri'' initial_state =
     (Inl (FireCloudServiceException 404),
      initial_state\<lparr>logged := [InfoRetrying 2, InfoRetrying 4]\<rparr>)"
proof -
  have f: "\<And>n. fetch_attempt sample_env ''cardiac_mri'' n = Inl (FireCloudServiceException 404)"
    by (simp add: fetch_attempt_def sample_env_def)
  have e: "wait_exponential 1 2 10 (exponent sample_env 1) = 2"
    "wait_exponential 1 2 10 (exponent sample_env 2) = 4"
    by (simp_all add: sample_env_def wait_exponential_def)
  show ?thesis
    unfolding get_terra_table_to_df_def retry_call_all_first f e
    by (simp add: initial_state_def)
qed

subsection \<open>Invalid specifications\<close>

lemma sample_env_refresh:
  "writes st = [] \<Longrightarrow> refresh sample_env st =
     (Inr (), st\<lparr>data_table_info := Some sample_listing,
                 data_table_names := Some [''subject'', ''sample'', ''lab_result'']\<rparr>)"
  by (simp add: refresh_def sample_env_def sample_listing_def listing_of_writes_def)

lemma sample_env_names_initial:
  "get_table_names sample_env False initial_state =
     (Inr [''subject'', ''sample'', ''lab_result''],
      initial_state\<lparr>data_table_info := Some sample_listing,
                     data_table_names := Some [''subject'', ''sample'', ''lab_result'']\<rparr>)"
  by (simp add: get_table_names_def sample_env_refresh unset_or_empty_def initial_state_def)

lemma sample_env_fetch_missing:
  "get_terra_table_to_df sample_env ''cardiac_mri'' st =
     (Inl (FireCloudServiceException 404),
      st\<lparr>logged := logged st @ [InfoRetrying 2, InfoRetrying 4]\<rparr>)"
proof -
  have f: "\<And>n. fetch_attempt sample_env ''cardiac_mri'' n = Inl (FireCloudServiceException 404)"
    by (simp add: fetch_attempt_def sample_env_def)
  have e: "wait_exponential 1 2 10 (exponent sample_env 1) = 2"
    "wait_exponential 1 2 10 (exponent sample_env 2) = 4"
    by (simp_all add: sample_env_def wait_exponential_def)
  show ?thesis
    unfolding get_terra_table_to_df_def retry_call_all_first f e by simp
qed

lemma assert_two_tables:
  "length names < 2 \<Longrightarrow>
     consolidate_tables_to_df env names mp None st =
       (Inl (AssertionError ''At least two table names are required.''), st)"
  by (cases names) (simp_all add: consolidate_tables_to_df_def)

lemma assert_one_table:
  "length names < 1 \<Longrightarrow>
     consolidate_tables_to_df env names mp (Some df) st =
       (Inl (AssertionError
          ''At least one table names is required to merge with previous data.''), st)"
  by (simp add: consolidate_tables_to_df_def)

text \<open>
  C6 (as amended). When \<^verbatim>\<open>final_index_source_column\<close> is missing or empty,
  \<^verbatim>\<open>consolidate_to_terra_table\<close> logs an error and returns at once: nothing is raised, and
  neither the store nor the registry is touched. A join step that is reached with fewer
  table names than it needs (two when there is no accumulator yet, one otherwise) raises
  \<^verbatim>\<open>AssertionError\<close> at once, before any fetch and with no retry; for the first step of a
  specification this is the result of the run.
\<close>

theorem invalid_specification_handling:
  "((final_index_source_column spec = None \<or> final_index_source_column spec = Some [])
      \<longrightarrow> consolidate_to_terra_table env spec entity_name st =
            Some (Inr (), st\<lparr>logged := logged st @ [ErrorMissingFinalIndex]\<rparr>))
   \<and> (length names < 2
      \<longrightarrow> consolidate_tables_to_df env names mp None st =
            (Inl (AssertionError ''At least two table names are required.''), st))
   \<and> (length names < 1
      \<longrightarrow> consolidate_tables_to_df env names mp (Some df) st =
            (Inl (AssertionError
               ''At least one table names is required to merge with previous data.''), st))
   \<and> (table_names info = Some names \<and> length names < 2
      \<longrightarrow> consolidate_steps env d (info # rest) None previous_row_count st =
            (Inl (AssertionError ''At least two table names are required.''), st))
   \<and> (table_names info = Some names \<and> length names < 1
      \<longrightarrow> consolidate_steps env d (info # rest) (Some df) previous_row_count st =
            (Inl (AssertionError
               ''At least one table names is required to merge with previous data.''), st))
   \<and> (merge_sequence spec = Some (info # rest) \<and> table_names info = Some names
        \<and> length names < 2
      \<longrightarrow> consolidate_to_df env spec st =
            (Inl (AssertionError ''At least two table names are required.''), st))"
proof -
  have a: "(final_index_source_column spec = None \<or> final_index_source_column spec = Some [])
      \<longrightarrow> consolidate_to_terra_table env spec entity_name st =
            Some (Inr (), st\<lparr>logged := logged st @ [ErrorMissingFinalIndex]\<rparr>)"
    by (auto simp: consolidate_to_terra_table_def)
  have b: "length names < 2
      \<longrightarrow> consolidate_tables_to_df env names mp None st =
            (Inl (AssertionError ''At least two table names are required.''), st)"
    using assert_two_tables by blast
  have c: "length names < 1
      \<longrightarrow> consolidate_tables_to_df env names mp (Some df) st =
            (Inl (AssertionError
               ''At least one table names is required to merge with previous data.''), st)"
    using assert_one_table by blast
  have d: "table_names info = Some names \<and> length names < 2
      \<longrightarrow> consolidate_steps env d (info # rest) None previous_row_count st =
            (Inl (AssertionError ''At least two table names are required.''), st)"
    by (simp add: assert_two_tables Let_def)
  have e: "table_names info = Some names \<and> length names < 1
      \<longrightarrow> consolidate_steps env d (info # rest) (Some df) previous_row_count st =
            (Inl (AssertionError
               ''At least one table names is required to merge with previous data.''), st)"
    by (simp add: assert_one_table Let_def)
  have f: "merge_sequence spec = Some (info # rest) \<and> table_names info = Some names
        \<and> length names < 2
      \<longrightarrow> consolidate_to_df env spec st =
            (Inl (AssertionError ''At least two table names are required.''), st)"
    by (simp add: consolidate_to_df_def assert_two_tables Let_def)
  show ?thesis using a b c d e f by blast
qed

theorem invalid_specification_handling_witness:
  "final_index_source_column no_index_spec = None
   \<and> consolidate_to_terra_table sample_env no_index_spec ''consolidated'' initial_state =
       Some (Inr (), initial_state\<lparr>logged := [ErrorMissingFinalIndex]\<rparr>)
   \<and> consolidate_tables_to_df sample_env [''subject''] Map.empty None initial_state =
       (Inl (AssertionError ''At least two table names are required.''), initial_state)
   \<and> consolidate_tables_to_df sample_env [] Map.empty (Some subject_table) initial_state =
       (Inl (AssertionError
          ''At least one table names is required to merge with previous data.''),
        initial_state)
   \<and> consolidate_steps sample_env Map.empty [empty_step] None (- 1) initial_state =
       (Inl (AssertionError ''At least two table names are required.''), initial_state)
   \<and> consolidate_steps sample_env Map.empty [empty_step] (Some subject_table) 2 initial_state =
       (Inl (AssertionError
          ''At least one table names is required to merge with previous data.''),
        initial_state)"
proof -
  have n: "final_index_source_column no_index_spec = None" by (simp add: no_index_spec_def)
  have t: "table_names empty_step = Some []" by (simp add: empty_step_def)
  note inst1 = invalid_specification_handling[where spec=no_index_spec
      and names="[''subject'']" and env=sample_env and mp=Map.empty and st=initial_state
      and info=empty_step and entity_name="''consolidated''"]
  note inst2 = invalid_specification_handling[where spec=no_index_spec
      and names="[]" and env=sample_env and mp=Map.empty and st=initial_state
      and info=empty_step and entity_name="''consolidated''" and df=subject_table
      and d=Map.empty and rest="[]"]
  have a: "consolidate_to_terra_table sample_env no_index_spec ''consolidated'' initial_state =
       Some (Inr (), initial_state\<lparr>logged := [ErrorMissingFinalIndex]\<rparr>)"
    using inst1 n by (simp add: initial_state_def)
  have b: "consolidate_tables_to_df sample_env [''subject''] Map.empty None initial_state =
       (Inl (AssertionError ''At least two table names are required.''), initial_state)"
    using inst1 by simp
  have c: "consolidate_tables_to_df sample_env [] Map.empty (Some subject_table) initial_state =
       (Inl (AssertionError
          ''At least one table names is required to merge with previous data.''),
        initial_state)"
    using inst2 by simp
  have d: "consolidate_steps sample_env Map.empty [empty_step] None (- 1) initial_state =
       (Inl (AssertionError ''At least two table names are required.''), initial_state)"
    using inst2[where previous_row_count="- 1"] t by simp
  have e: "consolidate_steps sample_env Map.empty [empty_step] (Some subject_table) 2 initial_state =
       (Inl (AssertionError
          ''At least one table names is required to merge with previous data.''),
        initial_state)"
    using inst2[where previous_row_count=2] t by simp
  show ?thesis using n a b c d e by blast
qed


text \<open>
  The claim as stated fails on both counts. Without the index column the call returns to
  its caller as a successful call does, with nothing raised; and a specification with too
  few tables in its second step fails with the store's error of the first step.
\<close>

theorem invalid_specification_counterexample:
  "consolidate_to_terra_table sample_env no_index_spec ''consolidated'' initial_state =
     Some (Inr (), initial_state\<lparr>logged := [ErrorMissingFinalIndex]\<rparr>)
   \<and> map_option fst
        (consolidate_to_terra_table sample_env broken_spec ''consolidated'' initial_state) =
       Some (Inl (FireCloudServiceException 404))"
proof -
  have a: "consolidate_to_terra_table sample_env no_index_spec ''consolidated'' initial_state =
     Some (Inr (), initial_state\<lparr>logged := [ErrorMissingFinalIndex]\<rparr>)"
    by (simp add: consolidate_to_terra_table_def no_index_spec_def initial_state_def)
  have n: "note_existing_table sample_env ''consolidated'' initial_state =
     (Inr (), initial_state\<lparr>data_table_info := Some sample_listing,
                     data_table_names := Some [''subject'', ''sample'', ''lab_result'']\<rparr>)"
    by (simp add: note_existing_table_def sample_env_names_initial)
  have c: "fst (consolidate_to_df sample_env broken_spec st) = Inl (FireCloudServiceException 404)"
    for st
    by (simp add: consolidate_to_df_def broken_spec_def absent_seed_step_def Let_def
        consolidate_tables_to_df_def get_gen3_terra_table_to_df_def sample_env_fetch_missing)
  let ?st1 = "initial_state\<lparr>data_table_info := Some sample_listing,
                     data_table_names := Some [''subject'', ''sample'', ''lab_result'']\<rparr>"
  obtain st2 where r: "consolidate_to_df sample_env broken_spec ?st1 =
      (Inl (FireCloudServiceException 404), st2)"
    using c[of ?st1] by (cases "consolidate_to_df sample_env broken_spec ?st1") simp
  have fi: "final_index_source_column broken_spec = Some ''subject_entity_id''"
    by (simp add: broken_spec_def)
  have b: "map_option fst
        (consolidate_to_terra_table sample_env broken_spec ''consolidated'' initial_state) =
       Some (Inl (FireCloudServiceException 404))"
    by (simp add: consolidate_to_terra_table_def fi n r)
  show ?thesis using a b by simp
qed

subsection \<open>Effects of the join engine on the state\<close>

lemma refresh_log: "refresh env (st\<lparr>logged := l\<rparr>) = (case refresh env st of (r, st') \<Rightarrow> (r, st'\<lparr>logged := l\<rparr>))"
  by (simp add: refresh_def split: sum.splits prod.splits)

lemma refresh_frame: "refresh env st = (r, st') \<Longrightarrow> logged st' = logged st \<and> writes st' = writes st"
  by (auto simp: refresh_def split: sum.splits prod.splits if_splits)

lemma get_table_names_log:
  "get_table_names env b (st\<lparr>logged := l\<rparr>) =
     (case get_table_names env b st of (r, st') \<Rightarrow> (r, st'\<lparr>logged := l\<rparr>))"
  by (simp add: get_table_names_def refresh_log split: sum.splits prod.splits option.splits)

lemma get_table_names_frame:
  assumes "get_table_names env b st = (r, st')"
  shows "logged st' = logged st \<and> writes st' = writes st"
proof (cases "unset_or_empty (data_table_names st) \<or> b")
  case True
  obtain r1 st1 where r1: "refresh env st = (r1, st1)" by (cases "refresh env st")
  have "st' = st1" using assms True r1
    by (auto simp: get_table_names_def split: sum.splits option.splits)
  then show ?thesis using refresh_frame[OF r1] by simp
next
  case False
  then have "st' = st" using assms
    by (auto simp: get_table_names_def split: sum.splits option.splits)
  then show ?thesis by simp
qed

lemma get_table_names_settles:
  assumes "get_table_names env False st = (Inr names, st1)"
  shows "get_table_names env False st1 = (Inr names, st1)"
proof (cases "unset_or_empty (data_table_names st)")
  case False
  then have "st1 = st" using assms
    by (auto simp: get_table_names_def split: sum.splits option.splits)
  then show ?thesis using assms by simp
next
  case True
  then have r: "refresh env st = (Inr (), st1)" and n: "data_table_names st1 = Some names"
    using assms
    by (auto simp: get_table_names_def split: sum.splits option.splits prod.splits)
  from r obtain info where i: "list_entity_types env (writes st) = Inr (200, info)"
    and s: "st1 = st\<lparr>data_table_info := Some info, data_table_names := Some (map fst info)\<rparr>"
    by (auto simp: refresh_def split: sum.splits prod.splits if_splits)
  have "refresh env st1 = (Inr (), st1)" using i s by (simp add: refresh_def)
  then show ?thesis using n by (simp add: get_table_names_def)
qed

lemma fetch_effect:
  "\<exists>r ws. \<forall>st. get_gen3_terra_table_to_df env t st =
              (r, st\<lparr>logged := logged st @ map InfoRetrying ws\<rparr>)"
proof -
  obtain r ws where "retry_call (\<lambda>e. True) 3 (\<lambda>n. wait_exponential 1 2 10 (exponent env n))
             (fetch_attempt env t) 1 = (r, ws)"
    by (cases "retry_call (\<lambda>e. True) 3 (\<lambda>n. wait_exponential 1 2 10 (exponent env n))
             (fetch_attempt env t) 1")
  then have "\<forall>st. get_gen3_terra_table_to_df env t st =
      ((case r of Inl e \<Rightarrow> Inl e | Inr df \<Rightarrow> Inr (gen3_rename t df)),
       st\<lparr>logged := logged st @ map InfoRetrying ws\<rparr>)"
    by (simp add: get_gen3_terra_table_to_df_def get_terra_table_to_df_def split: sum.splits)
  then show ?thesis by blast
qed

lemma dedup_effect:
  "\<exists>r evs. (\<forall>st. deduplicate_merge_data mo c n k st = (r, st\<lparr>logged := logged st @ evs\<rparr>))
     \<and> (\<forall>e\<in>set evs. \<exists>j x. e = WarnRemovedDuplicates j n k x)
     \<and> (\<forall>m c'. r = Inr (m, c') \<longrightarrow> (m = None \<longleftrightarrow> mo = None))"
proof -
  let ?r = "fst (deduplicate_merge_data mo c n k initial_state)"
  let ?evs = "logged (snd (deduplicate_merge_data mo c n k initial_state))"
  have a: "\<forall>st. deduplicate_merge_data mo c n k st = (?r, st\<lparr>logged := logged st @ ?evs\<rparr>)"
    by (simp add: deduplicate_merge_data_def Let_def initial_state_def
        split: sum.splits option.splits)
  have b: "\<forall>e\<in>set ?evs. \<exists>j x. e = WarnRemovedDuplicates j n k x"
    by (simp add: deduplicate_merge_data_def Let_def initial_state_def
        split: sum.splits option.splits)
  have c: "\<forall>m c'. ?r = Inr (m, c') \<longrightarrow> (m = None \<longleftrightarrow> mo = None)"
    by (auto simp: deduplicate_merge_data_def Let_def initial_state_def
        split: sum.splits option.splits if_splits)
  show ?thesis using a b c by blast
qed

lemma join_table_absent:
  assumes "get_table_names env False st = (Inr names, st1)" "t \<notin> set names"
  shows "join_table env t mp m st = (Inr m, st1\<lparr>logged := logged st1 @ [InfoTableIgnored t]\<rparr>)"
  using assms by (simp add: join_table_def)

lemma join_table_names_error:
  assumes "get_table_names env False st = (Inl e, st1)"
  shows "join_table env t mp m st = (Inl e, st1)"
  using assms by (simp add: join_table_def)

lemma join_table_present:
  "\<exists>r evs.
     (\<forall>st names st1. get_table_names env False st = (Inr names, st1) \<and> t \<in> set names
        \<longrightarrow> join_table env t mp m st = (r, st1\<lparr>logged := logged st1 @ evs\<rparr>))
   \<and> (\<forall>e\<in>set evs. (\<exists>n. e = InfoRetrying n) \<or> (\<exists>a b c d. e = InfoMerged t a b c d)
          \<or> (t = ''sample'' \<and> (\<exists>j x. e = WarnRemovedDuplicates j ''sample''
                                          (get_entity_id_column_name ''subject'') x)))"
proof -
  obtain fr ws where F: "\<And>st. get_gen3_terra_table_to_df env t st =
              (fr, st\<lparr>logged := logged st @ map InfoRetrying ws\<rparr>)"
    using fetch_effect[of env t] by blast
  show ?thesis
  proof (cases fr)
    case (Inl e)
    have "\<forall>st names st1. get_table_names env False st = (Inr names, st1) \<and> t \<in> set names
        \<longrightarrow> join_table env t mp m st = (Inl e, st1\<lparr>logged := logged st1 @ map InfoRetrying ws\<rparr>)"
      by (simp add: join_table_def F Inl)
    then show ?thesis by (intro exI[of _ "Inl e"] exI[of _ "map InfoRetrying ws"]) auto
  next
    case (Inr cur)
    obtain dr devs where D: "\<And>st. (if t = ''sample''
                        then deduplicate_merge_data (Some m) cur ''sample''
                               (get_entity_id_column_name ''subject'') st
                        else (Inr (Some m, cur), st)) = (dr, st\<lparr>logged := logged st @ devs\<rparr>)"
      and Dev: "\<forall>e\<in>set devs. t = ''sample'' \<and> (\<exists>j x. e = WarnRemovedDuplicates j ''sample''
                                          (get_entity_id_column_name ''subject'') x)"
    proof (cases "t = ''sample''")
      case True
      from dedup_effect[of "Some m" cur "''sample''" "get_entity_id_column_name ''subject''"]
      obtain r evs where "\<forall>st. deduplicate_merge_data (Some m) cur ''sample''
                               (get_entity_id_column_name ''subject'') st = (r, st\<lparr>logged := logged st @ evs\<rparr>)"
        "\<forall>e\<in>set evs. \<exists>j x. e = WarnRemovedDuplicates j ''sample'' (get_entity_id_column_name ''subject'') x"
        by blast
      then show ?thesis using True that[of r evs] by simp
    next
      case False
      then show ?thesis using that[of "Inr (Some m, cur)" "[]"] by simp
    qed
    let ?tail = "case dr of
                    Inl e \<Rightarrow> (Inl e, [])
                  | Inr (merged_opt, current_df') \<Rightarrow>
                      (case mp ''on'' of
                         None \<Rightarrow> (Inl (KeyError ''on''), [])
                       | Some on_value \<Rightarrow>
                           (case mp ''how'' of
                              None \<Rightarrow> (Inl (KeyError ''how''), [])
                            | Some how_value \<Rightarrow>
                                (case merge env
                                        (case merged_opt of None \<Rightarrow> m | Some m' \<Rightarrow> m')
                                        current_df' mp of
                                   Inl e \<Rightarrow> (Inl e, [])
                                 | Inr joined \<Rightarrow>
                                     (Inr (drop_duplicate_columns joined),
                                      [InfoMerged t on_value how_value
                                                (length (rows (drop_duplicate_columns joined)))
                                                (length (columns (drop_duplicate_columns joined)))]))))"
    have run: "\<forall>st names st1. get_table_names env False st = (Inr names, st1) \<and> t \<in> set names
        \<longrightarrow> join_table env t mp m st =
              (fst ?tail, st1\<lparr>logged := logged st1 @ (map InfoRetrying ws @ devs @ snd ?tail)\<rparr>)"
      unfolding join_table_def
      by (simp add: F Inr D Let_def split: sum.splits option.splits prod.splits)
    have ev: "\<forall>e\<in>set (map InfoRetrying ws @ devs @ snd ?tail).
          (\<exists>n. e = InfoRetrying n) \<or> (\<exists>a b c d. e = InfoMerged t a b c d)
          \<or> (t = ''sample'' \<and> (\<exists>j x. e = WarnRemovedDuplicates j ''sample''
                                          (get_entity_id_column_name ''subject'') x))"
      using Dev by (auto split: sum.splits option.splits prod.splits)
    show ?thesis
      by (intro exI[of _ "fst ?tail"] exI[of _ "map InfoRetrying ws @ devs @ snd ?tail"] conjI run ev)
  qed
qed

lemma join_table_log:
  assumes "join_table env t mp m st = (r, st')"
  shows "writes st' = writes st \<and> (\<exists>evs. logged st' = logged st @ evs
     \<and> (\<forall>e\<in>set evs. \<not> is_row_count_warning e
            \<and> (is_duplicate_warning e \<longrightarrow> t = ''sample''
                 \<and> (\<exists>j x. e = WarnRemovedDuplicates j ''sample'' ''subject_entity_id'' x))))"
proof -
  obtain rn st1 where n: "get_table_names env False st = (rn, st1)"
    by (cases "get_table_names env False st")
  have fr: "logged st1 = logged st" "writes st1 = writes st"
    using get_table_names_frame[OF n] by simp_all
  show ?thesis
  proof (cases rn)
    case (Inl e)
    then have "st' = st1" using join_table_names_error[of env st e st1 t mp m] n assms by simp
    then show ?thesis using fr by simp
  next
    case (Inr names)
    show ?thesis
    proof (cases "t \<in> set names")
      case False
      then have "st' = st1\<lparr>logged := logged st1 @ [InfoTableIgnored t]\<rparr>"
        using join_table_absent[of env st names st1 t mp m] n Inr assms by simp
      then show ?thesis using fr
        by (simp add: is_row_count_warning_def is_duplicate_warning_def)
    next
      case True
      from join_table_present[of env t mp m] obtain r' evs where
        run: "join_table env t mp m st = (r', st1\<lparr>logged := logged st1 @ evs\<rparr>)"
        and ev: "\<forall>e\<in>set evs. (\<exists>n. e = InfoRetrying n) \<or> (\<exists>a b c d. e = InfoMerged t a b c d)
          \<or> (t = ''sample'' \<and> (\<exists>j x. e = WarnRemovedDuplicates j ''sample''
                                          (get_entity_id_column_name ''subject'') x))"
        using n Inr True by blast
      have st': "st' = st1\<lparr>logged := logged st1 @ evs\<rparr>" using run assms by simp
      have k: "get_entity_id_column_name ''subject'' = ''subject_entity_id''"
        by (simp add: get_entity_id_column_name_def)
      have E: "\<forall>e\<in>set evs. \<not> is_row_count_warning e
            \<and> (is_duplicate_warning e \<longrightarrow> t = ''sample''
                 \<and> (\<exists>j x. e = WarnRemovedDuplicates j ''sample'' ''subject_entity_id'' x))"
      proof
        fix e assume "e \<in> set evs"
        with ev have d: "(\<exists>n. e = InfoRetrying n) \<or> (\<exists>a b c d. e = InfoMerged t a b c d)
          \<or> (t = ''sample'' \<and> (\<exists>j x. e = WarnRemovedDuplicates j ''sample''
                                          (get_entity_id_column_name ''subject'') x))"
          by (rule bspec)
        then show "\<not> is_row_count_warning e
            \<and> (is_duplicate_warning e \<longrightarrow> t = ''sample''
                 \<and> (\<exists>j x. e = WarnRemovedDuplicates j ''sample'' ''subject_entity_id'' x))"
        proof (elim disjE exE conjE)
          fix n assume "e = InfoRetrying n"
          then show ?thesis by (simp add: is_row_count_warning_def is_duplicate_warning_def)
        next
          fix a b c d assume "e = InfoMerged t a b c d"
          then show ?thesis by (simp add: is_row_count_warning_def is_duplicate_warning_def)
        next
          fix j x assume "t = ''sample''" "e = WarnRemovedDuplicates j ''sample''
                                          (get_entity_id_column_name ''subject'') x"
          then show ?thesis unfolding k by (simp add: is_row_count_warning_def)
        qed
      qed
      have W: "writes st' = writes st" using st' fr by simp
      have L: "logged st' = logged st @ evs" using st' fr by simp
      show ?thesis
        apply (rule conjI[OF W])
        apply (rule exI[of _ evs])
        apply (rule conjI[OF L E])
        done
    qed
  qed
qed

lemma join_tables_log:
  assumes "join_tables env ts mp m st = (r, st')"
  shows "writes st' = writes st \<and> (\<exists>evs. logged st' = logged st @ evs
     \<and> (\<forall>e\<in>set evs. \<not> is_row_count_warning e
            \<and> (is_duplicate_warning e \<longrightarrow> ''sample'' \<in> set ts
                 \<and> (\<exists>j x. e = WarnRemovedDuplicates j ''sample'' ''subject_entity_id'' x))))"
  using assms
proof (induction ts arbitrary: m st)
  case Nil
  then show ?case by simp
next
  case (Cons t ts)
  obtain r1 s1 where j: "join_table env t mp m st = (r1, s1)" by (cases "join_table env t mp m st")
  from join_table_log[OF j] obtain evs1 where
    w1: "writes s1 = writes st" and l1: "logged s1 = logged st @ evs1"
    and e1: "\<forall>e\<in>set evs1. \<not> is_row_count_warning e
            \<and> (is_duplicate_warning e \<longrightarrow> t = ''sample''
                 \<and> (\<exists>j x. e = WarnRemovedDuplicates j ''sample'' ''subject_entity_id'' x))"
    by blast
  show ?case
  proof (cases r1)
    case (Inl e)
    then have "st' = s1" using Cons.prems j by simp
    then show ?thesis using w1 l1 e1 by auto
  next
    case (Inr m1)
    then have "join_tables env ts mp m1 s1 = (r, st')" using Cons.prems j by simp
    from Cons.IH[OF this] obtain evs2 where
      w2: "writes st' = writes s1" and l2: "logged st' = logged s1 @ evs2"
      and e2: "\<forall>e\<in>set evs2. \<not> is_row_count_warning e
            \<and> (is_duplicate_warning e \<longrightarrow> ''sample'' \<in> set ts
                 \<and> (\<exists>j x. e = WarnRemovedDuplicates j ''sample'' ''subject_entity_id'' x))"
      by blast
    have W: "writes st' = writes st" using w1 w2 by simp
    have L: "logged st' = logged st @ (evs1 @ evs2)" using l1 l2 by simp
    have E: "\<forall>e\<in>set (evs1 @ evs2). \<not> is_row_count_warning e
            \<and> (is_duplicate_warning e \<longrightarrow> ''sample'' \<in> set (t # ts)
                 \<and> (\<exists>j x. e = WarnRemovedDuplicates j ''sample'' ''subject_entity_id'' x))"
      using e1 e2 by auto
    show ?thesis
      apply (rule conjI[OF W])
      apply (rule exI[of _ "evs1 @ evs2"])
      apply (rule conjI[OF L E])
      done
  qed
qed

lemma consolidate_tables_to_df_log:
  assumes "consolidate_tables_to_df env ts mp init st = (r, st')"
  shows "writes st' = writes st \<and> (\<exists>evs. logged st' = logged st @ evs
     \<and> (\<forall>e\<in>set evs. \<not> is_row_count_warning e
            \<and> (is_duplicate_warning e \<longrightarrow> ''sample'' \<in> set ts
                 \<and> (\<exists>j x. e = WarnRemovedDuplicates j ''sample'' ''subject_entity_id'' x))))"
proof (cases init)
  case (Some df)
  show ?thesis
  proof (cases "1 \<le> length ts")
    case True
    then have "join_tables env ts mp df st = (r, st')"
      using assms Some by (simp add: consolidate_tables_to_df_def)
    from join_tables_log[OF this] show ?thesis .
  next
    case False
    then have "st' = st" using assms Some by (simp add: consolidate_tables_to_df_def)
    then show ?thesis by simp
  qed
next
  case None
  show ?thesis
  proof (cases "2 \<le> length ts")
    case False
    then have "st' = st" using assms None
      by (cases ts) (simp_all add: consolidate_tables_to_df_def)
    then show ?thesis by simp
  next
    case True
    then obtain t rest where ts: "ts = t # rest" by (cases ts) auto
    obtain fr ws where F: "\<And>s. get_gen3_terra_table_to_df env t s =
              (fr, s\<lparr>logged := logged s @ map InfoRetrying ws\<rparr>)"
      using fetch_effect[of env t] by blast
    show ?thesis
    proof (cases fr)
      case (Inl e)
      then have "st' = st\<lparr>logged := logged st @ map InfoRetrying ws\<rparr>"
        using assms None True ts by (simp add: consolidate_tables_to_df_def F)
      then show ?thesis
        by (auto simp: is_row_count_warning_def is_duplicate_warning_def)
    next
      case (Inr first_df)
      obtain dr devs where D: "\<And>s. (if t = ''sample''
                        then deduplicate_merge_data None first_df ''sample''
                               (get_entity_id_column_name ''subject'') s
                        else (Inr (None, first_df), s)) = (dr, s\<lparr>logged := logged s @ devs\<rparr>)"
        and Dev: "\<forall>e\<in>set devs. t = ''sample'' \<and> (\<exists>j x. e = WarnRemovedDuplicates j ''sample''
                                          (get_entity_id_column_name ''subject'') x)"
      proof (cases "t = ''sample''")
        case True
        from dedup_effect[of None first_df "''sample''" "get_entity_id_column_name ''subject''"]
        obtain r evs where "\<forall>s. deduplicate_merge_data None first_df ''sample''
                               (get_entity_id_column_name ''subject'') s = (r, s\<lparr>logged := logged s @ evs\<rparr>)"
          "\<forall>e\<in>set evs. \<exists>j x. e = WarnRemovedDuplicates j ''sample'' (get_entity_id_column_name ''subject'') x"
          by blast
        then show ?thesis using True that[of r evs] by simp
      next
        case False
        then show ?thesis using that[of "Inr (None, first_df)" "[]"] by simp
      qed
      let ?s2 = "st\<lparr>logged := logged st @ map InfoRetrying ws @ devs\<rparr>"
      have pre: "\<forall>e\<in>set (map InfoRetrying ws @ devs). \<not> is_row_count_warning e
            \<and> (is_duplicate_warning e \<longrightarrow> ''sample'' \<in> set ts
                 \<and> (\<exists>j x. e = WarnRemovedDuplicates j ''sample'' ''subject_entity_id'' x))"
        using Dev ts
        by (auto simp: is_row_count_warning_def is_duplicate_warning_def
            get_entity_id_column_name_def)
      show ?thesis
      proof (cases dr)
        case (Inl e)
        then have "st' = ?s2"
          using assms None True ts Inr by (simp add: consolidate_tables_to_df_def F D)
        then show ?thesis using pre by auto
      next
        case (Inr p)
        obtain mo first_df' where p: "p = (mo, first_df')" by (cases p)
        have "join_tables env rest mp first_df' ?s2 = (r, st')"
          using assms None True ts \<open>fr = Inr first_df\<close> Inr p
          by (simp add: consolidate_tables_to_df_def F D)
        from join_tables_log[OF this] obtain evs2 where
          w2: "writes st' = writes ?s2" and l2: "logged st' = logged ?s2 @ evs2"
          and e2: "\<forall>e\<in>set evs2. \<not> is_row_count_warning e
            \<and> (is_duplicate_warning e \<longrightarrow> ''sample'' \<in> set rest
                 \<and> (\<exists>j x. e = WarnRemovedDuplicates j ''sample'' ''subject_entity_id'' x))"
          by blast
        have W: "writes st' = writes st" using w2 by simp
        have L: "logged st' = logged st @ ((map InfoRetrying ws @ devs) @ evs2)" using l2 by simp
        have E: "\<forall>e\<in>set ((map InfoRetrying ws @ devs) @ evs2). \<not> is_row_count_warning e
            \<and> (is_duplicate_warning e \<longrightarrow> ''sample'' \<in> set ts
                 \<and> (\<exists>j x. e = WarnRemovedDuplicates j ''sample'' ''subject_entity_id'' x))"
          using pre e2 ts by auto
        show ?thesis
          apply (rule conjI[OF W])
          apply (rule exI[of _ "(map InfoRetrying ws @ devs) @ evs2"])
          apply (rule conjI[OF L E])
          done
      qed
    qed
  qed
qed

lemma settled_log:
  assumes "get_table_names env False st = (Inr names, st)"
  shows "get_table_names env False (st\<lparr>logged := l\<rparr>) = (Inr names, st\<lparr>logged := l\<rparr>)"
  using assms by (simp add: get_table_names_log)

lemma join_table_settled:
  assumes S: "get_table_names env False st = (Inr names, st)"
  shows "\<exists>r evs. \<forall>l. join_table env t mp m (st\<lparr>logged := l\<rparr>) = (r, st\<lparr>logged := l @ evs\<rparr>)"
proof (cases "t \<in> set names")
  case False
  have "\<forall>l. join_table env t mp m (st\<lparr>logged := l\<rparr>)
          = (Inr m, st\<lparr>logged := l @ [InfoTableIgnored t]\<rparr>)"
    using join_table_absent[OF settled_log[OF S] False] by simp
  then show ?thesis by (intro exI)
next
  case True
  from join_table_present[of env t mp m] obtain r evs where
    run: "\<forall>st names st1. get_table_names env False st = (Inr names, st1) \<and> t \<in> set names
        \<longrightarrow> join_table env t mp m st = (r, st1\<lparr>logged := logged st1 @ evs\<rparr>)"
    by (elim exE conjE)
  have "\<forall>l. join_table env t mp m (st\<lparr>logged := l\<rparr>) = (r, st\<lparr>logged := l @ evs\<rparr>)"
  proof
    fix l
    have "join_table env t mp m (st\<lparr>logged := l\<rparr>)
            = (r, (st\<lparr>logged := l\<rparr>)\<lparr>logged := logged (st\<lparr>logged := l\<rparr>) @ evs\<rparr>)"
      using run settled_log[OF S, of l] True by (elim allE impE) (rule conjI, assumption+)
    then show "join_table env t mp m (st\<lparr>logged := l\<rparr>) = (r, st\<lparr>logged := l @ evs\<rparr>)"
      by simp
  qed
  then show ?thesis by (intro exI)
qed

lemma join_tables_settled:
  assumes S: "get_table_names env False st = (Inr names, st)"
  shows "\<exists>r evs. \<forall>l. join_tables env ts mp m (st\<lparr>logged := l\<rparr>) = (r, st\<lparr>logged := l @ evs\<rparr>)"
proof (induction ts arbitrary: m)
  case Nil
  have "\<forall>l. join_tables env [] mp m (st\<lparr>logged := l\<rparr>) = (Inr m, st\<lparr>logged := l @ []\<rparr>)"
    by simp
  then show ?case by (intro exI)
next
  case (Cons t ts)
  from join_table_settled[OF S, of t mp m] obtain r1 evs1 where
    j: "\<And>l. join_table env t mp m (st\<lparr>logged := l\<rparr>) = (r1, st\<lparr>logged := l @ evs1\<rparr>)"
    by (elim exE) simp
  show ?case
  proof (cases r1)
    case (Inl e)
    have "\<forall>l. join_tables env (t # ts) mp m (st\<lparr>logged := l\<rparr>) = (Inl e, st\<lparr>logged := l @ evs1\<rparr>)"
      by (simp add: j Inl)
    then show ?thesis by (intro exI)
  next
    case (Inr m1)
    from Cons.IH[of m1] obtain r2 evs2 where
      IH: "\<And>l. join_tables env ts mp m1 (st\<lparr>logged := l\<rparr>) = (r2, st\<lparr>logged := l @ evs2\<rparr>)"
      by (elim exE) simp
    have "\<forall>l. join_tables env (t # ts) mp m (st\<lparr>logged := l\<rparr>)
            = (r2, st\<lparr>logged := l @ (evs1 @ evs2)\<rparr>)"
      by (simp add: j Inr IH)
    then show ?thesis by (intro exI)
  qed
qed

lemma join_tables_settled_fst:
  assumes S: "get_table_names env False st = (Inr names, st)"
  shows "fst (join_tables env ts mp m (st\<lparr>logged := l\<rparr>)) = fst (join_tables env ts mp m st)"
proof -
  from join_tables_settled[OF S, of ts mp m] obtain r evs where
    a: "\<And>l. join_tables env ts mp m (st\<lparr>logged := l\<rparr>) = (r, st\<lparr>logged := l @ evs\<rparr>)"
    by (elim exE) simp
  have "fst (join_tables env ts mp m st) = r" using a[of "logged st"] by simp
  moreover have "fst (join_tables env ts mp m (st\<lparr>logged := l\<rparr>)) = r" using a by simp
  ultimately show ?thesis by simp
qed

lemma join_table_from_settled:
  assumes N: "get_table_names env False st = (Inr names, st1)"
  shows "join_table env t mp m st = join_table env t mp m st1"
proof -
  have S: "get_table_names env False st1 = (Inr names, st1)" using get_table_names_settles[OF N] .
  show ?thesis
  proof (cases "t \<in> set names")
    case False
    show ?thesis using join_table_absent[OF N False] join_table_absent[OF S False] by simp
  next
    case True
    from join_table_present[of env t mp m] obtain r evs where
      run: "\<forall>st names st1. get_table_names env False st = (Inr names, st1) \<and> t \<in> set names
        \<longrightarrow> join_table env t mp m st = (r, st1\<lparr>logged := logged st1 @ evs\<rparr>)"
      by (elim exE conjE)
    have a: "join_table env t mp m st = (r, st1\<lparr>logged := logged st1 @ evs\<rparr>)"
      using run N True by (elim allE impE) (rule conjI, assumption+)
    have b: "join_table env t mp m st1 = (r, st1\<lparr>logged := logged st1 @ evs\<rparr>)"
      using run S True by (elim allE impE) (rule conjI, assumption+)
    show ?thesis using a b by simp
  qed
qed

lemma join_tables_from_settled:
  assumes N: "get_table_names env False st = (Inr names, st1)" and "ts \<noteq> []"
  shows "join_tables env ts mp m st = join_tables env ts mp m st1"
  using assms(2) by (cases ts) (simp_all add: join_table_from_settled[OF N])

subsection \<open>Skipping tables the registry does not list\<close>

lemma skip_settled:
  assumes S: "get_table_names env False st = (Inr names, st)" and A: "t \<notin> set names"
  shows "fst (join_tables env (pre @ t # post) mp m (st\<lparr>logged := l\<rparr>))
           = fst (join_tables env (pre @ post) mp m (st\<lparr>logged := l\<rparr>))"
proof (induction pre arbitrary: m l)
  case Nil
  have "join_table env t mp m (st\<lparr>logged := l\<rparr>)
          = (Inr m, st\<lparr>logged := l @ [InfoTableIgnored t]\<rparr>)"
    using join_table_absent[OF settled_log[OF S] A] by simp
  then have "fst (join_tables env (t # post) mp m (st\<lparr>logged := l\<rparr>))
          = fst (join_tables env post mp m (st\<lparr>logged := l @ [InfoTableIgnored t]\<rparr>))"
    by simp
  also have "\<dots> = fst (join_tables env post mp m st)"
    using join_tables_settled_fst[OF S] .
  also have "\<dots> = fst (join_tables env post mp m (st\<lparr>logged := l\<rparr>))"
    using join_tables_settled_fst[OF S, symmetric] .
  finally show ?case by simp
next
  case (Cons p ps)
  from join_table_settled[OF S, of p mp m] obtain r1 evs1 where
    j: "\<And>l. join_table env p mp m (st\<lparr>logged := l\<rparr>) = (r1, st\<lparr>logged := l @ evs1\<rparr>)"
    by (elim exE) simp
  show ?case
  proof (cases r1)
    case (Inl e)
    then show ?thesis by (simp add: j)
  next
    case (Inr m1)
    then show ?thesis using Cons.IH[of m1 "l @ evs1"] by (simp add: j)
  qed
qed

lemma skip_general:
  assumes N: "get_table_names env False st = (Inr names, st1)" and A: "t \<notin> set names"
  shows "fst (join_tables env (pre @ t # post) mp m st)
           = fst (join_tables env (pre @ post) mp m st)"
proof (cases "pre @ post = []")
  case True
  then show ?thesis using join_table_absent[OF N A] by simp
next
  case False
  have S: "get_table_names env False st1 = (Inr names, st1)" using get_table_names_settles[OF N] .
  have "fst (join_tables env (pre @ t # post) mp m st)
          = fst (join_tables env (pre @ t # post) mp m st1)"
    using join_tables_from_settled[OF N, of "pre @ t # post"] by simp
  also have "\<dots> = fst (join_tables env (pre @ post) mp m st1)"
    using skip_settled[OF S A, of pre post mp m "logged st1"] by simp
  also have "\<dots> = fst (join_tables env (pre @ post) mp m st)"
    using join_tables_from_settled[OF N False] by simp
  finally show ?thesis .
qed

lemma skip_with_accumulator:
  assumes N: "get_table_names env False st = (Inr names, st1)" and A: "t \<notin> set names"
    and ne: "pre @ post \<noteq> []"
  shows "fst (consolidate_tables_to_df env (pre @ t # post) mp (Some m) st)
           = fst (consolidate_tables_to_df env (pre @ post) mp (Some m) st)"
proof -
  have "1 \<le> length (pre @ post)" using ne by (cases "pre @ post") simp_all
  then show ?thesis using skip_general[OF N A]
    by (simp add: consolidate_tables_to_df_def)
qed

lemma skip_after_seed:
  assumes N: "get_table_names env False st = (Inr names, st1)" and A: "t \<notin> set names"
    and ne: "pre @ post \<noteq> []"
  shows "fst (consolidate_tables_to_df env (seed # pre @ t # post) mp None st)
           = fst (consolidate_tables_to_df env (seed # pre @ post) mp None st)"
proof -
  have len: "2 \<le> length (seed # pre @ post)" "2 \<le> length (seed # pre @ t # post)"
    using ne by (cases "pre @ post"; simp)+
  obtain fr ws where F: "\<And>s. get_gen3_terra_table_to_df env seed s =
              (fr, s\<lparr>logged := logged s @ map InfoRetrying ws\<rparr>)"
    using fetch_effect[of env seed] by (elim exE) simp
  show ?thesis
  proof (cases fr)
    case (Inl e)
    then show ?thesis using len by (simp add: consolidate_tables_to_df_def F)
  next
    case (Inr first_df)
    let ?s1 = "st\<lparr>logged := logged st @ map InfoRetrying ws\<rparr>"
    obtain dr s2 where D: "(if seed = ''sample''
                             then deduplicate_merge_data None first_df ''sample''
                                    (get_entity_id_column_name ''subject'') ?s1
                             else (Inr (None, first_df), ?s1)) = (dr, s2)"
      by (cases "(if seed = ''sample''
                             then deduplicate_merge_data None first_df ''sample''
                                    (get_entity_id_column_name ''subject'') ?s1
                             else (Inr (None, first_df), ?s1))")
    have s2: "\<exists>l. s2 = st\<lparr>logged := l\<rparr>"
    proof (cases "seed = ''sample''")
      case True
      from dedup_effect[of None first_df "''sample''" "get_entity_id_column_name ''subject''"]
      obtain r evs where "\<forall>s. deduplicate_merge_data None first_df ''sample''
                               (get_entity_id_column_name ''subject'') s = (r, s\<lparr>logged := logged s @ evs\<rparr>)"
        by (elim exE conjE)
      then have "s2 = ?s1\<lparr>logged := logged ?s1 @ evs\<rparr>" using D True by simp
      then have "s2 = st\<lparr>logged := (logged st @ map InfoRetrying ws) @ evs\<rparr>" by simp
      then show ?thesis by (rule exI)
    next
      case False
      then have "s2 = ?s1" using D by simp
      then show ?thesis by (rule exI)
    qed
    then obtain l where l: "s2 = st\<lparr>logged := l\<rparr>" by (elim exE)
    have N2: "get_table_names env False s2 = (Inr names, st1\<lparr>logged := l\<rparr>)"
      using N by (simp add: l get_table_names_log)
    show ?thesis
    proof (cases dr)
      case (Inl e)
      then show ?thesis using len Inr D by (simp add: consolidate_tables_to_df_def F)
    next
      case (Inr p)
      obtain mo first_df' where p: "p = (mo, first_df')" by (cases p)
      have a: "consolidate_tables_to_df env (seed # pre @ t # post) mp None st
                 = join_tables env (pre @ t # post) mp first_df' s2"
        using len \<open>fr = Inr first_df\<close> D Inr p by (simp add: consolidate_tables_to_df_def F)
      have b: "consolidate_tables_to_df env (seed # pre @ post) mp None st
                 = join_tables env (pre @ post) mp first_df' s2"
        using len \<open>fr = Inr first_df\<close> D Inr p by (simp add: consolidate_tables_to_df_def F)
      show ?thesis unfolding a b using skip_general[OF N2 A] .
    qed
  qed
qed

lemma GEN3_subject: "''subject'' \<in> GEN3_TABLE_NAMES"
  by (simp add: GEN3_TABLE_NAMES_def)

lemma GEN3_not_columns:
  "''submitter_id'' \<notin> GEN3_TABLE_NAMES" "''value'' \<notin> GEN3_TABLE_NAMES"
  by (simp_all add: GEN3_TABLE_NAMES_def)

lemma rename_subject: "gen3_rename ''subject'' subject_table = renamed_subject_table"
  by (simp add: gen3_rename_def subject_table_def renamed_subject_table_def Let_def
      rename_column_def rename_step_def GEN3_not_columns
      drop_duplicate_columns_def loc_columns_def duplicated_def select_by_def)

lemma rename_lab_result: "gen3_rename ''lab_result'' lab_result_table = renamed_lab_result_table"
  by (simp add: gen3_rename_def lab_result_table_def renamed_lab_result_table_def Let_def
      rename_column_def rename_step_def GEN3_not_columns GEN3_subject
      drop_duplicate_columns_def loc_columns_def duplicated_def select_by_def)

lemma fetch_first_attempt:
  assumes "get_entities_tsv env t 1 = Inr (200, df)"
  shows "get_gen3_terra_table_to_df env t st = (Inr (gen3_rename t df), st)"
proof -
  have "fetch_attempt env t 1 = Inr df" using assms by (simp add: fetch_attempt_def)
  then show ?thesis
    by (simp add: get_gen3_terra_table_to_df_def get_terra_table_to_df_def retry_call_success)
qed

lemma sample_fetch_subject:
  "get_gen3_terra_table_to_df sample_env ''subject'' st = (Inr renamed_subject_table, st)"
  using fetch_first_attempt[of sample_env "''subject''" subject_table st]
  by (simp add: sample_env_def rename_subject)

lemma sample_fetch_lab_result:
  "get_gen3_terra_table_to_df sample_env ''lab_result'' st = (Inr renamed_lab_result_table, st)"
  using fetch_first_attempt[of sample_env "''lab_result''" lab_result_table st]
  by (simp add: sample_env_def rename_lab_result)

lemma subject_left_params_on: "subject_left_params ''on'' = Some (PyStr ''subject_entity_id'')"
  by (simp add: subject_left_params_def substitute_entity_id_column_name_def substitute_key_def
      create_combined_merge_parameters_def Let_def left_step_def map_add_def
      spec_default_merge_parameters_def custom_spec_def
      standard_pandas_default_parameters_def truthy_def py_str_def get_entity_id_column_name_def)

lemma subject_left_params_how: "subject_left_params ''how'' = Some (PyStr ''left'')"
  by (simp add: subject_left_params_def substitute_keeps_how combined_how left_step_def)

lemma merge_subject_lab_result:
  "merge_on_key renamed_subject_table renamed_lab_result_table subject_left_params
     = Inr subject_lab_results"
  by (simp add: merge_on_key_def subject_left_params_on subject_left_params_how
      renamed_subject_table_def renamed_lab_result_table_def subject_lab_results_def
      Let_def without_at_def cell_at_def)

lemma drop_duplicate_columns_subject_lab_results:
  "drop_duplicate_columns subject_lab_results = subject_lab_results"
  by (simp add: subject_lab_results_def drop_duplicate_columns_def loc_columns_def
      duplicated_def select_by_def)

lemma sample_env_merge: "merge sample_env = merge_on_key"
  by (simp add: sample_env_def)

lemma sample_join_lab_result:
  assumes "get_table_names sample_env False st = (Inr names, st1)" "''lab_result'' \<in> set names"
  shows "join_table sample_env ''lab_result'' subject_left_params renamed_subject_table st =
           (Inr subject_lab_results,
            st1\<lparr>logged := logged st1 @
               [InfoMerged ''lab_result'' (PyStr ''subject_entity_id'') (PyStr ''left'') 3 4]\<rparr>)"
proof -
  have l: "length (rows subject_lab_results) = 3" "length (columns subject_lab_results) = 4"
    by (simp_all add: subject_lab_results_def)
  show ?thesis
    using assms
    by (simp add: join_table_def sample_fetch_lab_result subject_left_params_on
        subject_left_params_how sample_env_merge merge_subject_lab_result
        drop_duplicate_columns_subject_lab_results l)
qed

lemma sample_subject_lab_results:
  "fst (consolidate_tables_to_df sample_env [''subject'', ''lab_result''] subject_left_params
          None initial_state) = Inr subject_lab_results"
  using sample_join_lab_result[OF sample_env_names_initial]
  by (simp add: consolidate_tables_to_df_def sample_fetch_subject)

text \<open>
  C5 (as amended). A table name the registry does not list (the cached list of table
  names, loaded from the store when the cache is empty) is skipped by the loop over the
  tables to join: nothing is fetched or raised for it, the accumulator is unchanged and
  the skip is logged. A step gives the same accumulator, or the same failure, as the step
  without that name, provided the name is not the seed of a first step and the shortened
  step still names a table to join.
\<close>

theorem skip_absent_table:
  assumes "get_table_names env False st = (Inr names, st1)" and "t \<notin> set names"
  shows "join_table env t mp m st =
           (Inr m, st1\<lparr>logged := logged st1 @ [InfoTableIgnored t]\<rparr>)
       \<and> fst (join_tables env (pre @ t # post) mp m st)
           = fst (join_tables env (pre @ post) mp m st)
       \<and> (pre @ post \<noteq> []
          \<longrightarrow> fst (consolidate_tables_to_df env (pre @ t # post) mp (Some m) st)
              = fst (consolidate_tables_to_df env (pre @ post) mp (Some m) st))
       \<and> (pre @ post \<noteq> []
          \<longrightarrow> fst (consolidate_tables_to_df env (seed # pre @ t # post) mp None st)
              = fst (consolidate_tables_to_df env (seed # pre @ post) mp None st))"
proof -
  note a = join_table_absent[OF assms, of mp m]
  note b = skip_general[OF assms, of pre post mp m]
  have c: "pre @ post \<noteq> []
          \<longrightarrow> fst (consolidate_tables_to_df env (pre @ t # post) mp (Some m) st)
              = fst (consolidate_tables_to_df env (pre @ post) mp (Some m) st)"
    using skip_with_accumulator[OF assms] by (rule impI)
  have d: "pre @ post \<noteq> []
          \<longrightarrow> fst (consolidate_tables_to_df env (seed # pre @ t # post) mp None st)
              = fst (consolidate_tables_to_df env (seed # pre @ post) mp None st)"
    using skip_after_seed[OF assms] by (rule impI)
  show ?thesis by (rule conjI[OF a conjI[OF b conjI[OF c d]]])
qed

theorem skip_absent_table_witness:
  "get_table_names sample_env False initial_state =
     (Inr [''subject'', ''sample'', ''lab_result''],
      initial_state\<lparr>data_table_info := Some sample_listing,
                     data_table_names := Some [''subject'', ''sample'', ''lab_result'']\<rparr>)
   \<and> ''cardiac_mri'' \<notin> set [''subject'', ''sample'', ''lab_result'']
   \<and> fst (consolidate_tables_to_df sample_env [''subject'', ''cardiac_mri'', ''lab_result'']
            subject_left_params None initial_state) = Inr subject_lab_results
   \<and> fst (consolidate_tables_to_df sample_env [''subject'', ''lab_result'']
            subject_left_params None initial_state) = Inr subject_lab_results"
proof -
  have n: "''cardiac_mri'' \<notin> set [''subject'', ''sample'', ''lab_result'']" by simp
  note inst = skip_absent_table[OF sample_env_names_initial n, where pre="[]"
      and post="[''lab_result'']" and seed="''subject''" and mp=subject_left_params
      and m=renamed_subject_table]
  have "fst (consolidate_tables_to_df sample_env [''subject'', ''cardiac_mri'', ''lab_result'']
                 subject_left_params None initial_state)
              = fst (consolidate_tables_to_df sample_env [''subject'', ''lab_result'']
                 subject_left_params None initial_state)"
    using inst[THEN conjunct2, THEN conjunct2, THEN conjunct2] by simp
  then have e: "fst (consolidate_tables_to_df sample_env [''subject'', ''cardiac_mri'', ''lab_result'']
            subject_left_params None initial_state) = Inr subject_lab_results"
    using sample_subject_lab_results by simp
  show ?thesis
    by (rule conjI[OF sample_env_names_initial conjI[OF n conjI[OF e sample_subject_lab_results]]])
qed

text \<open>
  The claim as stated fails for the seed of a first step, which is fetched without asking
  the registry, and where the shortened step names too few tables.
\<close>

theorem skip_absent_table_counterexample:
  "fst (consolidate_tables_to_df sample_env [''cardiac_mri'', ''subject''] subject_left_params
          None initial_state) = Inl (FireCloudServiceException 404)
   \<and> fst (consolidate_tables_to_df sample_env [''cardiac_mri''] subject_left_params
          (Some renamed_subject_table) initial_state) = Inr renamed_subject_table
   \<and> fst (consolidate_tables_to_df sample_env [] subject_left_params
          (Some renamed_subject_table) initial_state)
       = Inl (AssertionError
                ''At least one table names is required to merge with previous data.'')"
proof -
  have a: "fst (consolidate_tables_to_df sample_env [''cardiac_mri'', ''subject'']
          subject_left_params None initial_state) = Inl (FireCloudServiceException 404)"
    by (simp add: consolidate_tables_to_df_def get_gen3_terra_table_to_df_def
        sample_env_fetch_missing)
  have n: "''cardiac_mri'' \<notin> set [''subject'', ''sample'', ''lab_result'']" by simp
  have b: "fst (consolidate_tables_to_df sample_env [''cardiac_mri''] subject_left_params
          (Some renamed_subject_table) initial_state) = Inr renamed_subject_table"
    using join_table_absent[OF sample_env_names_initial n, of subject_left_params renamed_subject_table]
    by (simp add: consolidate_tables_to_df_def)
  have c: "fst (consolidate_tables_to_df sample_env [] subject_left_params
          (Some renamed_subject_table) initial_state)
       = Inl (AssertionError
                ''At least one table names is required to merge with previous data.'')"
    by (simp add: consolidate_tables_to_df_def)
  show ?thesis by (rule conjI[OF a conjI[OF b c]])
qed

subsection \<open>Deduplication is for the sample table only\<close>

lemma join_table_plain_eq:
  "t \<noteq> ''sample'' \<Longrightarrow> join_table env t mp m st = join_table_plain env t mp m st"
  by (simp add: join_table_def join_table_plain_def Let_def
      split: prod.splits sum.splits option.splits)

lemma join_tables_plain_eq:
  "''sample'' \<notin> set ts \<Longrightarrow> join_tables env ts mp m st = join_tables_plain env ts mp m st"
proof (induction ts arbitrary: m st)
  case Nil
  then show ?case by simp
next
  case (Cons t ts)
  then have "t \<noteq> ''sample''" "''sample'' \<notin> set ts" by auto
  then show ?case using Cons.IH by (simp add: join_table_plain_eq split: prod.splits sum.splits)
qed

lemma consolidate_tables_plain_eq:
  assumes "''sample'' \<notin> set ts"
  shows "consolidate_tables_to_df env ts mp init st = consolidate_tables_plain env ts mp init st"
proof (cases init)
  case (Some df)
  then show ?thesis using assms
    by (simp add: consolidate_tables_to_df_def consolidate_tables_plain_def join_tables_plain_eq)
next
  case None
  show ?thesis
  proof (cases ts)
    case Nil
    then show ?thesis using None
      by (simp add: consolidate_tables_to_df_def consolidate_tables_plain_def)
  next
    case (Cons t rest)
    then have "t \<noteq> ''sample''" "''sample'' \<notin> set rest" using assms by auto
    then show ?thesis using None Cons
      by (simp add: consolidate_tables_to_df_def consolidate_tables_plain_def
          join_tables_plain_eq split: prod.splits sum.splits)
  qed
qed

lemma filter_no_duplicate_warnings:
  assumes "\<forall>e\<in>set evs. \<not> is_duplicate_warning e"
  shows "filter is_duplicate_warning (l @ evs) = filter is_duplicate_warning l"
  using assms by simp

text \<open>
  C10. Deduplication is applied to the table named \<^verbatim>\<open>sample\<close> only, with the dedup key
  \<^verbatim>\<open>subject_entity_id\<close>: a step that does not name \<^verbatim>\<open>sample\<close> runs as the step without any
  deduplication does, every other table joins as the loop without deduplication joins
  it, and such a step logs no duplicate-removal warning; a duplicate-removal warning that
  any step logs is for the table \<^verbatim>\<open>sample\<close> and the key \<^verbatim>\<open>subject_entity_id\<close>.
\<close>

theorem dedup_only_sample:
  "(''sample'' \<notin> set ts
      \<longrightarrow> consolidate_tables_to_df env ts mp init st = consolidate_tables_plain env ts mp init st
        \<and> filter is_duplicate_warning (logged (snd (consolidate_tables_to_df env ts mp init st)))
            = filter is_duplicate_warning (logged st))
   \<and> (t \<noteq> ''sample'' \<longrightarrow> join_table env t mp m st = join_table_plain env t mp m st)
   \<and> (\<exists>evs. logged (snd (consolidate_tables_to_df env ts mp init st)) = logged st @ evs
         \<and> (\<forall>e\<in>set evs. is_duplicate_warning e
               \<longrightarrow> ''sample'' \<in> set ts
                 \<and> (\<exists>j x. e = WarnRemovedDuplicates j ''sample'' ''subject_entity_id'' x)))"
proof -
  obtain r st' where run: "consolidate_tables_to_df env ts mp init st = (r, st')"
    by (cases "consolidate_tables_to_df env ts mp init st")
  from consolidate_tables_to_df_log[OF run] obtain evs where
    l: "logged st' = logged st @ evs"
    and e: "\<forall>e\<in>set evs. \<not> is_row_count_warning e
            \<and> (is_duplicate_warning e \<longrightarrow> ''sample'' \<in> set ts
                 \<and> (\<exists>j x. e = WarnRemovedDuplicates j ''sample'' ''subject_entity_id'' x))"
    by (elim conjE exE)
  have e': "\<forall>e\<in>set evs. is_duplicate_warning e \<longrightarrow> ''sample'' \<in> set ts
                 \<and> (\<exists>j x. e = WarnRemovedDuplicates j ''sample'' ''subject_entity_id'' x)"
    using e by (intro ballI) (drule (1) bspec, elim conjE)
  have c: "\<exists>evs. logged (snd (consolidate_tables_to_df env ts mp init st)) = logged st @ evs
         \<and> (\<forall>e\<in>set evs. is_duplicate_warning e
               \<longrightarrow> ''sample'' \<in> set ts
                 \<and> (\<exists>j x. e = WarnRemovedDuplicates j ''sample'' ''subject_entity_id'' x))"
    unfolding run
  proof (rule exI[of _ evs], rule conjI)
    show "logged (snd (r, st')) = logged st @ evs" using l by simp
    show "\<forall>e\<in>set evs. is_duplicate_warning e \<longrightarrow> ''sample'' \<in> set ts
                 \<and> (\<exists>j x. e = WarnRemovedDuplicates j ''sample'' ''subject_entity_id'' x)"
      by (rule e')
  qed
  have a: "''sample'' \<notin> set ts
      \<longrightarrow> consolidate_tables_to_df env ts mp init st = consolidate_tables_plain env ts mp init st
        \<and> filter is_duplicate_warning (logged (snd (consolidate_tables_to_df env ts mp init st)))
            = filter is_duplicate_warning (logged st)"
  proof
    assume n: "''sample'' \<notin> set ts"
    have "\<forall>e\<in>set evs. \<not> is_duplicate_warning e"
    proof
      fix e assume "e \<in> set evs"
      with e' have "is_duplicate_warning e \<longrightarrow> ''sample'' \<in> set ts
                 \<and> (\<exists>j x. e = WarnRemovedDuplicates j ''sample'' ''subject_entity_id'' x)"
        by (rule bspec)
      with n show "\<not> is_duplicate_warning e" by (elim contrapos_nn) simp
    qed
    then have "filter is_duplicate_warning (logged st')= filter is_duplicate_warning (logged st)"
      unfolding l by (rule filter_no_duplicate_warnings)
    then have f: "filter is_duplicate_warning (logged (snd (consolidate_tables_to_df env ts mp init st)))
            = filter is_duplicate_warning (logged st)"
      unfolding run by simp
    show "consolidate_tables_to_df env ts mp init st = consolidate_tables_plain env ts mp init st
        \<and> filter is_duplicate_warning (logged (snd (consolidate_tables_to_df env ts mp init st)))
            = filter is_duplicate_warning (logged st)"
      by (rule conjI[OF consolidate_tables_plain_eq[OF n] f])
  qed
  have b: "t \<noteq> ''sample'' \<longrightarrow> join_table env t mp m st = join_table_plain env t mp m st"
    using join_table_plain_eq by (rule impI)
  show ?thesis by (rule conjI[OF a conjI[OF b c]])
qed


theorem dedup_only_sample_witness:
  "''sample'' \<notin> set [''subject'', ''lab_result'']
   \<and> fst (consolidate_tables_to_df sample_env [''subject'', ''lab_result''] subject_left_params
            None initial_state) = Inr subject_lab_results
   \<and> fst (consolidate_tables_plain sample_env [''subject'', ''lab_result''] subject_left_params
            None initial_state) = Inr subject_lab_results
   \<and> filter is_duplicate_warning
        (logged (snd (consolidate_tables_to_df sample_env [''subject'', ''lab_result'']
                        subject_left_params None initial_state))) = []
   \<and> rows subject_lab_results =
        [[Str ''s1'', Str ''A'', Str ''l1'', Num 5],
         [Str ''s1'', Str ''A'', Str ''l2'', Num 6],
         [Str ''s2'', Str ''B'', Str ''l3'', Num 7]]"
proof -
  have n: "''sample'' \<notin> set [''subject'', ''lab_result'']" by simp
  note inst = dedup_only_sample[where ts="[''subject'', ''lab_result'']" and env=sample_env
      and mp=subject_left_params and init=None and st=initial_state, THEN conjunct1, THEN mp, OF n]
  have a: "fst (consolidate_tables_plain sample_env [''subject'', ''lab_result''] subject_left_params
            None initial_state) = Inr subject_lab_results"
    using inst[THEN conjunct1] sample_subject_lab_results by simp
  have b: "filter is_duplicate_warning
        (logged (snd (consolidate_tables_to_df sample_env [''subject'', ''lab_result'']
                        subject_left_params None initial_state))) = []"
    using inst[THEN conjunct2] by (simp add: initial_state_def)
  have c: "rows subject_lab_results =
        [[Str ''s1'', Str ''A'', Str ''l1'', Num 5],
         [Str ''s1'', Str ''A'', Str ''l2'', Num 6],
         [Str ''s2'', Str ''B'', Str ''l3'', Num 7]]"
    by (simp add: subject_lab_results_def)
  show ?thesis by (rule conjI[OF n conjI[OF sample_subject_lab_results conjI[OF a conjI[OF b c]]]])
qed

subsection \<open>Row-count warnings\<close>

lemma row_count_warnings_append:
  "row_count_warnings (xs @ ys) = row_count_warnings xs @ row_count_warnings ys"
  by (induction xs) (simp_all split: event.splits)

lemma row_count_warnings_none:
  "\<forall>e\<in>set evs. \<not> is_row_count_warning e \<Longrightarrow> row_count_warnings evs = []"
  by (induction evs) (auto simp: is_row_count_warning_def split: event.splits)

lemma step_no_row_count_warning:
  assumes "consolidate_tables_to_df env names mp init st = (r, st')"
  shows "row_count_warnings (logged st') = row_count_warnings (logged st)"
proof -
  from consolidate_tables_to_df_log[OF assms] obtain evs where
    l: "logged st' = logged st @ evs"
    and e: "\<forall>e\<in>set evs. \<not> is_row_count_warning e
            \<and> (is_duplicate_warning e \<longrightarrow> ''sample'' \<in> set names
                 \<and> (\<exists>j x. e = WarnRemovedDuplicates j ''sample'' ''subject_entity_id'' x))"
    by (elim conjE exE)
  have "\<forall>e\<in>set evs. \<not> is_row_count_warning e"
    using e by (intro ballI) (drule (1) bspec, elim conjE)
  then show ?thesis unfolding l by (simp add: row_count_warnings_append row_count_warnings_none)
qed

lemma consolidate_steps_Cons:
  assumes "table_names info = Some names"
    and "consolidate_tables_to_df env names
           (substitute_entity_id_column_name (create_combined_merge_parameters d info)) m st
         = (Inr df, st1)"
  shows "consolidate_steps env d (info # rest) m p st =
           consolidate_steps env d rest (Some df) (int (length (rows df)))
             (if p \<noteq> - 1 \<and> p < int (length (rows df))
              then st1\<lparr>logged := logged st1 @
                     [WarnRowCountIncreased (nat (int (length (rows df)) - p))]\<rparr>
              else st1)"
  using assms by (simp add: Let_def)

lemma consolidate_steps_success:
  assumes "consolidate_steps env d (info # rest) m p st = (Inr res, st')"
  obtains names df st1 where "table_names info = Some names"
    and "consolidate_tables_to_df env names
           (substitute_entity_id_column_name (create_combined_merge_parameters d info)) m st
         = (Inr df, st1)"
  using assms by (auto simp: Let_def split: option.splits sum.splits prod.splits)


lemma step_count_Suc:
  assumes "table_names info = Some names"
    and "consolidate_tables_to_df env names
           (substitute_entity_id_column_name (create_combined_merge_parameters d info)) m st
         = (Inr df, st1)"
    and "st2 = (if p \<noteq> - 1 \<and> p < int (length (rows df))
              then st1\<lparr>logged := logged st1 @
                     [WarnRowCountIncreased (nat (int (length (rows df)) - p))]\<rparr>
              else st1)"
  shows "step_count env d (info # rest) m p st (Suc k)
           = step_count env d rest (Some df) (int (length (rows df))) st2 k"
proof (cases k)
  case 0
  have "consolidate_steps env d [info] m p st = (Inr (Some df), st2)"
    using consolidate_steps_Cons[OF assms(1,2), of "[]" p] assms(3) by simp
  then show ?thesis using 0 by (simp add: step_count_def)
next
  case (Suc j)
  have "consolidate_steps env d (info # take k rest) m p st
          = consolidate_steps env d (take k rest) (Some df) (int (length (rows df))) st2"
    using consolidate_steps_Cons[OF assms(1,2), of "take k rest" p] assms(3) by simp
  then show ?thesis using Suc by (simp add: step_count_def)
qed

lemma steps_warnings:
  assumes "consolidate_steps env d steps m p st = (Inr res, st')"
  shows "row_count_warnings (logged st') =
           row_count_warnings (logged st) @
           concat (map (\<lambda>k. growth_warning (step_count env d steps m p st k)
                                (step_count env d steps m p st (Suc k)))
                     [0..<length steps])"
  using assms
proof (induction steps arbitrary: m p st)
  case Nil
  then show ?case by simp
next
  case (Cons info rest)
  from consolidate_steps_success[OF Cons.prems] obtain names df st1 where
    tn: "table_names info = Some names"
    and step: "consolidate_tables_to_df env names
           (substitute_entity_id_column_name (create_combined_merge_parameters d info)) m st
         = (Inr df, st1)"
    by blast
  define n where "n = int (length (rows df))"
  define st2 where "st2 = (if p \<noteq> - 1 \<and> p < int (length (rows df))
              then st1\<lparr>logged := logged st1 @
                     [WarnRowCountIncreased (nat (int (length (rows df)) - p))]\<rparr>
              else st1)"
  have run: "consolidate_steps env d rest (Some df) n st2 = (Inr res, st')"
    using consolidate_steps_Cons[OF tn step, of rest p] Cons.prems
    by (simp add: n_def st2_def)
  have l1: "row_count_warnings (logged st1) = row_count_warnings (logged st)"
    using step_no_row_count_warning[OF step] .
  have l2: "row_count_warnings (logged st2) = row_count_warnings (logged st) @ growth_warning p n"
    by (simp add: st2_def growth_warning_def n_def l1 row_count_warnings_append)
  have sc0: "step_count env d (info # rest) m p st 0 = p" by (simp add: step_count_def)
  have scS: "\<And>k. step_count env d (info # rest) m p st (Suc k) = step_count env d rest (Some df) n st2 k"
    unfolding n_def by (rule step_count_Suc[OF tn step st2_def])
  have sc1: "step_count env d rest (Some df) n st2 0 = n" by (simp add: step_count_def)
  have upt: "[0..<length (info # rest)] = 0 # map Suc [0..<length rest]"
    by (simp add: upt_conv_Cons map_Suc_upt del: upt_Suc)
  have "concat (map (\<lambda>k. growth_warning (step_count env d (info # rest) m p st k)
                                (step_count env d (info # rest) m p st (Suc k)))
                     [0..<length (info # rest)])
        = growth_warning p n @
          concat (map (\<lambda>k. growth_warning (step_count env d rest (Some df) n st2 k)
                                (step_count env d rest (Some df) n st2 (Suc k)))
                     [0..<length rest])"
    unfolding upt by (simp add: sc0 scS sc1 comp_def)
  then show ?case using Cons.IH[OF run] l2 by simp
qed

lemma rename_sample: "gen3_rename ''sample'' sample_table = renamed_sample_table"
  by (simp add: gen3_rename_def sample_table_def renamed_sample_table_def Let_def
      rename_column_def rename_step_def GEN3_subject notin_GEN3_tissue
      drop_duplicate_columns_def loc_columns_def duplicated_def select_by_def)

lemma sample_fetch_sample:
  "get_gen3_terra_table_to_df sample_env ''sample'' st = (Inr renamed_sample_table, st)"
  using fetch_first_attempt[of sample_env "''sample''" sample_table st]
  by (simp add: sample_env_def rename_sample)

lemma dedup_sample_against_subjects:
  "deduplicate_merge_data (Some renamed_subject_table) renamed_sample_table ''sample''
      (get_entity_id_column_name ''subject'') st
   = (Inr (Some renamed_subject_table,
           \<lparr>columns = [''sample_entity_id'', ''subject_entity_id'', ''sample_tissue''],
            rows = [[Str ''m1'', Str ''s1'', Str ''blood''],
                    [Str ''m3'', Str ''s2'', Str ''blood'']]\<rparr>),
      st\<lparr>logged := logged st @
          [WarnRemovedDuplicates 1 ''sample'' ''subject_entity_id'' [Str ''s1'']]\<rparr>)"
  by (simp add: deduplicate_merge_data_def get_column_def renamed_sample_table_def
      renamed_subject_table_def cell_at_def duplicated_def select_by_def
      select_rows_def drop_rows_def get_entity_id_column_name_def Let_def)

lemma merge_subject_samples:
  "merge_on_key renamed_subject_table
     \<lparr>columns = [''sample_entity_id'', ''subject_entity_id'', ''sample_tissue''],
      rows = [[Str ''m1'', Str ''s1'', Str ''blood''],
              [Str ''m3'', Str ''s2'', Str ''blood'']]\<rparr> subject_left_params
     = Inr subject_samples"
  by (simp add: merge_on_key_def subject_left_params_on subject_left_params_how
      renamed_subject_table_def subject_samples_def Let_def without_at_def cell_at_def)

lemma merge_samples_lab_results:
  "merge_on_key subject_samples renamed_lab_result_table subject_left_params
     = Inr subject_samples_lab_results"
  by (simp add: merge_on_key_def subject_left_params_on subject_left_params_how
      renamed_lab_result_table_def subject_samples_def subject_samples_lab_results_def
      Let_def without_at_def cell_at_def)

lemma drop_duplicate_columns_samples:
  "drop_duplicate_columns subject_samples = subject_samples"
  "drop_duplicate_columns subject_samples_lab_results = subject_samples_lab_results"
  by (simp_all add: subject_samples_def subject_samples_lab_results_def
      drop_duplicate_columns_def loc_columns_def duplicated_def select_by_def)

lemma sample_join_sample:
  assumes "get_table_names sample_env False st = (Inr names, st1)" "''sample'' \<in> set names"
  shows "join_table sample_env ''sample'' subject_left_params renamed_subject_table st =
           (Inr subject_samples,
            st1\<lparr>logged := logged st1 @
               [WarnRemovedDuplicates 1 ''sample'' ''subject_entity_id'' [Str ''s1''],
                InfoMerged ''sample'' (PyStr ''subject_entity_id'') (PyStr ''left'') 2 4]\<rparr>)"
proof -
  have l: "length (rows subject_samples) = 2" "length (columns subject_samples) = 4"
    by (simp_all add: subject_samples_def)
  show ?thesis
    using assms
    by (simp add: join_table_def sample_fetch_sample dedup_sample_against_subjects
        subject_left_params_on subject_left_params_how sample_env_merge merge_subject_samples
        drop_duplicate_columns_samples l)
qed

lemma sample_join_lab_result_after_samples:
  assumes "get_table_names sample_env False st = (Inr names, st1)" "''lab_result'' \<in> set names"
  shows "join_table sample_env ''lab_result'' subject_left_params subject_samples st =
           (Inr subject_samples_lab_results,
            st1\<lparr>logged := logged st1 @
               [InfoMerged ''lab_result'' (PyStr ''subject_entity_id'') (PyStr ''left'') 3 6]\<rparr>)"
proof -
  have l: "length (rows subject_samples_lab_results) = 3"
    "length (columns subject_samples_lab_results) = 6"
    by (simp_all add: subject_samples_lab_results_def)
  show ?thesis
    using assms
    by (simp add: join_table_def sample_fetch_lab_result
        subject_left_params_on subject_left_params_how sample_env_merge
        merge_samples_lab_results drop_duplicate_columns_samples l)
qed

lemma resolved_left_step:
  "substitute_entity_id_column_name
     (create_combined_merge_parameters (spec_default_merge_parameters two_step_spec) left_step)
   = subject_left_params"
  "substitute_entity_id_column_name
     (create_combined_merge_parameters (spec_default_merge_parameters two_step_spec) second_step)
   = subject_left_params"
  "substitute_entity_id_column_name
     (create_combined_merge_parameters (spec_default_merge_parameters growth_spec) lab_step)
   = subject_left_params"
  by (simp_all add: subject_left_params_def spec_default_merge_parameters_def two_step_spec_def
      growth_spec_def custom_spec_def create_combined_merge_parameters_def second_step_def
      left_step_def lab_step_def)

lemma sample_registry_names:
  "get_table_names sample_env False
     (initial_state\<lparr>data_table_info := Some sample_listing,
                    data_table_names := Some [''subject'', ''sample'', ''lab_result''],
                    logged := l\<rparr>)
   = (Inr [''subject'', ''sample'', ''lab_result''],
      initial_state\<lparr>data_table_info := Some sample_listing,
                     data_table_names := Some [''subject'', ''sample'', ''lab_result''],
                     logged := l\<rparr>)"
  by (simp add: get_table_names_def unset_or_empty_def initial_state_def)

lemma sample_first_step:
  "consolidate_tables_to_df sample_env [''subject'', ''sample''] subject_left_params None
     initial_state
   = (Inr subject_samples,
      initial_state\<lparr>data_table_info := Some sample_listing,
                     data_table_names := Some [''subject'', ''sample'', ''lab_result''],
                     logged :=
                       [WarnRemovedDuplicates 1 ''sample'' ''subject_entity_id'' [Str ''s1''],
                        InfoMerged ''sample'' (PyStr ''subject_entity_id'') (PyStr ''left'') 2 4]\<rparr>)"
  using sample_join_sample[OF sample_env_names_initial]
  by (simp add: consolidate_tables_to_df_def sample_fetch_subject initial_state_def)

lemma sample_second_step:
  "consolidate_tables_to_df sample_env [''lab_result''] subject_left_params (Some subject_samples)
     (initial_state\<lparr>data_table_info := Some sample_listing,
                     data_table_names := Some [''subject'', ''sample'', ''lab_result''],
                     logged := l\<rparr>)
   = (Inr subject_samples_lab_results,
      initial_state\<lparr>data_table_info := Some sample_listing,
                     data_table_names := Some [''subject'', ''sample'', ''lab_result''],
                     logged := l @
                       [InfoMerged ''lab_result'' (PyStr ''subject_entity_id'') (PyStr ''left'') 3 6]\<rparr>)"
  using sample_join_lab_result_after_samples[OF sample_registry_names, of l]
  by (simp add: consolidate_tables_to_df_def)

lemma sample_run_first:
  "consolidate_steps sample_env (spec_default_merge_parameters two_step_spec) [left_step]
     None (- 1) initial_state
   = (Inr (Some subject_samples),
      initial_state\<lparr>data_table_info := Some sample_listing,
                     data_table_names := Some [''subject'', ''sample'', ''lab_result''],
                     logged :=
                       [WarnRemovedDuplicates 1 ''sample'' ''subject_entity_id'' [Str ''s1''],
                        InfoMerged ''sample'' (PyStr ''subject_entity_id'') (PyStr ''left'') 2 4]\<rparr>)"
proof -
  have t: "table_names left_step = Some [''subject'', ''sample'']" by (simp add: left_step_def)
  show ?thesis
    by (simp add: Let_def t resolved_left_step sample_first_step)
qed

lemma sample_run_both:
  "consolidate_steps sample_env (spec_default_merge_parameters two_step_spec)
     [left_step, second_step] None (- 1) initial_state
   = (Inr (Some subject_samples_lab_results),
      initial_state\<lparr>data_table_info := Some sample_listing,
                     data_table_names := Some [''subject'', ''sample'', ''lab_result''],
                     logged :=
                       [WarnRemovedDuplicates 1 ''sample'' ''subject_entity_id'' [Str ''s1''],
                        InfoMerged ''sample'' (PyStr ''subject_entity_id'') (PyStr ''left'') 2 4,
                        InfoMerged ''lab_result'' (PyStr ''subject_entity_id'') (PyStr ''left'') 3 6,
                        WarnRowCountIncreased 1]\<rparr>)"
proof -
  have t: "table_names left_step = Some [''subject'', ''sample'']"
    "table_names second_step = Some [''lab_result'']"
    by (simp_all add: left_step_def second_step_def)
  have l: "length (rows subject_samples) = 2" "length (rows subject_samples_lab_results) = 3"
    by (simp_all add: subject_samples_def subject_samples_lab_results_def)
  show ?thesis
    by (simp add: Let_def t resolved_left_step sample_first_step sample_second_step l)
qed

lemma sample_run_growth:
  "consolidate_to_df sample_env growth_spec initial_state
   = (Inr (Some subject_lab_results),
      initial_state\<lparr>data_table_info := Some sample_listing,
                     data_table_names := Some [''subject'', ''sample'', ''lab_result''],
                     logged :=
                       [InfoMerged ''lab_result'' (PyStr ''subject_entity_id'') (PyStr ''left'') 3 4]\<rparr>)"
proof -
  have t: "table_names lab_step = Some [''subject'', ''lab_result'']" by (simp add: lab_step_def)
  have m: "merge_sequence growth_spec = Some [lab_step]" by (simp add: growth_spec_def)
  have s: "consolidate_tables_to_df sample_env [''subject'', ''lab_result''] subject_left_params
             None initial_state
           = (Inr subject_lab_results,
              initial_state\<lparr>data_table_info := Some sample_listing,
                     data_table_names := Some [''subject'', ''sample'', ''lab_result''],
                     logged :=
                       [InfoMerged ''lab_result'' (PyStr ''subject_entity_id'') (PyStr ''left'') 3 4]\<rparr>)"
    using sample_join_lab_result[OF sample_env_names_initial]
    by (simp add: consolidate_tables_to_df_def sample_fetch_subject initial_state_def)
  show ?thesis
    by (simp add: consolidate_to_df_def m Let_def t resolved_left_step s)
qed

lemma growth_warning_none: "growth_warning (- 1) b = []"
  by (simp add: growth_warning_def)

lemma upt_from_one: "steps \<noteq> [] \<Longrightarrow> [0..<length steps] = 0 # [1..<length steps]"
  by (cases steps) (simp_all add: upt_conv_Cons del: upt_Suc)

text \<open>
  C8 (as amended). The comparison of row counts is made once per join step, not per table
  joined: a step, with all the joins it makes, logs no row-count warning of its own, and
  after every step but the first the engine compares the row count of the accumulator
  with its row count after the step before and logs a warning, carrying the difference,
  exactly when it has grown. After the first step nothing is compared.
\<close>

theorem row_count_warning_per_step:
  assumes "consolidate_to_df env spec st = (Inr res, st')"
  shows "\<exists>steps. merge_sequence spec = Some steps
       \<and> row_count_warnings (logged st') =
           row_count_warnings (logged st) @
           concat (map (\<lambda>k. growth_warning
                               (step_count env (spec_default_merge_parameters spec) steps
                                  None (- 1) st k)
                               (step_count env (spec_default_merge_parameters spec) steps
                                  None (- 1) st (Suc k)))
                     [1..<length steps])
       \<and> (\<forall>names mp init s.
             row_count_warnings (logged (snd (consolidate_tables_to_df env names mp init s)))
               = row_count_warnings (logged s))
       \<and> (\<forall>a b. growth_warning a b = (if a \<noteq> - 1 \<and> a < b then [nat (b - a)] else []))"
proof -
  obtain steps where ms: "merge_sequence spec = Some steps"
    using assms by (cases "merge_sequence spec") (simp_all add: consolidate_to_df_def)
  let ?d = "spec_default_merge_parameters spec"
  have run: "consolidate_steps env ?d steps None (- 1) st = (Inr res, st')"
    using assms ms by (simp add: consolidate_to_df_def)
  have w: "row_count_warnings (logged st') =
           row_count_warnings (logged st) @
           concat (map (\<lambda>k. growth_warning (step_count env ?d steps None (- 1) st k)
                               (step_count env ?d steps None (- 1) st (Suc k)))
                     [1..<length steps])"
  proof (cases "steps = []")
    case True
    then show ?thesis using run by simp
  next
    case False
    have z: "step_count env ?d steps None (- 1) st 0 = - 1" by (simp add: step_count_def)
    show ?thesis
      using steps_warnings[OF run]
      unfolding upt_from_one[OF False] by (simp add: z growth_warning_none)
  qed
  have n: "\<forall>names mp init s.
             row_count_warnings (logged (snd (consolidate_tables_to_df env names mp init s)))
               = row_count_warnings (logged s)"
  proof (intro allI)
    fix names mp init s
    obtain r s' where c: "consolidate_tables_to_df env names mp init s = (r, s')"
      by (cases "consolidate_tables_to_df env names mp init s")
    show "row_count_warnings (logged (snd (consolidate_tables_to_df env names mp init s)))
               = row_count_warnings (logged s)"
      using step_no_row_count_warning[OF c] by (simp add: c)
  qed
  have g: "\<forall>a b. growth_warning a b = (if a \<noteq> - 1 \<and> a < b then [nat (b - a)] else [])"
    by (simp add: growth_warning_def)
  show ?thesis
    by (rule exI[of _ steps]) (rule conjI[OF ms conjI[OF w conjI[OF n g]]])
qed

theorem row_count_warning_per_step_witness:
  "consolidate_to_df sample_env two_step_spec initial_state
   = (Inr (Some subject_samples_lab_results),
      initial_state\<lparr>data_table_info := Some sample_listing,
                     data_table_names := Some [''subject'', ''sample'', ''lab_result''],
                     logged :=
                       [WarnRemovedDuplicates 1 ''sample'' ''subject_entity_id'' [Str ''s1''],
                        InfoMerged ''sample'' (PyStr ''subject_entity_id'') (PyStr ''left'') 2 4,
                        InfoMerged ''lab_result'' (PyStr ''subject_entity_id'') (PyStr ''left'') 3 6,
                        WarnRowCountIncreased 1]\<rparr>)
   \<and> step_count sample_env (spec_default_merge_parameters two_step_spec)
        [left_step, second_step] None (- 1) initial_state 1 = 2
   \<and> step_count sample_env (spec_default_merge_parameters two_step_spec)
        [left_step, second_step] None (- 1) initial_state 2 = 3
   \<and> row_count_warnings
        [WarnRemovedDuplicates 1 ''sample'' ''subject_entity_id'' [Str ''s1''],
         InfoMerged ''sample'' (PyStr ''subject_entity_id'') (PyStr ''left'') 2 4,
         InfoMerged ''lab_result'' (PyStr ''subject_entity_id'') (PyStr ''left'') 3 6,
         WarnRowCountIncreased 1]
      = growth_warning 2 3"
proof -
  let ?d = "spec_default_merge_parameters two_step_spec"
  let ?log = "[WarnRemovedDuplicates 1 ''sample'' ''subject_entity_id'' [Str ''s1''],
         InfoMerged ''sample'' (PyStr ''subject_entity_id'') (PyStr ''left'') 2 4,
         InfoMerged ''lab_result'' (PyStr ''subject_entity_id'') (PyStr ''left'') 3 6,
         WarnRowCountIncreased 1]"
  have ms: "merge_sequence two_step_spec = Some [left_step, second_step]"
    by (simp add: two_step_spec_def)
  have run: "consolidate_to_df sample_env two_step_spec initial_state
   = (Inr (Some subject_samples_lab_results),
      initial_state\<lparr>data_table_info := Some sample_listing,
                     data_table_names := Some [''subject'', ''sample'', ''lab_result''],
                     logged := ?log\<rparr>)"
    unfolding consolidate_to_df_def ms option.case by (rule sample_run_both)
  have l: "length (rows subject_samples) = 2" "length (rows subject_samples_lab_results) = 3"
    by (simp_all add: subject_samples_def subject_samples_lab_results_def)
  have t1: "take 1 [left_step, second_step] = [left_step]" by simp
  have c1: "step_count sample_env ?d [left_step, second_step] None (- 1) initial_state 1 = 2"
    unfolding step_count_def t1 sample_run_first by (simp add: l)
  have t2: "take 2 [left_step, second_step] = [left_step, second_step]" by simp
  have c2: "step_count sample_env ?d [left_step, second_step] None (- 1) initial_state 2 = 3"
    unfolding step_count_def t2 sample_run_both by (simp add: l)
  from row_count_warning_per_step[OF run] obtain steps where
    s: "merge_sequence two_step_spec = Some steps"
    and w: "row_count_warnings (logged (initial_state\<lparr>data_table_info := Some sample_listing,
                     data_table_names := Some [''subject'', ''sample'', ''lab_result''],
                     logged := ?log\<rparr>)) =
           row_count_warnings (logged initial_state) @
           concat (map (\<lambda>k. growth_warning (step_count sample_env ?d steps None (- 1) initial_state k)
                               (step_count sample_env ?d steps None (- 1) initial_state (Suc k)))
                     [1..<length steps])"
    by (elim exE conjE)
  have steps: "steps = [left_step, second_step]" using s ms by simp
  have u: "[1..<length [left_step, second_step]] = [1]" by (simp add: upt_rec)
  have s2: "Suc 1 = 2" by simp
  have "row_count_warnings ?log = growth_warning 2 3"
    using w unfolding steps u by (simp only: list.map concat.simps append_Nil2 s2 c1 c2)
       (simp add: initial_state_def)
  with run c1 c2 show ?thesis by (intro conjI)
qed

text \<open>
  The claim as stated fails within a step: joining the lab results to the two subjects
  gives three rows, and the run, of one step, logs no row-count warning.
\<close>

theorem row_count_warning_counterexample:
  "consolidate_to_df sample_env growth_spec initial_state
   = (Inr (Some subject_lab_results),
      initial_state\<lparr>data_table_info := Some sample_listing,
                     data_table_names := Some [''subject'', ''sample'', ''lab_result''],
                     logged :=
                       [InfoMerged ''lab_result'' (PyStr ''subject_entity_id'') (PyStr ''left'') 3 4]\<rparr>)
   \<and> get_gen3_terra_table_to_df sample_env ''subject'' initial_state
       = (Inr renamed_subject_table, initial_state)
   \<and> length (rows renamed_subject_table) = 2
   \<and> length (rows subject_lab_results) = 3
   \<and> filter is_row_count_warning
        [InfoMerged ''lab_result'' (PyStr ''subject_entity_id'') (PyStr ''left'') 3 4] = []"
proof -
  have l: "length (rows renamed_subject_table) = 2" "length (rows subject_lab_results) = 3"
    by (simp_all add: renamed_subject_table_def subject_lab_results_def)
  have f: "filter is_row_count_warning
        [InfoMerged ''lab_result'' (PyStr ''subject_entity_id'') (PyStr ''left'') 3 4] = []"
    by (simp add: is_row_count_warning_def)
  show ?thesis
    by (rule conjI[OF sample_run_growth conjI[OF sample_fetch_subject conjI[OF l(1) conjI[OF l(2) f]]]])
qed

subsection \<open>The uploaded table\<close>

lemma get_table_info_writes:
  assumes "get_table_info env t b st = (r, st')"
  shows "writes st' = writes st"
proof (cases "unset_or_empty (data_table_info st) \<or> b")
  case True
  obtain r0 s0 where rf: "refresh env st = (r0, s0)" by (cases "refresh env st")
  have w: "writes s0 = writes st" using refresh_frame[OF rf] by simp
  from assms True rf have "st' = s0"
    by (auto simp: get_table_info_def split: sum.splits option.splits if_splits)
  with w show ?thesis by simp
next
  case False
  with assms have "st' = st"
    by (auto simp: get_table_info_def split: sum.splits option.splits if_splits)
  then show ?thesis by simp
qed

lemma note_existing_table_writes:
  assumes "note_existing_table env N st = (r, st')"
  shows "writes st' = writes st"
proof -
  obtain r1 s1 where n: "get_table_names env False st = (r1, s1)"
    by (cases "get_table_names env False st")
  have w1: "writes s1 = writes st" using get_table_names_frame[OF n] by simp
  obtain r2 s2 where i: "get_table_info env N False s1 = (r2, s2)"
    by (cases "get_table_info env N False s1")
  have w2: "writes s2 = writes s1" using get_table_info_writes[OF i] .
  from assms n i have "writes st' = writes s1 \<or> writes st' = writes s2"
    by (auto simp: note_existing_table_def split: sum.splits option.splits if_splits prod.splits)
  with w1 w2 show ?thesis by auto
qed

lemma consolidate_steps_writes:
  assumes "consolidate_steps env d steps m p st = (r, st')"
  shows "writes st' = writes st"
  using assms
proof (induction steps arbitrary: m p st)
  case Nil
  then show ?case by simp
next
  case (Cons info rest)
  show ?case
  proof (cases "table_names info")
    case None
    with Cons.prems show ?thesis by (simp add: Let_def)
  next
    case (Some names)
    let ?mp = "substitute_entity_id_column_name (create_combined_merge_parameters d info)"
    obtain r1 s1 where c: "consolidate_tables_to_df env names ?mp m st = (r1, s1)"
      by (cases "consolidate_tables_to_df env names ?mp m st")
    have w1: "writes s1 = writes st" using consolidate_tables_to_df_log[OF c] by simp
    show ?thesis
    proof (cases r1)
      case (Inl e)
      with Cons.prems Some c have "st' = s1" by (simp add: Let_def)
      with w1 show ?thesis by simp
    next
      case (Inr df)
      let ?s2 = "(if p \<noteq> - 1 \<and> p < int (length (rows df))
              then s1\<lparr>logged := logged s1 @
                     [WarnRowCountIncreased (nat (int (length (rows df)) - p))]\<rparr>
              else s1)"
      have "consolidate_steps env d rest (Some df) (int (length (rows df))) ?s2 = (r, st')"
        using Cons.prems consolidate_steps_Cons[OF Some c[unfolded Inr], of rest p] by simp
      from Cons.IH[OF this] have "writes st' = writes ?s2" .
      with w1 show ?thesis by simp
    qed
  qed
qed

lemma consolidate_to_df_writes:
  assumes "consolidate_to_df env spec st = (r, st')"
  shows "writes st' = writes st"
  using assms consolidate_steps_writes
  by (cases "merge_sequence spec") (auto simp: consolidate_to_df_def)

lemma report_sizes_writes:
  assumes "report_sizes N a b actual st = (r, st')"
  shows "writes st' = writes st"
  using assms by (auto simp: report_sizes_def split: option.splits if_splits)

lemma add_entity_id_column_Inr:
  assumes "add_entity_id_column odf N c = Inr out"
  shows "\<exists>acc vals. odf = Some acc \<and> get_column acc c = Inr vals
           \<and> (''entity:'' @ N @ ''_id'') \<notin> set (columns acc)
           \<and> out = \<lparr>columns = (''entity:'' @ N @ ''_id'') # columns acc,
                     rows = map (\<lambda>(v, r). v # r) (zip vals (rows acc))\<rparr>"
  using assms
  by (auto simp: add_entity_id_column_def insert_first_def split: option.splits sum.splits if_splits)

lemma upload_entities_df_writes:
  assumes "upload_entities_df env df default_chunk_size st = Some (Inr u, st')"
  shows "writes st' = writes st @ expected_chunks df default_chunk_size"
proof -
  have "1 \<le> default_chunk_size" by (simp add: default_chunk_size_def)
  from upload_entities_df_run[OF this, of env df st] obtain r s k where
    R: "upload_entities_df env df default_chunk_size st = Some (r, s)"
       "writes s = writes st @ take k (expected_chunks df default_chunk_size)"
       "r = Inr () \<longrightarrow> k = length (expected_chunks df default_chunk_size)"
    by (elim exE conjE)
  from R(1) assms have "r = Inr u" "s = st'" by simp_all
  then have "r = Inr ()" by simp
  with R(3) have "k = length (expected_chunks df default_chunk_size)" by simp
  with R(2) \<open>s = st'\<close> show ?thesis by simp
qed

lemma map_hd_zip: "length vs = length rs \<Longrightarrow> map hd (map (\<lambda>(v, r). v # r) (zip vs rs)) = vs"
  by (induction vs rs rule: list_induct2) simp_all

lemma map_tl_zip: "length vs = length rs \<Longrightarrow> map tl (map (\<lambda>(v, r). v # r) (zip vs rs)) = rs"
  by (induction vs rs rule: list_induct2) simp_all

lemma inserted_rows:
  assumes "get_column acc c = Inr vals"
  shows "map hd (map (\<lambda>(v, r). v # r) (zip vals (rows acc))) = vals"
    and "map tl (map (\<lambda>(v, r). v # r) (zip vals (rows acc))) = rows acc"
    and "vals = map (\<lambda>r. cell_at r (index_of c (columns acc))) (rows acc)"
    and "c \<in> set (columns acc)"
proof -
  from assms show v: "vals = map (\<lambda>r. cell_at r (index_of c (columns acc))) (rows acc)"
    and "c \<in> set (columns acc)"
    by (auto simp: get_column_def split: if_splits)
  then have l: "length vals = length (rows acc)" by simp
  show "map hd (map (\<lambda>(v, r). v # r) (zip vals (rows acc))) = vals"
    using l by (rule map_hd_zip)
  show "map tl (map (\<lambda>(v, r). v # r) (zip vals (rows acc))) = rows acc"
    using l by (rule map_tl_zip)
qed

lemma dedup_columns:
  assumes "deduplicate_merge_data mo cur n k st = (Inr (mo', cur'), st')"
  shows "columns cur' = columns cur"
    and "mo = None \<Longrightarrow> mo' = None"
    and "mo = Some m \<Longrightarrow> \<exists>m'. mo' = Some m' \<and> columns m' = columns m"
  using assms
  by (auto simp: deduplicate_merge_data_def drop_rows_def Let_def
      split: sum.splits option.splits if_splits)

lemma join_table_distinct:
  assumes "join_table env t mp m st = (Inr m', st')" and "distinct (columns m)"
  shows "distinct (columns m')"
proof -
  obtain r1 s1 where n: "get_table_names env False st = (r1, s1)"
    by (cases "get_table_names env False st")
  show ?thesis
  proof (cases r1)
    case (Inl e)
    with assms(1) n show ?thesis by (simp add: join_table_def)
  next
    case (Inr names)
    show ?thesis
    proof (cases "t \<in> set names")
      case False
      with assms n Inr show ?thesis by (simp add: join_table_def)
    next
      case True
      from assms(1) n Inr True have "\<exists>joined. m' = drop_duplicate_columns joined"
        by (auto simp: join_table_def Let_def split: sum.splits option.splits prod.splits if_splits)
      then show ?thesis by (auto simp: columns_drop_duplicate_columns)
    qed
  qed
qed

lemma join_tables_distinct:
  assumes "join_tables env ts mp m st = (Inr m', st')" and "distinct (columns m)"
  shows "distinct (columns m')"
  using assms
proof (induction ts arbitrary: m st)
  case Nil
  then show ?case by simp
next
  case (Cons t ts)
  obtain r1 s1 where j: "join_table env t mp m st = (r1, s1)"
    by (cases "join_table env t mp m st")
  show ?case
  proof (cases r1)
    case (Inl e)
    with Cons.prems(1) j show ?thesis by simp
  next
    case (Inr m1)
    have d1: "distinct (columns m1)"
      using join_table_distinct[OF j[unfolded Inr] Cons.prems(2)] .
    have "join_tables env ts mp m1 s1 = (Inr m', st')"
      using Cons.prems(1) j Inr by simp
    from Cons.IH[OF this d1] show ?thesis .
  qed
qed

lemma consolidate_tables_to_df_distinct:
  assumes "consolidate_tables_to_df env names mp init st = (Inr m', st')"
    and "\<And>m. init = Some m \<Longrightarrow> distinct (columns m)"
  shows "distinct (columns m')"
proof (cases init)
  case (Some m)
  with assms(1) have "join_tables env names mp m st = (Inr m', st')"
    by (simp add: consolidate_tables_to_df_def split: if_splits)
  from join_tables_distinct[OF this assms(2)[OF Some]] show ?thesis .
next
  case None
  show ?thesis
  proof (cases names)
    case Nil
    with assms(1) None show ?thesis by (simp add: consolidate_tables_to_df_def)
  next
    case (Cons t rest)
    obtain r1 s1 where f: "get_gen3_terra_table_to_df env t st = (r1, s1)"
      by (cases "get_gen3_terra_table_to_df env t st")
    show ?thesis
    proof (cases r1)
      case (Inl e)
      with assms(1) None Cons f show ?thesis
        by (simp add: consolidate_tables_to_df_def split: if_splits)
    next
      case (Inr first_df)
      have d0: "distinct (columns first_df)"
        using f Inr distinct_gen3_rename
        by (auto simp: get_gen3_terra_table_to_df_def split: sum.splits prod.splits)
      from assms(1) None Cons f Inr have
        "\<exists>first_df' s2. columns first_df' = columns first_df
            \<and> join_tables env rest mp first_df' s2 = (Inr m', st')"
        by (auto simp: consolidate_tables_to_df_def
            split: if_splits sum.splits prod.splits dest: dedup_columns(1))
      then obtain first_df' s2 where c: "columns first_df' = columns first_df"
        and j: "join_tables env rest mp first_df' s2 = (Inr m', st')"
        by (elim exE conjE)
      from join_tables_distinct[OF j] c d0 show ?thesis by simp
    qed
  qed
qed

lemma consolidate_steps_distinct:
  assumes "consolidate_steps env d steps m p st = (Inr (Some acc), st')"
    and "\<And>x. m = Some x \<Longrightarrow> distinct (columns x)"
  shows "distinct (columns acc)"
  using assms
proof (induction steps arbitrary: m p st)
  case Nil
  then show ?case by simp
next
  case (Cons info rest)
  from consolidate_steps_success[OF Cons.prems(1)] obtain names df s1 where
    t: "table_names info = Some names"
    and c: "consolidate_tables_to_df env names
           (substitute_entity_id_column_name (create_combined_merge_parameters d info)) m st
         = (Inr df, s1)"
    by blast
  have dd: "distinct (columns df)"
    using consolidate_tables_to_df_distinct[OF c Cons.prems(2)] by simp
  let ?s2 = "(if p \<noteq> - 1 \<and> p < int (length (rows df))
              then s1\<lparr>logged := logged s1 @
                     [WarnRowCountIncreased (nat (int (length (rows df)) - p))]\<rparr>
              else s1)"
  have "consolidate_steps env d rest (Some df) (int (length (rows df))) ?s2 = (Inr (Some acc), st')"
    using Cons.prems(1) consolidate_steps_Cons[OF t c, of rest p] by simp
  from Cons.IH[OF this] dd show ?case by simp
qed

lemma consolidate_to_df_distinct:
  assumes "consolidate_to_df env spec st = (Inr (Some acc), st')"
  shows "distinct (columns acc)"
proof (cases "merge_sequence spec")
  case None
  with assms show ?thesis by (simp add: consolidate_to_df_def)
next
  case (Some steps)
  with assms have "consolidate_steps env (spec_default_merge_parameters spec) steps None (- 1) st
                     = (Inr (Some acc), st')"
    by (simp add: consolidate_to_df_def)
  from consolidate_steps_distinct[OF this] show ?thesis by simp
qed

lemma sample_note_consolidated:
  "note_existing_table sample_env ''consolidated'' initial_state =
     (Inr (), initial_state\<lparr>data_table_info := Some sample_listing,
                     data_table_names := Some [''subject'', ''sample'', ''lab_result'']\<rparr>)"
  by (simp add: note_existing_table_def sample_env_names_initial)

lemma resolved_lab_index_step:
  "substitute_entity_id_column_name
     (create_combined_merge_parameters (spec_default_merge_parameters lab_index_spec) lab_step)
   = subject_left_params"
proof -
  have "spec_default_merge_parameters lab_index_spec = spec_default_merge_parameters growth_spec"
    by (simp add: spec_default_merge_parameters_def lab_index_spec_def growth_spec_def)
  then show ?thesis by (simp add: resolved_left_step(3))
qed

lemma sample_run_lab_index:
  "consolidate_to_df sample_env lab_index_spec
     (initial_state\<lparr>data_table_info := Some sample_listing,
                     data_table_names := Some [''subject'', ''sample'', ''lab_result'']\<rparr>)
   = (Inr (Some subject_lab_results),
      initial_state\<lparr>data_table_info := Some sample_listing,
                     data_table_names := Some [''subject'', ''sample'', ''lab_result''],
                     logged :=
                       [InfoMerged ''lab_result'' (PyStr ''subject_entity_id'') (PyStr ''left'') 3 4]\<rparr>)"
proof -
  have t: "table_names lab_step = Some [''subject'', ''lab_result'']" by (simp add: lab_step_def)
  have m: "merge_sequence lab_index_spec = Some [lab_step]" by (simp add: lab_index_spec_def)
  have s: "consolidate_tables_to_df sample_env [''subject'', ''lab_result''] subject_left_params
             None (initial_state\<lparr>data_table_info := Some sample_listing,
                     data_table_names := Some [''subject'', ''sample'', ''lab_result'']\<rparr>)
           = (Inr subject_lab_results,
              initial_state\<lparr>data_table_info := Some sample_listing,
                     data_table_names := Some [''subject'', ''sample'', ''lab_result''],
                     logged :=
                       [InfoMerged ''lab_result'' (PyStr ''subject_entity_id'') (PyStr ''left'') 3 4]\<rparr>)"
    using sample_join_lab_result[OF sample_registry_names[of "[]"]]
    by (simp add: consolidate_tables_to_df_def sample_fetch_subject initial_state_def)
  show ?thesis
    by (simp add: consolidate_to_df_def m Let_def t resolved_lab_index_step s)
qed

lemma sample_add_entity_id_column:
  "add_entity_id_column (Some subject_lab_results) ''consolidated'' ''lab_result_entity_id''
     = Inr consolidated_table"
  by (simp add: add_entity_id_column_def get_column_def insert_first_def
      subject_lab_results_def consolidated_table_def cell_at_def)

lemma consolidated_chunks:
  "expected_chunks consolidated_table default_chunk_size = [consolidated_table]"
  by (simp add: expected_chunks_def default_chunk_size_def consolidated_table_def chunks_of.simps)

lemma sample_table_info_after_upload:
  assumes "writes st = [consolidated_table]"
  shows "\<exists>st'. get_table_info sample_env ''consolidated'' True st =
           (Inr (Some (3, 5, [''subject_entity_id'', ''subject_submitter_id'',
                              ''lab_result_entity_id'', ''lab_result_value''])), st')"
  using assms
  by (simp add: get_table_info_def refresh_def sample_env_def listing_of_writes_def
      sample_listing_def consolidated_table_def)

lemma sample_upload:
  assumes "writes st = []"
  shows "\<exists>st'. upload_entities_df sample_env consolidated_table default_chunk_size st
           = Some (Inr (), st') \<and> writes st' = [consolidated_table]"
proof -
  have "1 \<le> default_chunk_size" by (simp add: default_chunk_size_def)
  from upload_entities_df_run[OF this, of sample_env consolidated_table st] obtain r s k where
    R: "upload_entities_df sample_env consolidated_table default_chunk_size st = Some (r, s)"
       "writes s = writes st @ take k (expected_chunks consolidated_table default_chunk_size)"
       "r = Inr () \<longrightarrow> k = length (expected_chunks consolidated_table default_chunk_size)"
       "(\<forall>c\<in>set (expected_chunks consolidated_table default_chunk_size).
            chunk_write_result sample_env c = Inr ()) \<longrightarrow> r = Inr ()"
    by (elim exE conjE)
  have ok: "\<forall>c\<in>set (expected_chunks consolidated_table default_chunk_size).
              chunk_write_result sample_env c = Inr ()"
    by (simp add: chunk_write_ok sample_env_def)
  with R(4) have r: "r = Inr ()" by simp
  with R(3) have k: "k = 1" by (simp add: consolidated_chunks)
  have w: "writes s = [consolidated_table]" using R(2) k assms by (simp add: consolidated_chunks)
  show ?thesis
    apply (rule exI[of _ s])
    using R(1) r w apply simp
    done
qed

lemma sample_consolidation_run:
  "\<exists>st'. consolidate_to_terra_table sample_env lab_index_spec ''consolidated'' initial_state
           = Some (Inr (), st')"
proof -
  let ?s2 = "initial_state\<lparr>data_table_info := Some sample_listing,
                     data_table_names := Some [''subject'', ''sample'', ''lab_result''],
                     logged :=
                       [InfoMerged ''lab_result'' (PyStr ''subject_entity_id'') (PyStr ''left'') 3 4]\<rparr>"
  have sel: "(case final_index_source_column lab_index_spec of
                None \<Rightarrow> None
              | Some c \<Rightarrow> if length c \<noteq> 0 then Some c else None) = Some ''lab_result_entity_id''"
    by (simp add: lab_index_spec_def)
  have "writes ?s2 = []" by (simp add: initial_state_def)
  from sample_upload[OF this] obtain s3 where
    u: "upload_entities_df sample_env consolidated_table default_chunk_size ?s2 = Some (Inr (), s3)"
    and w: "writes s3 = [consolidated_table]"
    by (elim exE conjE)
  from sample_table_info_after_upload[OF w] obtain s4 where
    i: "get_table_info sample_env ''consolidated'' True s3 =
           (Inr (Some (3, 5, [''subject_entity_id'', ''subject_submitter_id'',
                              ''lab_result_entity_id'', ''lab_result_value''])), s4)"
    by (elim exE)
  have l: "length (rows consolidated_table) = 3" "length (columns consolidated_table) = 5"
    by (simp_all add: consolidated_table_def)
  show ?thesis
    unfolding consolidate_to_terra_table_def sel option.case sample_note_consolidated prod.case
      sum.case sample_run_lab_index sample_add_entity_id_column u i l
    by (simp add: report_sizes_def)
qed


text \<open>
  C9. A run of \<^verbatim>\<open>consolidate_to_terra_table\<close> for the new table name \<open>N\<close> that returns
  without an error, under a specification whose \<^verbatim>\<open>final_index_source_column\<close> is the
  non-empty label \<open>c\<close>, has merged the tables into an accumulator \<open>acc\<close> with distinct
  labels, \<open>c\<close> among them, and has written to the store, and only written, the chunks of
  the frame \<open>out\<close>: its first label is exactly \<^verbatim>\<open>entity:<N>_id\<close> and the labels after it
  are those of the accumulator in their order; the first cell of each row is the cell of
  column \<open>c\<close> of the same row of the accumulator, and the rest of the row is that row.
  Every chunk carries these labels, and the chunks together are the rows of \<open>out\<close> in order.
\<close>

theorem consolidated_table_layout:
  assumes run: "consolidate_to_terra_table env spec N st = Some (Inr (), st')"
    and col: "final_index_source_column spec = Some c" "c \<noteq> []"
  shows "\<exists>acc vals out s1 s2.
       note_existing_table env N st = (Inr (), s1)
     \<and> consolidate_to_df env spec s1 = (Inr (Some acc), s2)
     \<and> distinct (columns acc)
     \<and> get_column acc c = Inr vals
     \<and> vals = map (\<lambda>r. cell_at r (index_of c (columns acc))) (rows acc)
     \<and> add_entity_id_column (Some acc) N c = Inr out
     \<and> columns out = (''entity:'' @ N @ ''_id'') # columns acc
     \<and> map hd (rows out) = vals
     \<and> map tl (rows out) = rows acc
     \<and> writes st' = writes st @ expected_chunks out default_chunk_size
     \<and> (\<forall>ch\<in>set (expected_chunks out default_chunk_size).
           columns ch = (''entity:'' @ N @ ''_id'') # columns acc)
     \<and> concat (map rows (expected_chunks out default_chunk_size)) = rows out"
proof -
  have sel: "(case final_index_source_column spec of
                None \<Rightarrow> None
              | Some c \<Rightarrow> if length c \<noteq> 0 then Some c else None) = Some c"
    using col by simp
  obtain r1 s1 where n: "note_existing_table env N st = (r1, s1)"
    by (cases "note_existing_table env N st")
  obtain r2 s2 where d: "consolidate_to_df env spec s1 = (r2, s2)"
    by (cases "consolidate_to_df env spec s1")
  note run1 = run[unfolded consolidate_to_terra_table_def sel option.case n prod.case]
  have r1: "r1 = Inr ()" using run1 by (cases r1) simp_all
  note run2 = run1[unfolded r1 sum.case d prod.case]
  obtain odf where r2: "r2 = Inr odf" using run2 by (cases r2) simp_all
  note run3 = run2[unfolded r2 sum.case]
  obtain out where a: "add_entity_id_column odf N c = Inr out"
    using run3 by (cases "add_entity_id_column odf N c") simp_all
  note run4 = run3[unfolded a sum.case]
  from add_entity_id_column_Inr[OF a] obtain acc vals where
    odf: "odf = Some acc" and g: "get_column acc c = Inr vals"
    and out: "out = \<lparr>columns = (''entity:'' @ N @ ''_id'') # columns acc,
                     rows = map (\<lambda>(v, r). v # r) (zip vals (rows acc))\<rparr>"
    by (elim exE conjE)
  obtain r3 s3 where u: "upload_entities_df env out default_chunk_size s2 = Some (r3, s3)"
    using run4 by (cases "upload_entities_df env out default_chunk_size s2") auto
  note run5 = run4[unfolded u option.case prod.case]
  have r3: "r3 = Inr ()" using run5 by (cases r3) simp_all
  note run6 = run5[unfolded r3 sum.case]
  obtain r4 s4 where i: "get_table_info env N True s3 = (r4, s4)"
    by (cases "get_table_info env N True s3")
  note run7 = run6[unfolded i prod.case]
  obtain actual where r4: "r4 = Inr actual" using run7 by (cases r4) simp_all
  have rep: "report_sizes N (length (rows out)) (length (columns out)) actual s4 = (Inr (), st')"
    using run7 unfolding r4 by simp
  have w1: "writes s1 = writes st" using note_existing_table_writes[OF n] .
  have w2: "writes s2 = writes s1" using consolidate_to_df_writes[OF d] .
  have w3: "writes s3 = writes s2 @ expected_chunks out default_chunk_size"
    using upload_entities_df_writes[OF u[unfolded r3]] .
  have w4: "writes s4 = writes s3" using get_table_info_writes[OF i] .
  have w5: "writes st' = writes s4" using report_sizes_writes[OF rep] .
  have w: "writes st' = writes st @ expected_chunks out default_chunk_size"
    using w1 w2 w3 w4 w5 by simp
  have cols: "columns out = (''entity:'' @ N @ ''_id'') # columns acc" using out by simp
  have hd: "map hd (rows out) = vals" using inserted_rows(1)[OF g] out by simp
  have tl: "map tl (rows out) = rows acc" using inserted_rows(2)[OF g] out by simp
  have v: "vals = map (\<lambda>r. cell_at r (index_of c (columns acc))) (rows acc)"
    using inserted_rows(3)[OF g] .
  have ch: "\<forall>ch\<in>set (expected_chunks out default_chunk_size).
           columns ch = (''entity:'' @ N @ ''_id'') # columns acc"
    using expected_chunks_shape[of _ out default_chunk_size] cols by simp
  have cc: "concat (map rows (expected_chunks out default_chunk_size)) = rows out"
    by (rule expected_chunks_concat) (simp add: default_chunk_size_def)
  have n': "note_existing_table env N st = (Inr (), s1)" using n r1 by simp
  have d': "consolidate_to_df env spec s1 = (Inr (Some acc), s2)" using d r2 odf by simp
  have a': "add_entity_id_column (Some acc) N c = Inr out" using a odf by simp
  have dist: "distinct (columns acc)" using consolidate_to_df_distinct[OF d'] .
  show ?thesis
    apply (rule exI[of _ acc])
    apply (rule exI[of _ vals])
    apply (rule exI[of _ out])
    apply (rule exI[of _ s1])
    apply (rule exI[of _ s2])
    apply (rule conjI[OF n'])
    apply (rule conjI[OF d'])
    apply (rule conjI[OF dist])
    apply (rule conjI[OF g])
    apply (rule conjI[OF v])
    apply (rule conjI[OF a'])
    apply (rule conjI[OF cols])
    apply (rule conjI[OF hd])
    apply (rule conjI[OF tl])
    apply (rule conjI[OF w])
    apply (rule conjI[OF ch])
    apply (rule cc)
    done
qed

theorem consolidated_table_layout_witness:
  "\<exists>st'. consolidate_to_terra_table sample_env lab_index_spec ''consolidated'' initial_state
           = Some (Inr (), st')
     \<and> get_column subject_lab_results ''lab_result_entity_id''
           = Inr [Str ''l1'', Str ''l2'', Str ''l3'']
     \<and> writes st' =
         [\<lparr>columns = [''entity:consolidated_id'', ''subject_entity_id'', ''subject_submitter_id'',
                      ''lab_result_entity_id'', ''lab_result_value''],
           rows = [[Str ''l1'', Str ''s1'', Str ''A'', Str ''l1'', Num 5],
                   [Str ''l2'', Str ''s1'', Str ''A'', Str ''l2'', Num 6],
                   [Str ''l3'', Str ''s2'', Str ''B'', Str ''l3'', Num 7]]\<rparr>]"
proof -
  from sample_consolidation_run obtain st' where
    run: "consolidate_to_terra_table sample_env lab_index_spec ''consolidated'' initial_state
           = Some (Inr (), st')"
    by (elim exE)
  have c: "final_index_source_column lab_index_spec = Some ''lab_result_entity_id''"
    by (simp add: lab_index_spec_def)
  have ne: "''lab_result_entity_id'' \<noteq> []" by simp
  from consolidated_table_layout[OF run c ne] obtain acc vals out s1 s2 where
    L: "note_existing_table sample_env ''consolidated'' initial_state = (Inr (), s1)"
       "consolidate_to_df sample_env lab_index_spec s1 = (Inr (Some acc), s2)"
       "get_column acc ''lab_result_entity_id'' = Inr vals"
       "add_entity_id_column (Some acc) ''consolidated'' ''lab_result_entity_id'' = Inr out"
       "writes st' = writes initial_state @ expected_chunks out default_chunk_size"
    by (elim exE conjE)
  have s1: "s1 = initial_state\<lparr>data_table_info := Some sample_listing,
                     data_table_names := Some [''subject'', ''sample'', ''lab_result'']\<rparr>"
    using L(1) unfolding sample_note_consolidated by simp
  have acc: "acc = subject_lab_results"
    using L(2) unfolding s1 sample_run_lab_index by simp
  have out: "out = consolidated_table"
    using L(4) unfolding acc sample_add_entity_id_column by simp
  have w: "writes st' = [consolidated_table]"
    using L(5) unfolding out consolidated_chunks by (simp add: initial_state_def)
  have g: "get_column subject_lab_results ''lab_result_entity_id''
           = Inr [Str ''l1'', Str ''l2'', Str ''l3'']"
    by (simp add: get_column_def subject_lab_results_def cell_at_def)
  show ?thesis
    apply (rule exI[of _ st'])
    apply (rule conjI[OF run])
    apply (rule conjI[OF g])
    using w apply (simp add: consolidated_table_def)
    done
qed

end
